theory Spec2Isabelle
  imports Main "HOL-Library.Monad_Syntax"
begin

section \<open>Values exchanged with the server\<close>

text \<open>
  The Python values the client handles are the ones a JSON document decodes to:
  \<open>None\<close>, booleans, integers, floats (kept as mantissa and decimal exponent), strings,
  lists and dictionaries.  A dictionary is an association list in insertion order whose
  keys are looked up with \<open>map_of\<close>.  \<open>JNull\<close> is Python's \<open>None\<close>.
\<close>

datatype json =
    JNull
  | JBool bool
  | JInt int
  | JFloat int int
  | JString string
  | JArray "json list"
  | JObject "(string \<times> json) list"

section \<open>exceptions.py\<close>

text \<open>
  \<open>GutsError.__init__\<close> stores \<open>message\<close>, \<open>status_code\<close> and \<open>details\<close>.  The message is
  annotated \<open>str\<close> but is whatever the caller passes (the transport passes the value
  found under the \<open>"message"\<close> key of the response), so it is a \<open>json\<close> value here; the
  details are \<open>Optional[Any]\<close>, \<open>JNull\<close> standing for \<open>None\<close>.
\<close>

record GutsError_fields =
  message :: json
  status_code :: int
  details :: json

text \<open>One constructor per exception class; \<open>RateLimitError\<close> adds \<open>retry_after\<close>.\<close>

datatype guts_exception =
    GutsError GutsError_fields
  | NotFoundError GutsError_fields
  | UnauthorizedError GutsError_fields
  | ForbiddenError GutsError_fields
  | RateLimitError GutsError_fields "int option"
  | ValidationError GutsError_fields
  | ServerError GutsError_fields

text \<open>The \<open>__init__\<close> methods, with the arguments in the order the classes declare them.\<close>

definition GutsError_init :: "json \<Rightarrow> int \<Rightarrow> json \<Rightarrow> GutsError_fields" where
  "GutsError_init msg code det = \<lparr>message = msg, status_code = code, details = det\<rparr>"

definition new_GutsError :: "json \<Rightarrow> int \<Rightarrow> json \<Rightarrow> guts_exception" where
  "new_GutsError msg code det = GutsError (GutsError_init msg code det)"

definition new_NotFoundError :: "json \<Rightarrow> json \<Rightarrow> guts_exception" where
  "new_NotFoundError msg det = NotFoundError (GutsError_init msg 404 det)"

definition new_UnauthorizedError :: "json \<Rightarrow> json \<Rightarrow> guts_exception" where
  "new_UnauthorizedError msg det = UnauthorizedError (GutsError_init msg 401 det)"

definition new_ForbiddenError :: "json \<Rightarrow> json \<Rightarrow> guts_exception" where
  "new_ForbiddenError msg det = ForbiddenError (GutsError_init msg 403 det)"

definition new_RateLimitError :: "json \<Rightarrow> int option \<Rightarrow> json \<Rightarrow> guts_exception" where
  "new_RateLimitError msg retry det = RateLimitError (GutsError_init msg 429 det) retry"

definition new_ValidationError :: "json \<Rightarrow> json \<Rightarrow> guts_exception" where
  "new_ValidationError msg det = ValidationError (GutsError_init msg 422 det)"

definition new_ServerError :: "json \<Rightarrow> int \<Rightarrow> json \<Rightarrow> guts_exception" where
  "new_ServerError msg code det = ServerError (GutsError_init msg code det)"

text \<open>The attributes every exception inherits from \<open>GutsError\<close>, and \<open>retry_after\<close>.\<close>

fun fields_of :: "guts_exception \<Rightarrow> GutsError_fields" where
  "fields_of (GutsError f) = f"
| "fields_of (NotFoundError f) = f"
| "fields_of (UnauthorizedError f) = f"
| "fields_of (ForbiddenError f) = f"
| "fields_of (RateLimitError f r) = f"
| "fields_of (ValidationError f) = f"
| "fields_of (ServerError f) = f"

fun retry_after :: "guts_exception \<Rightarrow> int option" where
  "retry_after (RateLimitError f r) = r"
| "retry_after e = None"

text \<open>The class of an exception, for statements that only speak about the kind raised.\<close>

datatype error_kind =
  Generic | NotFound | Unauthorized | Forbidden | RateLimited | Validation | Server

fun kind_of :: "guts_exception \<Rightarrow> error_kind" where
  "kind_of (GutsError f) = Generic"
| "kind_of (NotFoundError f) = NotFound"
| "kind_of (UnauthorizedError f) = Unauthorized"
| "kind_of (ForbiddenError f) = Forbidden"
| "kind_of (RateLimitError f r) = RateLimited"
| "kind_of (ValidationError f) = Validation"
| "kind_of (ServerError f) = Server"

text \<open>
  \<open>raise_for_status\<close>: \<open>Inl\<close> is the exception raised, \<open>Inr ()\<close> is the normal return when no
  branch of the chain applies.  \<open>RateLimitError\<close> is built with \<open>details\<close> as a keyword
  argument, so its \<open>retry_after\<close> keeps the default \<open>None\<close>.
\<close>

definition raise_for_status :: "int \<Rightarrow> json \<Rightarrow> json \<Rightarrow> guts_exception + unit" where
  "raise_for_status code msg det =
     (if code = 401 then Inl (new_UnauthorizedError msg det)
      else if code = 403 then Inl (new_ForbiddenError msg det)
      else if code = 404 then Inl (new_NotFoundError msg det)
      else if code = 422 then Inl (new_ValidationError msg det)
      else if code = 429 then Inl (new_RateLimitError msg None det)
      else if code \<ge> 500 then Inl (new_ServerError msg code det)
      else if code \<ge> 400 then Inl (new_GutsError msg code det)
      else Inr ())"

section \<open>Other exceptions\<close>

text \<open>
  Everything \<open>_request\<close> and the facades can raise: an exception of \<open>exceptions.py\<close>, the
  built-in \<open>AttributeError\<close> and \<open>TypeError\<close>, the decoding error of \<open>response.json()\<close> and
  the validation error of a \<open>pydantic\<close> model.
\<close>

datatype py_error =
    Raised guts_exception
  | AttributeError
  | TypeError
  | JSONDecodeError
  | PydanticValidationError

section \<open>models.py\<close>

subsection \<open>Enumerations\<close>

datatype IssueState = IssueState_OPEN | IssueState_CLOSED

datatype PullRequestState =
  PullRequestState_OPEN | PullRequestState_CLOSED | PullRequestState_MERGED

datatype ReviewState =
    ReviewState_PENDING
  | ReviewState_COMMENTED
  | ReviewState_APPROVED
  | ReviewState_CHANGES_REQUESTED
  | ReviewState_DISMISSED

datatype MergeMethod = MergeMethod_MERGE | MergeMethod_SQUASH | MergeMethod_REBASE

datatype WebhookEvent =
    WebhookEvent_PUSH
  | WebhookEvent_PULL_REQUEST
  | WebhookEvent_PULL_REQUEST_REVIEW
  | WebhookEvent_ISSUES
  | WebhookEvent_ISSUE_COMMENT
  | WebhookEvent_CREATE
  | WebhookEvent_DELETE
  | WebhookEvent_RELEASE
  | WebhookEvent_FORK
  | WebhookEvent_STAR

text \<open>The string value of each member, as the classes declare it.\<close>

fun IssueState_value :: "IssueState \<Rightarrow> string" where
  "IssueState_value IssueState_OPEN = ''open''"
| "IssueState_value IssueState_CLOSED = ''closed''"

fun PullRequestState_value :: "PullRequestState \<Rightarrow> string" where
  "PullRequestState_value PullRequestState_OPEN = ''open''"
| "PullRequestState_value PullRequestState_CLOSED = ''closed''"
| "PullRequestState_value PullRequestState_MERGED = ''merged''"

fun ReviewState_value :: "ReviewState \<Rightarrow> string" where
  "ReviewState_value ReviewState_PENDING = ''pending''"
| "ReviewState_value ReviewState_COMMENTED = ''commented''"
| "ReviewState_value ReviewState_APPROVED = ''approved''"
| "ReviewState_value ReviewState_CHANGES_REQUESTED = ''changes_requested''"
| "ReviewState_value ReviewState_DISMISSED = ''dismissed''"

fun MergeMethod_value :: "MergeMethod \<Rightarrow> string" where
  "MergeMethod_value MergeMethod_MERGE = ''merge''"
| "MergeMethod_value MergeMethod_SQUASH = ''squash''"
| "MergeMethod_value MergeMethod_REBASE = ''rebase''"

fun WebhookEvent_value :: "WebhookEvent \<Rightarrow> string" where
  "WebhookEvent_value WebhookEvent_PUSH = ''push''"
| "WebhookEvent_value WebhookEvent_PULL_REQUEST = ''pull_request''"
| "WebhookEvent_value WebhookEvent_PULL_REQUEST_REVIEW = ''pull_request_review''"
| "WebhookEvent_value WebhookEvent_ISSUES = ''issues''"
| "WebhookEvent_value WebhookEvent_ISSUE_COMMENT = ''issue_comment''"
| "WebhookEvent_value WebhookEvent_CREATE = ''create''"
| "WebhookEvent_value WebhookEvent_DELETE = ''delete''"
| "WebhookEvent_value WebhookEvent_RELEASE = ''release''"
| "WebhookEvent_value WebhookEvent_FORK = ''fork''"
| "WebhookEvent_value WebhookEvent_STAR = ''star''"

subsection \<open>Validation of fields\<close>

text \<open>
  The models are \<open>pydantic\<close> classes.  How \<open>pydantic\<close> validates a value against one of the
  primitive annotations \<open>str\<close>, \<open>int\<close>, \<open>bool\<close> and \<open>datetime\<close> is not code of this repository, so
  the four validators are parameters of the model: each returns the validated value, or
  \<open>None\<close> when the value is rejected.  The type \<open>'dt\<close> stands for \<open>datetime\<close>.
\<close>

record 'dt validators =
  v_str :: "json \<Rightarrow> string option"
  v_int :: "json \<Rightarrow> int option"
  v_bool :: "json \<Rightarrow> bool option"
  v_datetime :: "json \<Rightarrow> 'dt option"

text \<open>
  A field without a default must be present in the data and validate; a field with a
  default takes the default when its key is absent and is validated otherwise.  Keys of the
  data that name no field are ignored (the classes keep \<open>pydantic\<close>'s default configuration).
\<close>

definition required :: "(string \<times> json) list \<Rightarrow> string \<Rightarrow> (json \<Rightarrow> 'a option) \<Rightarrow> 'a option" where
  "required d k v = (case map_of d k of None \<Rightarrow> None | Some j \<Rightarrow> v j)"

definition with_default ::
  "(string \<times> json) list \<Rightarrow> string \<Rightarrow> (json \<Rightarrow> 'a option) \<Rightarrow> 'a \<Rightarrow> 'a option" where
  "with_default d k v dflt = (case map_of d k of None \<Rightarrow> Some dflt | Some j \<Rightarrow> v j)"

text \<open>\<open>Optional[T]\<close>: \<open>None\<close> is accepted as it is.\<close>

definition nullable :: "(json \<Rightarrow> 'a option) \<Rightarrow> json \<Rightarrow> 'a option option" where
  "nullable v j = (case j of JNull \<Rightarrow> Some None | _ \<Rightarrow> map_option Some (v j))"

text \<open>\<open>list[T]\<close>: a list every element of which validates.\<close>

fun validate_all :: "(json \<Rightarrow> 'a option) \<Rightarrow> json list \<Rightarrow> 'a list option" where
  "validate_all v [] = Some []"
| "validate_all v (j # js) =
     (case v j of
        None \<Rightarrow> None
      | Some x \<Rightarrow> (case validate_all v js of None \<Rightarrow> None | Some xs \<Rightarrow> Some (x # xs)))"

definition v_list :: "(json \<Rightarrow> 'a option) \<Rightarrow> json \<Rightarrow> 'a list option" where
  "v_list v j = (case j of JArray js \<Rightarrow> validate_all v js | _ \<Rightarrow> None)"

text \<open>A field whose annotation is another model: a dictionary that the model accepts.\<close>

definition v_model :: "((string \<times> json) list \<Rightarrow> 'a option) \<Rightarrow> json \<Rightarrow> 'a option" where
  "v_model dec j = (case j of JObject d \<Rightarrow> dec d | _ \<Rightarrow> None)"

text \<open>An enumeration field: the string value of one of the members.\<close>

definition validate_enum :: "('a \<Rightarrow> string) \<Rightarrow> 'a list \<Rightarrow> json \<Rightarrow> 'a option" where
  "validate_enum val members j =
     (case j of JString s \<Rightarrow> find (\<lambda>m. val m = s) members | _ \<Rightarrow> None)"

definition validate_IssueState :: "json \<Rightarrow> IssueState option" where
  "validate_IssueState = validate_enum IssueState_value [IssueState_OPEN, IssueState_CLOSED]"

definition validate_PullRequestState :: "json \<Rightarrow> PullRequestState option" where
  "validate_PullRequestState =
     validate_enum PullRequestState_value
       [PullRequestState_OPEN, PullRequestState_CLOSED, PullRequestState_MERGED]"

definition validate_ReviewState :: "json \<Rightarrow> ReviewState option" where
  "validate_ReviewState =
     validate_enum ReviewState_value
       [ReviewState_PENDING, ReviewState_COMMENTED, ReviewState_APPROVED,
        ReviewState_CHANGES_REQUESTED, ReviewState_DISMISSED]"

definition validate_WebhookEvent :: "json \<Rightarrow> WebhookEvent option" where
  "validate_WebhookEvent =
     validate_enum WebhookEvent_value
       [WebhookEvent_PUSH, WebhookEvent_PULL_REQUEST, WebhookEvent_PULL_REQUEST_REVIEW,
        WebhookEvent_ISSUES, WebhookEvent_ISSUE_COMMENT, WebhookEvent_CREATE,
        WebhookEvent_DELETE, WebhookEvent_RELEASE, WebhookEvent_FORK, WebhookEvent_STAR]"

text \<open>
  \<open>Model(**data)\<close>: unpacking anything but a dictionary raises \<open>TypeError\<close>; a dictionary
  the model rejects raises the validation error of \<open>pydantic\<close>.
\<close>

definition construct :: "((string \<times> json) list \<Rightarrow> 'a option) \<Rightarrow> json \<Rightarrow> py_error + 'a" where
  "construct dec data =
     (case data of
        JObject d \<Rightarrow> (case dec d of None \<Rightarrow> Inl PydanticValidationError | Some x \<Rightarrow> Inr x)
      | _ \<Rightarrow> Inl TypeError)"

subsection \<open>Response models\<close>

record 'dt Repository =
  Repository_key :: string
  Repository_name :: string
  Repository_owner :: string
  Repository_description :: "string option"
  Repository_private :: bool
  Repository_default_branch :: string
  Repository_clone_url :: string
  Repository_html_url :: string
  Repository_open_issues_count :: int
  Repository_open_pull_requests_count :: int
  Repository_created_at :: 'dt
  Repository_updated_at :: 'dt
  Repository_pushed_at :: "'dt option"

definition decode_Repository ::
  "'dt validators \<Rightarrow> (string \<times> json) list \<Rightarrow> 'dt Repository option" where
  "decode_Repository V d = do {
     x_key \<leftarrow> required d ''key'' (v_str V);
     x_name \<leftarrow> required d ''name'' (v_str V);
     x_owner \<leftarrow> required d ''owner'' (v_str V);
     x_description \<leftarrow> with_default d ''description'' (nullable (v_str V)) None;
     x_private \<leftarrow> with_default d ''private'' (v_bool V) False;
     x_default_branch \<leftarrow> with_default d ''default_branch'' (v_str V) ''main'';
     x_clone_url \<leftarrow> required d ''clone_url'' (v_str V);
     x_html_url \<leftarrow> required d ''html_url'' (v_str V);
     x_open_issues_count \<leftarrow> with_default d ''open_issues_count'' (v_int V) 0;
     x_open_pull_requests_count \<leftarrow> with_default d ''open_pull_requests_count'' (v_int V) 0;
     x_created_at \<leftarrow> required d ''created_at'' (v_datetime V);
     x_updated_at \<leftarrow> required d ''updated_at'' (v_datetime V);
     x_pushed_at \<leftarrow> with_default d ''pushed_at'' (nullable (v_datetime V)) None;
     Some \<lparr>Repository_key = x_key,
           Repository_name = x_name,
           Repository_owner = x_owner,
           Repository_description = x_description,
           Repository_private = x_private,
           Repository_default_branch = x_default_branch,
           Repository_clone_url = x_clone_url,
           Repository_html_url = x_html_url,
           Repository_open_issues_count = x_open_issues_count,
           Repository_open_pull_requests_count = x_open_pull_requests_count,
           Repository_created_at = x_created_at,
           Repository_updated_at = x_updated_at,
           Repository_pushed_at = x_pushed_at\<rparr>
   }"

definition new_Repository :: "'dt validators \<Rightarrow> json \<Rightarrow> py_error + 'dt Repository" where
  "new_Repository V data = construct (decode_Repository V) data"

record 'dt Issue =
  Issue_id :: string
  Issue_number :: int
  Issue_title :: string
  Issue_body :: "string option"
  Issue_state :: IssueState
  Issue_author :: string
  Issue_assignees :: "string list"
  Issue_labels :: "string list"
  Issue_milestone :: "string option"
  Issue_comments_count :: int
  Issue_created_at :: 'dt
  Issue_updated_at :: 'dt
  Issue_closed_at :: "'dt option"
  Issue_closed_by :: "string option"

definition decode_Issue ::
  "'dt validators \<Rightarrow> (string \<times> json) list \<Rightarrow> 'dt Issue option" where
  "decode_Issue V d = do {
     x_id \<leftarrow> required d ''id'' (v_str V);
     x_number \<leftarrow> required d ''number'' (v_int V);
     x_title \<leftarrow> required d ''title'' (v_str V);
     x_body \<leftarrow> with_default d ''body'' (nullable (v_str V)) None;
     x_state \<leftarrow> required d ''state'' validate_IssueState;
     x_author \<leftarrow> required d ''author'' (v_str V);
     x_assignees \<leftarrow> with_default d ''assignees'' (v_list (v_str V)) [];
     x_labels \<leftarrow> with_default d ''labels'' (v_list (v_str V)) [];
     x_milestone \<leftarrow> with_default d ''milestone'' (nullable (v_str V)) None;
     x_comments_count \<leftarrow> with_default d ''comments_count'' (v_int V) 0;
     x_created_at \<leftarrow> required d ''created_at'' (v_datetime V);
     x_updated_at \<leftarrow> required d ''updated_at'' (v_datetime V);
     x_closed_at \<leftarrow> with_default d ''closed_at'' (nullable (v_datetime V)) None;
     x_closed_by \<leftarrow> with_default d ''closed_by'' (nullable (v_str V)) None;
     Some \<lparr>Issue_id = x_id,
           Issue_number = x_number,
           Issue_title = x_title,
           Issue_body = x_body,
           Issue_state = x_state,
           Issue_author = x_author,
           Issue_assignees = x_assignees,
           Issue_labels = x_labels,
           Issue_milestone = x_milestone,
           Issue_comments_count = x_comments_count,
           Issue_created_at = x_created_at,
           Issue_updated_at = x_updated_at,
           Issue_closed_at = x_closed_at,
           Issue_closed_by = x_closed_by\<rparr>
   }"

definition new_Issue :: "'dt validators \<Rightarrow> json \<Rightarrow> py_error + 'dt Issue" where
  "new_Issue V data = construct (decode_Issue V) data"

record 'dt PullRequest =
  PullRequest_id :: string
  PullRequest_number :: int
  PullRequest_title :: string
  PullRequest_body :: "string option"
  PullRequest_state :: PullRequestState
  PullRequest_author :: string
  PullRequest_source_branch :: string
  PullRequest_target_branch :: string
  PullRequest_source_commit :: string
  PullRequest_target_commit :: string
  PullRequest_mergeable :: "bool option"
  PullRequest_draft :: bool
  PullRequest_reviewers :: "string list"
  PullRequest_labels :: "string list"
  PullRequest_comments_count :: int
  PullRequest_commits_count :: int
  PullRequest_changed_files :: int
  PullRequest_additions :: int
  PullRequest_deletions :: int
  PullRequest_created_at :: 'dt
  PullRequest_updated_at :: 'dt
  PullRequest_merged_at :: "'dt option"
  PullRequest_merged_by :: "string option"
  PullRequest_closed_at :: "'dt option"

definition decode_PullRequest ::
  "'dt validators \<Rightarrow> (string \<times> json) list \<Rightarrow> 'dt PullRequest option" where
  "decode_PullRequest V d = do {
     x_id \<leftarrow> required d ''id'' (v_str V);
     x_number \<leftarrow> required d ''number'' (v_int V);
     x_title \<leftarrow> required d ''title'' (v_str V);
     x_body \<leftarrow> with_default d ''body'' (nullable (v_str V)) None;
     x_state \<leftarrow> required d ''state'' validate_PullRequestState;
     x_author \<leftarrow> required d ''author'' (v_str V);
     x_source_branch \<leftarrow> required d ''source_branch'' (v_str V);
     x_target_branch \<leftarrow> required d ''target_branch'' (v_str V);
     x_source_commit \<leftarrow> required d ''source_commit'' (v_str V);
     x_target_commit \<leftarrow> required d ''target_commit'' (v_str V);
     x_mergeable \<leftarrow> with_default d ''mergeable'' (nullable (v_bool V)) None;
     x_draft \<leftarrow> with_default d ''draft'' (v_bool V) False;
     x_reviewers \<leftarrow> with_default d ''reviewers'' (v_list (v_str V)) [];
     x_labels \<leftarrow> with_default d ''labels'' (v_list (v_str V)) [];
     x_comments_count \<leftarrow> with_default d ''comments_count'' (v_int V) 0;
     x_commits_count \<leftarrow> with_default d ''commits_count'' (v_int V) 0;
     x_changed_files \<leftarrow> with_default d ''changed_files'' (v_int V) 0;
     x_additions \<leftarrow> with_default d ''additions'' (v_int V) 0;
     x_deletions \<leftarrow> with_default d ''deletions'' (v_int V) 0;
     x_created_at \<leftarrow> required d ''created_at'' (v_datetime V);
     x_updated_at \<leftarrow> required d ''updated_at'' (v_datetime V);
     x_merged_at \<leftarrow> with_default d ''merged_at'' (nullable (v_datetime V)) None;
     x_merged_by \<leftarrow> with_default d ''merged_by'' (nullable (v_str V)) None;
     x_closed_at \<leftarrow> with_default d ''closed_at'' (nullable (v_datetime V)) None;
     Some \<lparr>PullRequest_id = x_id,
           PullRequest_number = x_number,
           PullRequest_title = x_title,
           PullRequest_body = x_body,
           PullRequest_state = x_state,
           PullRequest_author = x_author,
           PullRequest_source_branch = x_source_branch,
           PullRequest_target_branch = x_target_branch,
           PullRequest_source_commit = x_source_commit,
           PullRequest_target_commit = x_target_commit,
           PullRequest_mergeable = x_mergeable,
           PullRequest_draft = x_draft,
           PullRequest_reviewers = x_reviewers,
           PullRequest_labels = x_labels,
           PullRequest_comments_count = x_comments_count,
           PullRequest_commits_count = x_commits_count,
           PullRequest_changed_files = x_changed_files,
           PullRequest_additions = x_additions,
           PullRequest_deletions = x_deletions,
           PullRequest_created_at = x_created_at,
           PullRequest_updated_at = x_updated_at,
           PullRequest_merged_at = x_merged_at,
           PullRequest_merged_by = x_merged_by,
           PullRequest_closed_at = x_closed_at\<rparr>
   }"

definition new_PullRequest :: "'dt validators \<Rightarrow> json \<Rightarrow> py_error + 'dt PullRequest" where
  "new_PullRequest V data = construct (decode_PullRequest V) data"

record 'dt Comment =
  Comment_id :: string
  Comment_body :: string
  Comment_author :: string
  Comment_created_at :: 'dt
  Comment_updated_at :: 'dt

definition decode_Comment ::
  "'dt validators \<Rightarrow> (string \<times> json) list \<Rightarrow> 'dt Comment option" where
  "decode_Comment V d = do {
     x_id \<leftarrow> required d ''id'' (v_str V);
     x_body \<leftarrow> required d ''body'' (v_str V);
     x_author \<leftarrow> required d ''author'' (v_str V);
     x_created_at \<leftarrow> required d ''created_at'' (v_datetime V);
     x_updated_at \<leftarrow> required d ''updated_at'' (v_datetime V);
     Some \<lparr>Comment_id = x_id,
           Comment_body = x_body,
           Comment_author = x_author,
           Comment_created_at = x_created_at,
           Comment_updated_at = x_updated_at\<rparr>
   }"

definition new_Comment :: "'dt validators \<Rightarrow> json \<Rightarrow> py_error + 'dt Comment" where
  "new_Comment V data = construct (decode_Comment V) data"

record 'dt Review =
  Review_id :: string
  Review_pr_number :: int
  Review_author :: string
  Review_state :: ReviewState
  Review_body :: "string option"
  Review_commit_id :: string
  Review_created_at :: 'dt
  Review_submitted_at :: "'dt option"

definition decode_Review ::
  "'dt validators \<Rightarrow> (string \<times> json) list \<Rightarrow> 'dt Review option" where
  "decode_Review V d = do {
     x_id \<leftarrow> required d ''id'' (v_str V);
     x_pr_number \<leftarrow> required d ''pr_number'' (v_int V);
     x_author \<leftarrow> required d ''author'' (v_str V);
     x_state \<leftarrow> required d ''state'' validate_ReviewState;
     x_body \<leftarrow> with_default d ''body'' (nullable (v_str V)) None;
     x_commit_id \<leftarrow> required d ''commit_id'' (v_str V);
     x_created_at \<leftarrow> required d ''created_at'' (v_datetime V);
     x_submitted_at \<leftarrow> with_default d ''submitted_at'' (nullable (v_datetime V)) None;
     Some \<lparr>Review_id = x_id,
           Review_pr_number = x_pr_number,
           Review_author = x_author,
           Review_state = x_state,
           Review_body = x_body,
           Review_commit_id = x_commit_id,
           Review_created_at = x_created_at,
           Review_submitted_at = x_submitted_at\<rparr>
   }"

definition new_Review :: "'dt validators \<Rightarrow> json \<Rightarrow> py_error + 'dt Review" where
  "new_Review V data = construct (decode_Review V) data"

record 'dt ReleaseAsset =
  ReleaseAsset_id :: string
  ReleaseAsset_name :: string
  ReleaseAsset_content_type :: string
  ReleaseAsset_size :: int
  ReleaseAsset_download_count :: int
  ReleaseAsset_browser_download_url :: string
  ReleaseAsset_created_at :: 'dt
  ReleaseAsset_uploader :: string

definition decode_ReleaseAsset ::
  "'dt validators \<Rightarrow> (string \<times> json) list \<Rightarrow> 'dt ReleaseAsset option" where
  "decode_ReleaseAsset V d = do {
     x_id \<leftarrow> required d ''id'' (v_str V);
     x_name \<leftarrow> required d ''name'' (v_str V);
     x_content_type \<leftarrow> required d ''content_type'' (v_str V);
     x_size \<leftarrow> required d ''size'' (v_int V);
     x_download_count \<leftarrow> with_default d ''download_count'' (v_int V) 0;
     x_browser_download_url \<leftarrow> required d ''browser_download_url'' (v_str V);
     x_created_at \<leftarrow> required d ''created_at'' (v_datetime V);
     x_uploader \<leftarrow> required d ''uploader'' (v_str V);
     Some \<lparr>ReleaseAsset_id = x_id,
           ReleaseAsset_name = x_name,
           ReleaseAsset_content_type = x_content_type,
           ReleaseAsset_size = x_size,
           ReleaseAsset_download_count = x_download_count,
           ReleaseAsset_browser_download_url = x_browser_download_url,
           ReleaseAsset_created_at = x_created_at,
           ReleaseAsset_uploader = x_uploader\<rparr>
   }"

definition new_ReleaseAsset :: "'dt validators \<Rightarrow> json \<Rightarrow> py_error + 'dt ReleaseAsset" where
  "new_ReleaseAsset V data = construct (decode_ReleaseAsset V) data"

record 'dt Release =
  Release_id :: string
  Release_tag_name :: string
  Release_name :: string
  Release_body :: "string option"
  Release_draft :: bool
  Release_prerelease :: bool
  Release_author :: string
  Release_target_commitish :: string
  Release_assets :: "'dt ReleaseAsset list"
  Release_created_at :: 'dt
  Release_published_at :: "'dt option"

definition decode_Release ::
  "'dt validators \<Rightarrow> (string \<times> json) list \<Rightarrow> 'dt Release option" where
  "decode_Release V d = do {
     x_id \<leftarrow> required d ''id'' (v_str V);
     x_tag_name \<leftarrow> required d ''tag_name'' (v_str V);
     x_name \<leftarrow> required d ''name'' (v_str V);
     x_body \<leftarrow> with_default d ''body'' (nullable (v_str V)) None;
     x_draft \<leftarrow> with_default d ''draft'' (v_bool V) False;
     x_prerelease \<leftarrow> with_default d ''prerelease'' (v_bool V) False;
     x_author \<leftarrow> required d ''author'' (v_str V);
     x_target_commitish \<leftarrow> required d ''target_commitish'' (v_str V);
     x_assets \<leftarrow> with_default d ''assets'' (v_list (v_model (decode_ReleaseAsset V))) [];
     x_created_at \<leftarrow> required d ''created_at'' (v_datetime V);
     x_published_at \<leftarrow> with_default d ''published_at'' (nullable (v_datetime V)) None;
     Some \<lparr>Release_id = x_id,
           Release_tag_name = x_tag_name,
           Release_name = x_name,
           Release_body = x_body,
           Release_draft = x_draft,
           Release_prerelease = x_prerelease,
           Release_author = x_author,
           Release_target_commitish = x_target_commitish,
           Release_assets = x_assets,
           Release_created_at = x_created_at,
           Release_published_at = x_published_at\<rparr>
   }"

definition new_Release :: "'dt validators \<Rightarrow> json \<Rightarrow> py_error + 'dt Release" where
  "new_Release V data = construct (decode_Release V) data"

record Label =
  Label_name :: string
  Label_color :: string
  Label_description :: "string option"

definition decode_Label ::
  "'dt validators \<Rightarrow> (string \<times> json) list \<Rightarrow> Label option" where
  "decode_Label V d = do {
     x_name \<leftarrow> required d ''name'' (v_str V);
     x_color \<leftarrow> required d ''color'' (v_str V);
     x_description \<leftarrow> with_default d ''description'' (nullable (v_str V)) None;
     Some \<lparr>Label_name = x_name,
           Label_color = x_color,
           Label_description = x_description\<rparr>
   }"

definition new_Label :: "'dt validators \<Rightarrow> json \<Rightarrow> py_error + Label" where
  "new_Label V data = construct (decode_Label V) data"

record 'dt User =
  User_id :: string
  User_username :: string
  User_display_name :: "string option"
  User_avatar_url :: "string option"
  User_bio :: "string option"
  User_public_key :: string
  User_created_at :: 'dt

definition decode_User ::
  "'dt validators \<Rightarrow> (string \<times> json) list \<Rightarrow> 'dt User option" where
  "decode_User V d = do {
     x_id \<leftarrow> required d ''id'' (v_str V);
     x_username \<leftarrow> required d ''username'' (v_str V);
     x_display_name \<leftarrow> with_default d ''display_name'' (nullable (v_str V)) None;
     x_avatar_url \<leftarrow> with_default d ''avatar_url'' (nullable (v_str V)) None;
     x_bio \<leftarrow> with_default d ''bio'' (nullable (v_str V)) None;
     x_public_key \<leftarrow> required d ''public_key'' (v_str V);
     x_created_at \<leftarrow> required d ''created_at'' (v_datetime V);
     Some \<lparr>User_id = x_id,
           User_username = x_username,
           User_display_name = x_display_name,
           User_avatar_url = x_avatar_url,
           User_bio = x_bio,
           User_public_key = x_public_key,
           User_created_at = x_created_at\<rparr>
   }"

definition new_User :: "'dt validators \<Rightarrow> json \<Rightarrow> py_error + 'dt User" where
  "new_User V data = construct (decode_User V) data"

record 'dt Organization =
  Organization_id :: string
  Organization_slug :: string
  Organization_display_name :: "string option"
  Organization_description :: "string option"
  Organization_avatar_url :: "string option"
  Organization_members_count :: int
  Organization_repos_count :: int
  Organization_created_at :: 'dt

definition decode_Organization ::
  "'dt validators \<Rightarrow> (string \<times> json) list \<Rightarrow> 'dt Organization option" where
  "decode_Organization V d = do {
     x_id \<leftarrow> required d ''id'' (v_str V);
     x_slug \<leftarrow> required d ''slug'' (v_str V);
     x_display_name \<leftarrow> with_default d ''display_name'' (nullable (v_str V)) None;
     x_description \<leftarrow> with_default d ''description'' (nullable (v_str V)) None;
     x_avatar_url \<leftarrow> with_default d ''avatar_url'' (nullable (v_str V)) None;
     x_members_count \<leftarrow> with_default d ''members_count'' (v_int V) 0;
     x_repos_count \<leftarrow> with_default d ''repos_count'' (v_int V) 0;
     x_created_at \<leftarrow> required d ''created_at'' (v_datetime V);
     Some \<lparr>Organization_id = x_id,
           Organization_slug = x_slug,
           Organization_display_name = x_display_name,
           Organization_description = x_description,
           Organization_avatar_url = x_avatar_url,
           Organization_members_count = x_members_count,
           Organization_repos_count = x_repos_count,
           Organization_created_at = x_created_at\<rparr>
   }"

definition new_Organization :: "'dt validators \<Rightarrow> json \<Rightarrow> py_error + 'dt Organization" where
  "new_Organization V data = construct (decode_Organization V) data"

record 'dt Team =
  Team_id :: string
  Team_slug :: string
  Team_name :: string
  Team_description :: "string option"
  Team_permission :: string
  Team_members_count :: int
  Team_repos_count :: int
  Team_created_at :: 'dt

definition decode_Team ::
  "'dt validators \<Rightarrow> (string \<times> json) list \<Rightarrow> 'dt Team option" where
  "decode_Team V d = do {
     x_id \<leftarrow> required d ''id'' (v_str V);
     x_slug \<leftarrow> required d ''slug'' (v_str V);
     x_name \<leftarrow> required d ''name'' (v_str V);
     x_description \<leftarrow> with_default d ''description'' (nullable (v_str V)) None;
     x_permission \<leftarrow> with_default d ''permission'' (v_str V) ''read'';
     x_members_count \<leftarrow> with_default d ''members_count'' (v_int V) 0;
     x_repos_count \<leftarrow> with_default d ''repos_count'' (v_int V) 0;
     x_created_at \<leftarrow> required d ''created_at'' (v_datetime V);
     Some \<lparr>Team_id = x_id,
           Team_slug = x_slug,
           Team_name = x_name,
           Team_description = x_description,
           Team_permission = x_permission,
           Team_members_count = x_members_count,
           Team_repos_count = x_repos_count,
           Team_created_at = x_created_at\<rparr>
   }"

definition new_Team :: "'dt validators \<Rightarrow> json \<Rightarrow> py_error + 'dt Team" where
  "new_Team V data = construct (decode_Team V) data"

record 'dt Webhook =
  Webhook_id :: string
  Webhook_url :: string
  Webhook_events :: "WebhookEvent list"
  Webhook_active :: bool
  Webhook_secret :: "string option"
  Webhook_content_type :: string
  Webhook_created_at :: 'dt
  Webhook_updated_at :: 'dt
  Webhook_last_delivery_at :: "'dt option"

definition decode_Webhook ::
  "'dt validators \<Rightarrow> (string \<times> json) list \<Rightarrow> 'dt Webhook option" where
  "decode_Webhook V d = do {
     x_id \<leftarrow> required d ''id'' (v_str V);
     x_url \<leftarrow> required d ''url'' (v_str V);
     x_events \<leftarrow> required d ''events'' (v_list validate_WebhookEvent);
     x_active \<leftarrow> with_default d ''active'' (v_bool V) True;
     x_secret \<leftarrow> with_default d ''secret'' (nullable (v_str V)) None;
     x_content_type \<leftarrow> with_default d ''content_type'' (v_str V) ''json'';
     x_created_at \<leftarrow> required d ''created_at'' (v_datetime V);
     x_updated_at \<leftarrow> required d ''updated_at'' (v_datetime V);
     x_last_delivery_at \<leftarrow> with_default d ''last_delivery_at'' (nullable (v_datetime V)) None;
     Some \<lparr>Webhook_id = x_id,
           Webhook_url = x_url,
           Webhook_events = x_events,
           Webhook_active = x_active,
           Webhook_secret = x_secret,
           Webhook_content_type = x_content_type,
           Webhook_created_at = x_created_at,
           Webhook_updated_at = x_updated_at,
           Webhook_last_delivery_at = x_last_delivery_at\<rparr>
   }"

definition new_Webhook :: "'dt validators \<Rightarrow> json \<Rightarrow> py_error + 'dt Webhook" where
  "new_Webhook V data = construct (decode_Webhook V) data"

record 'dt ConsensusStatus =
  ConsensusStatus_height :: int
  ConsensusStatus_round :: int
  ConsensusStatus_phase :: string
  ConsensusStatus_synced :: bool
  ConsensusStatus_peers_count :: int
  ConsensusStatus_validators_count :: int
  ConsensusStatus_mempool_size :: int
  ConsensusStatus_last_block_time :: "'dt option"

definition decode_ConsensusStatus ::
  "'dt validators \<Rightarrow> (string \<times> json) list \<Rightarrow> 'dt ConsensusStatus option" where
  "decode_ConsensusStatus V d = do {
     x_height \<leftarrow> required d ''height'' (v_int V);
     x_round \<leftarrow> required d ''round'' (v_int V);
     x_phase \<leftarrow> required d ''phase'' (v_str V);
     x_synced \<leftarrow> required d ''synced'' (v_bool V);
     x_peers_count \<leftarrow> required d ''peers_count'' (v_int V);
     x_validators_count \<leftarrow> required d ''validators_count'' (v_int V);
     x_mempool_size \<leftarrow> required d ''mempool_size'' (v_int V);
     x_last_block_time \<leftarrow> with_default d ''last_block_time'' (nullable (v_datetime V)) None;
     Some \<lparr>ConsensusStatus_height = x_height,
           ConsensusStatus_round = x_round,
           ConsensusStatus_phase = x_phase,
           ConsensusStatus_synced = x_synced,
           ConsensusStatus_peers_count = x_peers_count,
           ConsensusStatus_validators_count = x_validators_count,
           ConsensusStatus_mempool_size = x_mempool_size,
           ConsensusStatus_last_block_time = x_last_block_time\<rparr>
   }"

definition new_ConsensusStatus :: "'dt validators \<Rightarrow> json \<Rightarrow> py_error + 'dt ConsensusStatus" where
  "new_ConsensusStatus V data = construct (decode_ConsensusStatus V) data"

record 'dt Block =
  Block_height :: int
  Block_hash :: string
  Block_parent_hash :: string
  Block_timestamp :: 'dt
  Block_proposer :: string
  Block_transactions_count :: int
  Block_size :: int

definition decode_Block ::
  "'dt validators \<Rightarrow> (string \<times> json) list \<Rightarrow> 'dt Block option" where
  "decode_Block V d = do {
     x_height \<leftarrow> required d ''height'' (v_int V);
     x_hash \<leftarrow> required d ''hash'' (v_str V);
     x_parent_hash \<leftarrow> required d ''parent_hash'' (v_str V);
     x_timestamp \<leftarrow> required d ''timestamp'' (v_datetime V);
     x_proposer \<leftarrow> required d ''proposer'' (v_str V);
     x_transactions_count \<leftarrow> required d ''transactions_count'' (v_int V);
     x_size \<leftarrow> required d ''size'' (v_int V);
     Some \<lparr>Block_height = x_height,
           Block_hash = x_hash,
           Block_parent_hash = x_parent_hash,
           Block_timestamp = x_timestamp,
           Block_proposer = x_proposer,
           Block_transactions_count = x_transactions_count,
           Block_size = x_size\<rparr>
   }"

definition new_Block :: "'dt validators \<Rightarrow> json \<Rightarrow> py_error + 'dt Block" where
  "new_Block V data = construct (decode_Block V) data"

record 'dt Validator =
  Validator_public_key :: string
  Validator_address :: string
  Validator_active :: bool
  Validator_voting_power :: int
  Validator_last_seen :: "'dt option"

definition decode_Validator ::
  "'dt validators \<Rightarrow> (string \<times> json) list \<Rightarrow> 'dt Validator option" where
  "decode_Validator V d = do {
     x_public_key \<leftarrow> required d ''public_key'' (v_str V);
     x_address \<leftarrow> required d ''address'' (v_str V);
     x_active \<leftarrow> required d ''active'' (v_bool V);
     x_voting_power \<leftarrow> required d ''voting_power'' (v_int V);
     x_last_seen \<leftarrow> with_default d ''last_seen'' (nullable (v_datetime V)) None;
     Some \<lparr>Validator_public_key = x_public_key,
           Validator_address = x_address,
           Validator_active = x_active,
           Validator_voting_power = x_voting_power,
           Validator_last_seen = x_last_seen\<rparr>
   }"

definition new_Validator :: "'dt validators \<Rightarrow> json \<Rightarrow> py_error + 'dt Validator" where
  "new_Validator V data = construct (decode_Validator V) data"

subsection \<open>Request models\<close>

record CreateIssueRequest =
  CreateIssueRequest_title :: string
  CreateIssueRequest_body :: "string option"
  CreateIssueRequest_labels :: "string list"
  CreateIssueRequest_assignees :: "string list"

record CreatePullRequestRequest =
  CreatePullRequestRequest_title :: string
  CreatePullRequestRequest_body :: "string option"
  CreatePullRequestRequest_source_branch :: string
  CreatePullRequestRequest_target_branch :: string
  CreatePullRequestRequest_draft :: bool

record CreateReviewRequest =
  CreateReviewRequest_body :: "string option"
  CreateReviewRequest_state :: string
  CreateReviewRequest_commit_id :: "string option"

record CreateReleaseRequest =
  CreateReleaseRequest_tag_name :: string
  CreateReleaseRequest_name :: "string option"
  CreateReleaseRequest_body :: "string option"
  CreateReleaseRequest_draft :: bool
  CreateReleaseRequest_prerelease :: bool
  CreateReleaseRequest_target_commitish :: "string option"

record CreateWebhookRequest =
  CreateWebhookRequest_url :: string
  CreateWebhookRequest_events :: "WebhookEvent list"
  CreateWebhookRequest_active :: bool
  CreateWebhookRequest_secret :: "string option"

text \<open>
  \<open>model_dump\<close> lists every field of a request in declaration order, an unset optional field
  as \<open>None\<close>; \<open>exclude_none=True\<close> then drops the fields whose value is \<open>None\<close>.
\<close>

definition optional_str :: "string option \<Rightarrow> json" where
  "optional_str x = (case x of None \<Rightarrow> JNull | Some s \<Rightarrow> JString s)"

definition exclude_none :: "(string \<times> json) list \<Rightarrow> (string \<times> json) list" where
  "exclude_none kvs = filter (\<lambda>kv. snd kv \<noteq> JNull) kvs"

definition CreateIssueRequest_model_dump :: "CreateIssueRequest \<Rightarrow> (string \<times> json) list" where
  "CreateIssueRequest_model_dump r =
     [(''title'', JString (CreateIssueRequest_title r)),
      (''body'', optional_str (CreateIssueRequest_body r)),
      (''labels'', JArray (map JString (CreateIssueRequest_labels r))),
      (''assignees'', JArray (map JString (CreateIssueRequest_assignees r)))]"

definition CreatePullRequestRequest_model_dump ::
  "CreatePullRequestRequest \<Rightarrow> (string \<times> json) list" where
  "CreatePullRequestRequest_model_dump r =
     [(''title'', JString (CreatePullRequestRequest_title r)),
      (''body'', optional_str (CreatePullRequestRequest_body r)),
      (''source_branch'', JString (CreatePullRequestRequest_source_branch r)),
      (''target_branch'', JString (CreatePullRequestRequest_target_branch r)),
      (''draft'', JBool (CreatePullRequestRequest_draft r))]"

definition CreateReviewRequest_model_dump :: "CreateReviewRequest \<Rightarrow> (string \<times> json) list" where
  "CreateReviewRequest_model_dump r =
     [(''body'', optional_str (CreateReviewRequest_body r)),
      (''state'', JString (CreateReviewRequest_state r)),
      (''commit_id'', optional_str (CreateReviewRequest_commit_id r))]"

definition CreateReleaseRequest_model_dump :: "CreateReleaseRequest \<Rightarrow> (string \<times> json) list" where
  "CreateReleaseRequest_model_dump r =
     [(''tag_name'', JString (CreateReleaseRequest_tag_name r)),
      (''name'', optional_str (CreateReleaseRequest_name r)),
      (''body'', optional_str (CreateReleaseRequest_body r)),
      (''draft'', JBool (CreateReleaseRequest_draft r)),
      (''prerelease'', JBool (CreateReleaseRequest_prerelease r)),
      (''target_commitish'', optional_str (CreateReleaseRequest_target_commitish r))]"

definition CreateWebhookRequest_model_dump :: "CreateWebhookRequest \<Rightarrow> (string \<times> json) list" where
  "CreateWebhookRequest_model_dump r =
     [(''url'', JString (CreateWebhookRequest_url r)),
      (''events'', JArray (map (\<lambda>e. JString (WebhookEvent_value e)) (CreateWebhookRequest_events r))),
      (''active'', JBool (CreateWebhookRequest_active r)),
      (''secret'', optional_str (CreateWebhookRequest_secret r))]"

section \<open>client.py: the transport\<close>

subsection \<open>Python operations on decoded values\<close>

fun starts_with :: "string \<Rightarrow> string \<Rightarrow> bool" where
  "starts_with s [] = True"
| "starts_with [] (p # ps) = False"
| "starts_with (c # cs) (p # ps) = (c = p \<and> starts_with cs ps)"

fun str_contains :: "string \<Rightarrow> string \<Rightarrow> bool" where
  "str_contains [] p = (p = [])"
| "str_contains (c # cs) p = (starts_with (c # cs) p \<or> str_contains cs p)"

text \<open>
  \<open>key in data\<close> for a string \<open>key\<close>: key membership on a dictionary, element membership
  on a list, substring test on a string; on \<open>None\<close>, a boolean or a number it raises
  \<open>TypeError\<close>, which is \<open>None\<close> here.
\<close>

fun py_in :: "string \<Rightarrow> json \<Rightarrow> bool option" where
  "py_in key (JObject d) = Some (map_of d key \<noteq> None)"
| "py_in key (JArray xs) = Some (JString key \<in> set xs)"
| "py_in key (JString s) = Some (str_contains s key)"
| "py_in key other = None"

text \<open>
  \<open>data[key]\<close> for a string \<open>key\<close>: the value on a dictionary (\<open>KeyError\<close> when the key
  is missing), \<open>TypeError\<close> on everything else; both exceptions are \<open>None\<close> here.
\<close>

fun py_getitem :: "json \<Rightarrow> string \<Rightarrow> json option" where
  "py_getitem (JObject d) key = map_of d key"
| "py_getitem other key = None"

subsection \<open>Requests and responses\<close>

record request =
  req_method :: string
  req_path :: string
  req_params :: "(string \<times> json) list option"
  req_json :: "(string \<times> json) list option"

text \<open>
  What the code reads of an \<open>httpx\<close> response: \<open>status_code\<close>, \<open>text\<close> and \<open>json()\<close>, which
  either returns the decoded body or raises (\<open>None\<close>).  The headers are part of the
  response although \<open>_request\<close> never reads them.
\<close>

record response =
  resp_status_code :: int
  resp_text :: string
  resp_json :: "json option"
  resp_headers :: "(string \<times> string) list"

text \<open>\<open>httpx.Response.is_success\<close>: the status code is a 2xx code.\<close>

definition is_success :: "response \<Rightarrow> bool" where
  "is_success resp = (200 \<le> resp_status_code resp \<and> resp_status_code resp \<le> 299)"

text \<open>
  Of \<open>GutsClient\<close> the model keeps the connection; the base URL, the token and the
  headers built from them do not enter any method modelled here.  \<open>httpx_request\<close> answers
  a request and may change the state \<open>remote\<close> of the server behind the connection;
  \<open>sent\<close> records the requests issued so far, oldest first.  Every request is answered
  by a response: the exceptions \<open>httpx\<close> raises when the connection itself fails are outside
  the model.
\<close>

record 'w GutsClient =
  httpx_request :: "request \<Rightarrow> 'w \<Rightarrow> response \<times> 'w"
  remote :: 'w
  sent :: "request list"

text \<open>
  Lines 101 to 109 of \<open>_request\<close>: the message and the details of a failing response.  The
  \<open>try\<close> block is the inner \<open>case\<close>, whose \<open>None\<close> is any exception raised in it
  (\<open>response.json()\<close>, the membership test or the subscript); the handler then takes the
  response text unless it is empty, and \<open>details\<close> is still \<open>None\<close>.
\<close>

definition failure_info :: "response \<Rightarrow> json \<times> json" where
  "failure_info resp =
     (let message0 = JString ''Request failed''; details0 = JNull in
      case (case resp_json resp of
              None \<Rightarrow> None
            | Some data \<Rightarrow>
               (case py_in ''message'' data of
                  None \<Rightarrow> None
                | Some True \<Rightarrow>
                   (case py_getitem data ''message'' of
                      None \<Rightarrow> None
                    | Some m \<Rightarrow> Some (m, data))
                | Some False \<Rightarrow> Some (message0, data)))
      of Some md \<Rightarrow> md
       | None \<Rightarrow> (if resp_text resp = [] then message0 else JString (resp_text resp), details0))"

text \<open>Lines 113 to 116: \<open>None\<close> on 204, else the decoded body.\<close>

definition response_body :: "response \<Rightarrow> py_error + json" where
  "response_body resp =
     (if resp_status_code resp = 204 then Inr JNull
      else case resp_json resp of None \<Rightarrow> Inl JSONDecodeError | Some data \<Rightarrow> Inr data)"

definition handle_response :: "response \<Rightarrow> py_error + json" where
  "handle_response resp =
     (if \<not> is_success resp then
        (case failure_info resp of (msg, det) \<Rightarrow>
           (case raise_for_status (resp_status_code resp) msg det of
              Inl e \<Rightarrow> Inl (Raised e)
            | Inr u \<Rightarrow> response_body resp))
      else response_body resp)"

definition GutsClient_request ::
  "'w GutsClient \<Rightarrow> string \<Rightarrow> string \<Rightarrow> (string \<times> json) list option
     \<Rightarrow> (string \<times> json) list option \<Rightarrow> (py_error + json) \<times> 'w GutsClient" where
  "GutsClient_request c meth path params body =
     (let req = \<lparr>req_method = meth, req_path = path, req_params = params, req_json = body\<rparr>
      in case httpx_request c req (remote c) of (resp, w') \<Rightarrow>
           (handle_response resp, c\<lparr>remote := w', sent := sent c @ [req]\<rparr>))"

definition GutsClient_get ::
  "'w GutsClient \<Rightarrow> string \<Rightarrow> (string \<times> json) list option \<Rightarrow> (py_error + json) \<times> 'w GutsClient" where
  "GutsClient_get c path params = GutsClient_request c ''GET'' path params None"

definition GutsClient_post ::
  "'w GutsClient \<Rightarrow> string \<Rightarrow> (string \<times> json) list option \<Rightarrow> (py_error + json) \<times> 'w GutsClient" where
  "GutsClient_post c path body = GutsClient_request c ''POST'' path None body"

definition GutsClient_patch ::
  "'w GutsClient \<Rightarrow> string \<Rightarrow> (string \<times> json) list option \<Rightarrow> (py_error + json) \<times> 'w GutsClient" where
  "GutsClient_patch c path body = GutsClient_request c ''PATCH'' path None body"

definition GutsClient_delete :: "'w GutsClient \<Rightarrow> string \<Rightarrow> (py_error + unit) \<times> 'w GutsClient" where
  "GutsClient_delete c path =
     (case GutsClient_request c ''DELETE'' path None None of (r, c') \<Rightarrow> (map_sum id (\<lambda>_. ()) r, c'))"

text \<open>A server that answers every request with the same response, for concrete runs.\<close>

definition always :: "response \<Rightarrow> unit GutsClient" where
  "always resp = \<lparr>httpx_request = (\<lambda>req w. (resp, w)), remote = (), sent = []\<rparr>"

section \<open>client.py: the resource facades\<close>

subsection \<open>Python constructs the methods use\<close>

text \<open>A parameter with a default value: \<open>None\<close> is the call that leaves the argument out.\<close>

definition or_default :: "'a option \<Rightarrow> 'a \<Rightarrow> 'a" where
  "or_default arg dflt = (case arg of None \<Rightarrow> dflt | Some x \<Rightarrow> x)"

text \<open>The decimal text an f-string gives an \<open>int\<close>.\<close>

definition digit_char :: "nat \<Rightarrow> char" where
  "digit_char n = ''0123456789'' ! n"

function str_nat :: "nat \<Rightarrow> string" where
  "str_nat n = (if n < 10 then [digit_char n] else str_nat (n div 10) @ [digit_char (n mod 10)])"
  by pat_completeness auto
termination
  by (relation "measure (\<lambda>n. n)") auto

declare str_nat.simps [simp del]

definition str_int :: "int \<Rightarrow> string" where
  "str_int i = (if i < 0 then CHR ''-'' # str_nat (nat (- i)) else str_nat (nat i))"

text \<open>Sequencing of steps that may raise: the first exception ends the evaluation.\<close>

definition and_then :: "'e + 'a \<Rightarrow> ('a \<Rightarrow> 'e + 'b) \<Rightarrow> 'e + 'b" where
  "and_then r f = (case r of Inl e \<Rightarrow> Inl e | Inr x \<Rightarrow> f x)"

text \<open>
  \<open>data.get(key, default)\<close>: only a dictionary has the method; on a list, a string, a number
  or \<open>None\<close> the attribute lookup raises \<open>AttributeError\<close>.
\<close>

definition py_get :: "json \<Rightarrow> string \<Rightarrow> json \<Rightarrow> py_error + json" where
  "py_get data key dflt =
     (case data of
        JObject d \<Rightarrow> Inr (case map_of d key of None \<Rightarrow> dflt | Some v \<Rightarrow> v)
      | _ \<Rightarrow> Inl AttributeError)"

text \<open>
  \<open>for item in data\<close>: the elements of a list, the keys of a dictionary, the characters of
  a string; \<open>None\<close>, booleans and numbers are not iterable.
\<close>

definition py_iter :: "json \<Rightarrow> py_error + json list" where
  "py_iter data =
     (case data of
        JArray xs \<Rightarrow> Inr xs
      | JObject d \<Rightarrow> Inr (map (\<lambda>kv. JString (fst kv)) d)
      | JString s \<Rightarrow> Inr (map (\<lambda>ch. JString [ch]) s)
      | _ \<Rightarrow> Inl TypeError)"

fun map_result :: "('a \<Rightarrow> 'e + 'b) \<Rightarrow> 'a list \<Rightarrow> 'e + 'b list" where
  "map_result f [] = Inr []"
| "map_result f (x # xs) =
     (case f x of
        Inl e \<Rightarrow> Inl e
      | Inr y \<Rightarrow> (case map_result f xs of Inl e \<Rightarrow> Inl e | Inr ys \<Rightarrow> Inr (y # ys)))"

text \<open>The list comprehension \<open>[Model(**item) for item in data]\<close>.\<close>

definition comprehension :: "(json \<Rightarrow> py_error + 'a) \<Rightarrow> json \<Rightarrow> py_error + 'a list" where
  "comprehension ctor data = and_then (py_iter data) (map_result ctor)"

text \<open>The comprehension over \<open>data.get("items", data)\<close>.\<close>

definition comprehension_items :: "(json \<Rightarrow> py_error + 'a) \<Rightarrow> json \<Rightarrow> py_error + 'a list" where
  "comprehension_items ctor data = and_then (py_get data ''items'' data) (comprehension ctor)"

text \<open>A method body \<open>data = self._client._verb(...); return f(data)\<close>.\<close>

definition returning ::
  "(py_error + json) \<times> 'c \<Rightarrow> (json \<Rightarrow> py_error + 'a) \<Rightarrow> (py_error + 'a) \<times> 'c" where
  "returning rc f = (case rc of (r, c') \<Rightarrow> (and_then r f, c'))"

text \<open>
  An instance of the validators for concrete runs: it accepts exactly the values that
  already have the annotated type, and keeps a \<open>datetime\<close> as its text.
\<close>

definition exact_validators :: "string validators" where
  "exact_validators =
     \<lparr>v_str = (\<lambda>j. case j of JString s \<Rightarrow> Some s | _ \<Rightarrow> None),
      v_int = (\<lambda>j. case j of JInt i \<Rightarrow> Some i | _ \<Rightarrow> None),
      v_bool = (\<lambda>j. case j of JBool b \<Rightarrow> Some b | _ \<Rightarrow> None),
      v_datetime = (\<lambda>j. case j of JString s \<Rightarrow> Some s | _ \<Rightarrow> None)\<rparr>"

subsection \<open>Repositories\<close>

definition RepositoryAPI_list ::
  "'dt validators \<Rightarrow> 'w GutsClient \<Rightarrow> int option
     \<Rightarrow> int option
     \<Rightarrow> (py_error + ('dt Repository list)) \<times> 'w GutsClient" where
  "RepositoryAPI_list V c page per_page =
     returning
       (GutsClient_get c ''/api/repos''
          (Some [(''page'', JInt (or_default page 1)),
                 (''per_page'', JInt (or_default per_page 30))]))
       (comprehension_items (new_Repository V))"

definition RepositoryAPI_get ::
  "'dt validators \<Rightarrow> 'w GutsClient \<Rightarrow> string \<Rightarrow> string
     \<Rightarrow> (py_error + ('dt Repository)) \<times> 'w GutsClient" where
  "RepositoryAPI_get V c owner name =
     returning (GutsClient_get c (''/api/repos/'' @ owner @ ''/'' @ name) None) (new_Repository V)"

definition RepositoryAPI_create ::
  "'dt validators \<Rightarrow> 'w GutsClient \<Rightarrow> string
     \<Rightarrow> string option \<Rightarrow> bool option
     \<Rightarrow> (py_error + ('dt Repository)) \<times> 'w GutsClient" where
  "RepositoryAPI_create V c name description private =
     returning
       (GutsClient_post c ''/api/repos''
          (Some [(''name'', JString name), (''description'', optional_str description),
                 (''private'', JBool (or_default private False))]))
       (new_Repository V)"

definition RepositoryAPI_update ::
  "'dt validators \<Rightarrow> 'w GutsClient \<Rightarrow> string \<Rightarrow> string
     \<Rightarrow> (string \<times> json) list
     \<Rightarrow> (py_error + ('dt Repository)) \<times> 'w GutsClient" where
  "RepositoryAPI_update V c owner name kwargs =
     returning (GutsClient_patch c (''/api/repos/'' @ owner @ ''/'' @ name) (Some kwargs))
       (new_Repository V)"

definition RepositoryAPI_delete ::
  "'w GutsClient \<Rightarrow> string \<Rightarrow> string
     \<Rightarrow> (py_error + unit) \<times> 'w GutsClient" where
  "RepositoryAPI_delete c owner name =
     GutsClient_delete c (''/api/repos/'' @ owner @ ''/'' @ name)"

subsection \<open>Issues\<close>

definition IssueAPI_list ::
  "'dt validators \<Rightarrow> 'w GutsClient \<Rightarrow> string \<Rightarrow> string
     \<Rightarrow> string option \<Rightarrow> int option \<Rightarrow> int option
     \<Rightarrow> (py_error + ('dt Issue list)) \<times> 'w GutsClient" where
  "IssueAPI_list V c owner repo state page per_page =
     returning
       (GutsClient_get c (''/api/repos/'' @ owner @ ''/'' @ repo @ ''/issues'')
          (Some [(''state'', JString (or_default state ''open'')), (''page'', JInt (or_default page 1)),
                 (''per_page'', JInt (or_default per_page 30))]))
       (comprehension_items (new_Issue V))"

definition IssueAPI_get ::
  "'dt validators \<Rightarrow> 'w GutsClient \<Rightarrow> string \<Rightarrow> string
     \<Rightarrow> int \<Rightarrow> (py_error + ('dt Issue)) \<times> 'w GutsClient" where
  "IssueAPI_get V c owner repo number =
     returning (GutsClient_get c (''/api/repos/'' @ owner @ ''/'' @ repo @ ''/issues/'' @ str_int number) None)
       (new_Issue V)"

definition IssueAPI_create ::
  "'dt validators \<Rightarrow> 'w GutsClient \<Rightarrow> string \<Rightarrow> string
     \<Rightarrow> CreateIssueRequest
     \<Rightarrow> (py_error + ('dt Issue)) \<times> 'w GutsClient" where
  "IssueAPI_create V c owner repo request =
     returning
       (GutsClient_post c (''/api/repos/'' @ owner @ ''/'' @ repo @ ''/issues'')
          (Some (exclude_none (CreateIssueRequest_model_dump request))))
       (new_Issue V)"

definition IssueAPI_update ::
  "'dt validators \<Rightarrow> 'w GutsClient \<Rightarrow> string \<Rightarrow> string
     \<Rightarrow> int \<Rightarrow> (string \<times> json) list
     \<Rightarrow> (py_error + ('dt Issue)) \<times> 'w GutsClient" where
  "IssueAPI_update V c owner repo number kwargs =
     returning
       (GutsClient_patch c (''/api/repos/'' @ owner @ ''/'' @ repo @ ''/issues/'' @ str_int number) (Some kwargs))
       (new_Issue V)"

definition IssueAPI_close ::
  "'dt validators \<Rightarrow> 'w GutsClient \<Rightarrow> string \<Rightarrow> string
     \<Rightarrow> int \<Rightarrow> (py_error + ('dt Issue)) \<times> 'w GutsClient" where
  "IssueAPI_close V c owner repo number =
     IssueAPI_update V c owner repo number [(''state'', JString ''closed'')]"

definition IssueAPI_reopen ::
  "'dt validators \<Rightarrow> 'w GutsClient \<Rightarrow> string \<Rightarrow> string
     \<Rightarrow> int \<Rightarrow> (py_error + ('dt Issue)) \<times> 'w GutsClient" where
  "IssueAPI_reopen V c owner repo number =
     IssueAPI_update V c owner repo number [(''state'', JString ''open'')]"

definition IssueAPI_list_comments ::
  "'dt validators \<Rightarrow> 'w GutsClient \<Rightarrow> string \<Rightarrow> string
     \<Rightarrow> int \<Rightarrow> (py_error + ('dt Comment list)) \<times> 'w GutsClient" where
  "IssueAPI_list_comments V c owner repo number =
     returning
       (GutsClient_get c (''/api/repos/'' @ owner @ ''/'' @ repo @ ''/issues/'' @ str_int number @ ''/comments'') None)
       (comprehension (new_Comment V))"

definition IssueAPI_create_comment ::
  "'dt validators \<Rightarrow> 'w GutsClient \<Rightarrow> string \<Rightarrow> string
     \<Rightarrow> int \<Rightarrow> string
     \<Rightarrow> (py_error + ('dt Comment)) \<times> 'w GutsClient" where
  "IssueAPI_create_comment V c owner repo number body =
     returning
       (GutsClient_post c (''/api/repos/'' @ owner @ ''/'' @ repo @ ''/issues/'' @ str_int number @ ''/comments'')
          (Some [(''body'', JString body)]))
       (new_Comment V)"

subsection \<open>Pull requests\<close>

definition PullRequestAPI_list ::
  "'dt validators \<Rightarrow> 'w GutsClient \<Rightarrow> string \<Rightarrow> string
     \<Rightarrow> string option \<Rightarrow> int option \<Rightarrow> int option
     \<Rightarrow> (py_error + ('dt PullRequest list)) \<times> 'w GutsClient" where
  "PullRequestAPI_list V c owner repo state page per_page =
     returning
       (GutsClient_get c (''/api/repos/'' @ owner @ ''/'' @ repo @ ''/pulls'')
          (Some [(''state'', JString (or_default state ''open'')), (''page'', JInt (or_default page 1)),
                 (''per_page'', JInt (or_default per_page 30))]))
       (comprehension_items (new_PullRequest V))"

definition PullRequestAPI_get ::
  "'dt validators \<Rightarrow> 'w GutsClient \<Rightarrow> string \<Rightarrow> string
     \<Rightarrow> int \<Rightarrow> (py_error + ('dt PullRequest)) \<times> 'w GutsClient" where
  "PullRequestAPI_get V c owner repo number =
     returning (GutsClient_get c (''/api/repos/'' @ owner @ ''/'' @ repo @ ''/pulls/'' @ str_int number) None)
       (new_PullRequest V)"

definition PullRequestAPI_create ::
  "'dt validators \<Rightarrow> 'w GutsClient \<Rightarrow> string \<Rightarrow> string
     \<Rightarrow> CreatePullRequestRequest
     \<Rightarrow> (py_error + ('dt PullRequest)) \<times> 'w GutsClient" where
  "PullRequestAPI_create V c owner repo request =
     returning
       (GutsClient_post c (''/api/repos/'' @ owner @ ''/'' @ repo @ ''/pulls'')
          (Some (exclude_none (CreatePullRequestRequest_model_dump request))))
       (new_PullRequest V)"

definition PullRequestAPI_update ::
  "'dt validators \<Rightarrow> 'w GutsClient \<Rightarrow> string \<Rightarrow> string
     \<Rightarrow> int \<Rightarrow> (string \<times> json) list
     \<Rightarrow> (py_error + ('dt PullRequest)) \<times> 'w GutsClient" where
  "PullRequestAPI_update V c owner repo number kwargs =
     returning
       (GutsClient_patch c (''/api/repos/'' @ owner @ ''/'' @ repo @ ''/pulls/'' @ str_int number) (Some kwargs))
       (new_PullRequest V)"

definition PullRequestAPI_merge ::
  "'w GutsClient \<Rightarrow> string \<Rightarrow> string \<Rightarrow> int
     \<Rightarrow> string option \<Rightarrow> (py_error + unit) \<times> 'w GutsClient" where
  "PullRequestAPI_merge c owner repo number method =
     returning
       (GutsClient_post c (''/api/repos/'' @ owner @ ''/'' @ repo @ ''/pulls/'' @ str_int number @ ''/merge'')
          (Some [(''merge_method'', JString (or_default method ''merge''))]))
       (\<lambda>data. Inr ())"

definition PullRequestAPI_close ::
  "'dt validators \<Rightarrow> 'w GutsClient \<Rightarrow> string \<Rightarrow> string
     \<Rightarrow> int \<Rightarrow> (py_error + ('dt PullRequest)) \<times> 'w GutsClient" where
  "PullRequestAPI_close V c owner repo number =
     PullRequestAPI_update V c owner repo number [(''state'', JString ''closed'')]"

definition PullRequestAPI_list_reviews ::
  "'dt validators \<Rightarrow> 'w GutsClient \<Rightarrow> string \<Rightarrow> string
     \<Rightarrow> int \<Rightarrow> (py_error + ('dt Review list)) \<times> 'w GutsClient" where
  "PullRequestAPI_list_reviews V c owner repo number =
     returning
       (GutsClient_get c (''/api/repos/'' @ owner @ ''/'' @ repo @ ''/pulls/'' @ str_int number @ ''/reviews'') None)
       (comprehension (new_Review V))"

definition PullRequestAPI_create_review ::
  "'dt validators \<Rightarrow> 'w GutsClient \<Rightarrow> string \<Rightarrow> string
     \<Rightarrow> int \<Rightarrow> CreateReviewRequest
     \<Rightarrow> (py_error + ('dt Review)) \<times> 'w GutsClient" where
  "PullRequestAPI_create_review V c owner repo number request =
     returning
       (GutsClient_post c (''/api/repos/'' @ owner @ ''/'' @ repo @ ''/pulls/'' @ str_int number @ ''/reviews'')
          (Some (exclude_none (CreateReviewRequest_model_dump request))))
       (new_Review V)"

subsection \<open>Releases\<close>

definition ReleaseAPI_list ::
  "'dt validators \<Rightarrow> 'w GutsClient \<Rightarrow> string \<Rightarrow> string
     \<Rightarrow> (py_error + ('dt Release list)) \<times> 'w GutsClient" where
  "ReleaseAPI_list V c owner repo =
     returning (GutsClient_get c (''/api/repos/'' @ owner @ ''/'' @ repo @ ''/releases'') None)
       (comprehension (new_Release V))"

definition ReleaseAPI_get ::
  "'dt validators \<Rightarrow> 'w GutsClient \<Rightarrow> string \<Rightarrow> string
     \<Rightarrow> string \<Rightarrow> (py_error + ('dt Release)) \<times> 'w GutsClient" where
  "ReleaseAPI_get V c owner repo release_id =
     returning (GutsClient_get c (''/api/repos/'' @ owner @ ''/'' @ repo @ ''/releases/'' @ release_id) None)
       (new_Release V)"

definition ReleaseAPI_get_latest ::
  "'dt validators \<Rightarrow> 'w GutsClient \<Rightarrow> string \<Rightarrow> string
     \<Rightarrow> (py_error + ('dt Release)) \<times> 'w GutsClient" where
  "ReleaseAPI_get_latest V c owner repo =
     returning (GutsClient_get c (''/api/repos/'' @ owner @ ''/'' @ repo @ ''/releases/latest'') None)
       (new_Release V)"

definition ReleaseAPI_create ::
  "'dt validators \<Rightarrow> 'w GutsClient \<Rightarrow> string \<Rightarrow> string
     \<Rightarrow> CreateReleaseRequest
     \<Rightarrow> (py_error + ('dt Release)) \<times> 'w GutsClient" where
  "ReleaseAPI_create V c owner repo request =
     returning
       (GutsClient_post c (''/api/repos/'' @ owner @ ''/'' @ repo @ ''/releases'')
          (Some (exclude_none (CreateReleaseRequest_model_dump request))))
       (new_Release V)"

definition ReleaseAPI_delete ::
  "'w GutsClient \<Rightarrow> string \<Rightarrow> string \<Rightarrow> string
     \<Rightarrow> (py_error + unit) \<times> 'w GutsClient" where
  "ReleaseAPI_delete c owner repo release_id =
     GutsClient_delete c (''/api/repos/'' @ owner @ ''/'' @ repo @ ''/releases/'' @ release_id)"

subsection \<open>Labels\<close>

definition LabelAPI_list ::
  "'dt validators \<Rightarrow> 'w GutsClient \<Rightarrow> string \<Rightarrow> string
     \<Rightarrow> (py_error + (Label list)) \<times> 'w GutsClient" where
  "LabelAPI_list V c owner repo =
     returning (GutsClient_get c (''/api/repos/'' @ owner @ ''/'' @ repo @ ''/labels'') None)
       (comprehension (new_Label V))"

definition LabelAPI_create ::
  "'dt validators \<Rightarrow> 'w GutsClient \<Rightarrow> string \<Rightarrow> string
     \<Rightarrow> string \<Rightarrow> string \<Rightarrow> string option
     \<Rightarrow> (py_error + Label) \<times> 'w GutsClient" where
  "LabelAPI_create V c owner repo name color description =
     returning
       (GutsClient_post c (''/api/repos/'' @ owner @ ''/'' @ repo @ ''/labels'')
          (Some [(''name'', JString name), (''color'', JString color),
                 (''description'', optional_str description)]))
       (new_Label V)"

definition LabelAPI_delete ::
  "'w GutsClient \<Rightarrow> string \<Rightarrow> string \<Rightarrow> string
     \<Rightarrow> (py_error + unit) \<times> 'w GutsClient" where
  "LabelAPI_delete c owner repo name =
     GutsClient_delete c (''/api/repos/'' @ owner @ ''/'' @ repo @ ''/labels/'' @ name)"

subsection \<open>Users\<close>

definition UserAPI_me ::
  "'dt validators \<Rightarrow> 'w GutsClient
     \<Rightarrow> (py_error + ('dt User)) \<times> 'w GutsClient" where
  "UserAPI_me V c =
     returning (GutsClient_get c ''/api/user'' None) (new_User V)"

definition UserAPI_get ::
  "'dt validators \<Rightarrow> 'w GutsClient \<Rightarrow> string
     \<Rightarrow> (py_error + ('dt User)) \<times> 'w GutsClient" where
  "UserAPI_get V c username =
     returning (GutsClient_get c (''/api/users/'' @ username) None) (new_User V)"

subsection \<open>Organizations\<close>

definition OrganizationAPI_list ::
  "'dt validators \<Rightarrow> 'w GutsClient
     \<Rightarrow> (py_error + ('dt Organization list)) \<times> 'w GutsClient" where
  "OrganizationAPI_list V c =
     returning (GutsClient_get c ''/api/user/orgs'' None) (comprehension (new_Organization V))"

definition OrganizationAPI_get ::
  "'dt validators \<Rightarrow> 'w GutsClient \<Rightarrow> string
     \<Rightarrow> (py_error + ('dt Organization)) \<times> 'w GutsClient" where
  "OrganizationAPI_get V c org =
     returning (GutsClient_get c (''/api/orgs/'' @ org) None) (new_Organization V)"

definition OrganizationAPI_list_teams ::
  "'dt validators \<Rightarrow> 'w GutsClient \<Rightarrow> string
     \<Rightarrow> (py_error + ('dt Team list)) \<times> 'w GutsClient" where
  "OrganizationAPI_list_teams V c org =
     returning (GutsClient_get c (''/api/orgs/'' @ org @ ''/teams'') None)
       (comprehension (new_Team V))"

definition OrganizationAPI_get_team ::
  "'dt validators \<Rightarrow> 'w GutsClient \<Rightarrow> string \<Rightarrow> string
     \<Rightarrow> (py_error + ('dt Team)) \<times> 'w GutsClient" where
  "OrganizationAPI_get_team V c org team_slug =
     returning (GutsClient_get c (''/api/orgs/'' @ org @ ''/teams/'' @ team_slug) None)
       (new_Team V)"

subsection \<open>Webhooks\<close>

definition WebhookAPI_list ::
  "'dt validators \<Rightarrow> 'w GutsClient \<Rightarrow> string \<Rightarrow> string
     \<Rightarrow> (py_error + ('dt Webhook list)) \<times> 'w GutsClient" where
  "WebhookAPI_list V c owner repo =
     returning (GutsClient_get c (''/api/repos/'' @ owner @ ''/'' @ repo @ ''/hooks'') None)
       (comprehension (new_Webhook V))"

definition WebhookAPI_create ::
  "'dt validators \<Rightarrow> 'w GutsClient \<Rightarrow> string \<Rightarrow> string
     \<Rightarrow> CreateWebhookRequest
     \<Rightarrow> (py_error + ('dt Webhook)) \<times> 'w GutsClient" where
  "WebhookAPI_create V c owner repo request =
     returning
       (GutsClient_post c (''/api/repos/'' @ owner @ ''/'' @ repo @ ''/hooks'')
          (Some (exclude_none (CreateWebhookRequest_model_dump request))))
       (new_Webhook V)"

definition WebhookAPI_delete ::
  "'w GutsClient \<Rightarrow> string \<Rightarrow> string \<Rightarrow> string
     \<Rightarrow> (py_error + unit) \<times> 'w GutsClient" where
  "WebhookAPI_delete c owner repo hook_id =
     GutsClient_delete c (''/api/repos/'' @ owner @ ''/'' @ repo @ ''/hooks/'' @ hook_id)"

subsection \<open>Consensus\<close>

definition ConsensusAPI_status ::
  "'dt validators \<Rightarrow> 'w GutsClient
     \<Rightarrow> (py_error + ('dt ConsensusStatus)) \<times> 'w GutsClient" where
  "ConsensusAPI_status V c =
     returning (GutsClient_get c ''/api/consensus/status'' None) (new_ConsensusStatus V)"

definition ConsensusAPI_list_blocks ::
  "'dt validators \<Rightarrow> 'w GutsClient \<Rightarrow> int option
     \<Rightarrow> (py_error + ('dt Block list)) \<times> 'w GutsClient" where
  "ConsensusAPI_list_blocks V c limit =
     returning
       (GutsClient_get c ''/api/consensus/blocks''
          (Some [(''limit'', JInt (or_default limit 10))]))
       (comprehension (new_Block V))"

definition ConsensusAPI_get_block ::
  "'dt validators \<Rightarrow> 'w GutsClient \<Rightarrow> int
     \<Rightarrow> (py_error + ('dt Block)) \<times> 'w GutsClient" where
  "ConsensusAPI_get_block V c height =
     returning (GutsClient_get c (''/api/consensus/blocks/'' @ str_int height) None)
       (new_Block V)"

definition ConsensusAPI_list_validators ::
  "'dt validators \<Rightarrow> 'w GutsClient
     \<Rightarrow> (py_error + ('dt Validator list)) \<times> 'w GutsClient" where
  "ConsensusAPI_list_validators V c =
     returning (GutsClient_get c ''/api/consensus/validators'' None)
       (comprehension (new_Validator V))"

section \<open>Properties of the building blocks\<close>

lemmas exception_init_defs =
  GutsError_init_def new_GutsError_def new_NotFoundError_def new_UnauthorizedError_def
  new_ForbiddenError_def new_RateLimitError_def new_ValidationError_def new_ServerError_def

lemma raise_for_status_raises:
  "400 \<le> code \<Longrightarrow>
   \<exists>e. raise_for_status code msg det = Inl e \<and> message (fields_of e) = msg
     \<and> status_code (fields_of e) = code \<and> details (fields_of e) = det"
  by (simp add: raise_for_status_def exception_init_defs)

text \<open>The two string tests are the prefix and the substring relation.\<close>

lemma starts_with_iff: "starts_with s p \<longleftrightarrow> (\<exists>b. s = p @ b)"
  by (induction s p rule: starts_with.induct) auto

lemma str_contains_iff: "str_contains s p \<longleftrightarrow> (\<exists>a b. s = a @ p @ b)"
proof (induction s)
  case Nil
  then show ?case by simp
next
  case (Cons c cs)
  have "(\<exists>a b. c # cs = a @ p @ b) \<longleftrightarrow> (\<exists>b. c # cs = p @ b) \<or> (\<exists>a b. cs = a @ p @ b)"
  proof
    assume "\<exists>a b. c # cs = a @ p @ b"
    then obtain a b where ab: "c # cs = a @ p @ b" by blast
    show "(\<exists>b. c # cs = p @ b) \<or> (\<exists>a b. cs = a @ p @ b)"
    proof (cases a)
      case Nil
      with ab show ?thesis by auto
    next
      case (Cons x a')
      with ab have "cs = a' @ p @ b" by simp
      then show ?thesis by blast
    qed
  next
    assume "(\<exists>b. c # cs = p @ b) \<or> (\<exists>a b. cs = a @ p @ b)"
    then show "\<exists>a b. c # cs = a @ p @ b"
    proof
      assume "\<exists>b. c # cs = p @ b"
      then obtain b where "c # cs = [] @ p @ b" by auto
      then show ?thesis by blast
    next
      assume "\<exists>a b. cs = a @ p @ b"
      then obtain a b where "c # cs = (c # a) @ p @ b" by auto
      then show ?thesis by blast
    qed
  qed
  with Cons.IH show ?case by (simp add: starts_with_iff)
qed

text \<open>What a request leaves in the log, and what it returns for a given response.\<close>

lemma GutsClient_request_sent:
  "sent (snd (GutsClient_request c meth path params body))
     = sent c @ [\<lparr>req_method = meth, req_path = path, req_params = params, req_json = body\<rparr>]"
  by (simp add: GutsClient_request_def Let_def split: prod.splits)

lemma GutsClient_request_result:
  "httpx_request c \<lparr>req_method = meth, req_path = path, req_params = params, req_json = body\<rparr>
       (remote c) = (resp, w')
   \<Longrightarrow> fst (GutsClient_request c meth path params body) = handle_response resp"
  by (simp add: GutsClient_request_def)

lemma handle_response_success:
  "is_success resp \<Longrightarrow> resp_status_code resp \<noteq> 204 \<Longrightarrow> resp_json resp = Some data
   \<Longrightarrow> handle_response resp = Inr data"
  by (simp add: handle_response_def response_body_def)

lemma returning_fst: "fst (returning rc f) = and_then (fst rc) f"
  by (simp add: returning_def split: prod.splits)

lemma returning_snd: "snd (returning rc f) = snd rc"
  by (simp add: returning_def split: prod.splits)

lemma and_then_Inr: "and_then (Inr x) f = f x"
  by (simp add: and_then_def)

lemma and_then_Inl: "and_then (Inl e) f = Inl e"
  by (simp add: and_then_def)

text \<open>
  \<open>map_result\<close> returns a list exactly when every element is accepted, and the list then
  holds the results in the order of the elements.
\<close>

lemma map_result_Inr_iff:
  "map_result f xs = Inr ys \<longleftrightarrow> list_all2 (\<lambda>x y. f x = Inr y) xs ys"
proof (induction xs arbitrary: ys)
  case Nil
  then show ?case by auto
next
  case (Cons x xs)
  show ?case
  proof (cases "f x")
    case (Inl e)
    then show ?thesis by (auto simp add: list_all2_Cons1)
  next
    case (Inr y)
    then show ?thesis
      using Cons.IH by (cases "map_result f xs") (auto simp add: list_all2_Cons1)
  qed
qed

lemma comprehension_items_envelope:
  "map_of d ''items'' = Some (JArray xs)
   \<Longrightarrow> comprehension_items ctor (JObject d) = map_result ctor xs"
  by (simp add: comprehension_items_def comprehension_def py_get_def py_iter_def and_then_def)

lemma comprehension_items_array:
  "comprehension_items ctor (JArray xs) = Inl AttributeError"
  by (simp add: comprehension_items_def py_get_def and_then_def)

lemma comprehension_array:
  "comprehension ctor (JArray xs) = map_result ctor xs"
  by (simp add: comprehension_def py_iter_def and_then_def)

lemma exclude_none_no_null: "(k, JNull) \<notin> set (exclude_none kvs)"
  by (simp add: exclude_none_def)

text \<open>The decimal text of some numbers, as it appears in the paths.\<close>

lemma str_int_examples:
  "str_int 0 = ''0''" "str_int 5 = ''5''" "str_int 99 = ''99''" "str_int (- 12) = ''-12''"
  by (simp_all add: str_int_def str_nat.simps digit_char_def)

section \<open>Error dispatch\<close>

text \<open>
  Claim C1.  For every status code from 400 upwards \<open>raise_for_status\<close> raises, and the
  exception raised carries the given message, the given status code and the given details.
  Its class is \<open>UnauthorizedError\<close> for 401, \<open>ForbiddenError\<close> for 403, \<open>NotFoundError\<close> for
  404, \<open>ValidationError\<close> for 422, \<open>RateLimitError\<close> for 429, \<open>ServerError\<close> for every code
  from 500 upwards, and the plain \<open>GutsError\<close> for every other code between 400 and 499.
\<close>

theorem raise_for_status_dispatch:
  "400 \<le> code \<Longrightarrow>
   \<exists>e. raise_for_status code msg det = Inl e
     \<and> message (fields_of e) = msg
     \<and> status_code (fields_of e) = code
     \<and> details (fields_of e) = det
     \<and> (code = 401 \<longrightarrow> kind_of e = Unauthorized)
     \<and> (code = 403 \<longrightarrow> kind_of e = Forbidden)
     \<and> (code = 404 \<longrightarrow> kind_of e = NotFound)
     \<and> (code = 422 \<longrightarrow> kind_of e = Validation)
     \<and> (code = 429 \<longrightarrow> kind_of e = RateLimited)
     \<and> (500 \<le> code \<longrightarrow> kind_of e = Server)
     \<and> (code \<le> 499 \<and> code \<notin> {401, 403, 404, 422, 429} \<longrightarrow> kind_of e = Generic)"
  by (simp add: raise_for_status_def exception_init_defs)

theorem raise_for_status_dispatch_witness:
  "(400::int) \<le> 503
   \<and> (\<exists>e. raise_for_status 503 (JString ''down'') (JObject [(''node'', JInt 3)]) = Inl e
        \<and> message (fields_of e) = JString ''down''
        \<and> status_code (fields_of e) = 503
        \<and> details (fields_of e) = JObject [(''node'', JInt 3)]
        \<and> kind_of e = Server)"
  using raise_for_status_dispatch [of 503 "JString ''down''" "JObject [(''node'', JInt 3)]"]
  by simp

text \<open>
  Claim C8.  A 429 response is dispatched to a \<open>RateLimitError\<close> with the message, the status
  429 and the details preserved, but its \<open>retry_after\<close> is \<open>None\<close> whatever the response
  declares: \<open>raise_for_status\<close> builds the exception without a hint, and \<open>_request\<close> reads
  neither the headers nor the body for one.  The run below is a 429 response that declares a
  delay of 30 seconds both in its \<open>Retry-After\<close> header and in its body.
\<close>

theorem rate_limit_hint_not_forwarded:
  "raise_for_status 429 msg det
     = Inl (RateLimitError \<lparr>message = msg, status_code = 429, details = det\<rparr> None)
   \<and> fst (GutsClient_request
            (always \<lparr>resp_status_code = 429,
                     resp_text = ''{\"message\": \"slow down\", \"retry_after\": 30}'',
                     resp_json = Some (JObject [(''message'', JString ''slow down''),
                                                (''retry_after'', JInt 30)]),
                     resp_headers = [(''Retry-After'', ''30'')]\<rparr>)
            ''GET'' ''/api/repos'' None None)
     = Inl (Raised (RateLimitError
                     \<lparr>message = JString ''slow down'', status_code = 429,
                      details = JObject [(''message'', JString ''slow down''),
                                         (''retry_after'', JInt 30)]\<rparr>
                     None))"
  by (simp add: raise_for_status_def exception_init_defs GutsClient_request_def always_def
        handle_response_def is_success_def failure_info_def)

section \<open>The transport's handling of failing responses\<close>

text \<open>
  Claim C9.  For every status code strictly below 400 \<open>raise_for_status\<close> returns normally;
  so a response that is not a success and whose status is below 400 (a 1xx or 3xx code)
  raises no exception of the taxonomy, and \<open>_request\<close> goes on to decode the body with
  \<open>response.json()\<close> and returns it, exactly as it does for a success other than 204.
\<close>

theorem status_below_400_not_an_error:
  "(code < 400 \<longrightarrow> raise_for_status code msg det = Inr ())
   \<and> (\<not> is_success resp \<and> resp_status_code resp < 400 \<and> httpx_request c
          \<lparr>req_method = meth, req_path = path, req_params = params, req_json = body\<rparr> (remote c)
          = (resp, w')
        \<longrightarrow> fst (GutsClient_request c meth path params body)
            = (case resp_json resp of None \<Rightarrow> Inl JSONDecodeError | Some data \<Rightarrow> Inr data))"
  by (auto simp add: raise_for_status_def GutsClient_request_def handle_response_def
        response_body_def is_success_def split: prod.splits)

theorem status_below_400_not_an_error_witness:
  "raise_for_status 302 (JString ''Found'') JNull = Inr ()
   \<and> fst (GutsClient_request
            (always \<lparr>resp_status_code = 302, resp_text = ''{\"moved\": true}'',
                     resp_json = Some (JObject [(''moved'', JBool True)]),
                     resp_headers = []\<rparr>) ''GET'' ''/api/user'' None None)
     = Inr (JObject [(''moved'', JBool True)])"
  using status_below_400_not_an_error
    [of 302 "JString ''Found''" JNull
        "\<lparr>resp_status_code = 302, resp_text = ''{\"moved\": true}'',
          resp_json = Some (JObject [(''moved'', JBool True)]), resp_headers = []\<rparr>"
        "always \<lparr>resp_status_code = 302, resp_text = ''{\"moved\": true}'',
                 resp_json = Some (JObject [(''moved'', JBool True)]), resp_headers = []\<rparr>"
        "''GET''" "''/api/user''" None None "()"]
  by (simp add: always_def is_success_def)

text \<open>
  Claim C10, as the claim states it, fails: the response text becomes the message also
  when the body does decode.  Here the body is the JSON value \<open>null\<close>; the membership test
  on \<open>None\<close> raises inside the \<open>try\<close> block and the handler takes the text.
\<close>

theorem response_text_used_for_decoded_body:
  "fst (GutsClient_request
          (always \<lparr>resp_status_code = 500, resp_text = ''null'', resp_json = Some JNull,
                   resp_headers = []\<rparr>) ''GET'' ''/api/user'' None None)
     = Inl (Raised (ServerError
                     \<lparr>message = JString ''null'', status_code = 500, details = JNull\<rparr>))"
  by (simp add: raise_for_status_def exception_init_defs GutsClient_request_def always_def
        handle_response_def is_success_def failure_info_def)

text \<open>
  Claim C10, amended.  Every response with a status from 400 upwards raises an exception
  with that status, and:
  \<^item> when the body decodes to a dictionary without a \<open>"message"\<close> key, the message is
    \<open>"Request failed"\<close> and the details are the whole decoded body;
  \<^item> when the body does not decode, or decodes to \<open>None\<close>, a boolean or a number, or to a
    string or a list that contains \<open>"message"\<close>, the message is the response text, or
    \<open>"Request failed"\<close> when the text is empty, and the details are \<open>None\<close>;
  \<^item> when the body decodes to a dictionary with a \<open>"message"\<close> key, the message is the value
    under that key and the details are the whole body;
  \<^item> when the body decodes to a string or a list that does not contain \<open>"message"\<close>, the
    message is \<open>"Request failed"\<close> and the details are the whole body.
\<close>

theorem failing_response_message:
  assumes "400 \<le> resp_status_code resp"
    and "httpx_request c
           \<lparr>req_method = meth, req_path = path, req_params = params, req_json = body\<rparr>
           (remote c) = (resp, w')"
  shows "\<exists>e. fst (GutsClient_request c meth path params body) = Inl (Raised e)
     \<and> status_code (fields_of e) = resp_status_code resp
     \<and> (\<forall>d. resp_json resp = Some (JObject d) \<and> map_of d ''message'' = None
           \<longrightarrow> message (fields_of e) = JString ''Request failed''
               \<and> details (fields_of e) = JObject d)
     \<and> (resp_json resp = None
          \<or> resp_json resp = Some JNull
          \<or> (\<exists>b. resp_json resp = Some (JBool b))
          \<or> (\<exists>i. resp_json resp = Some (JInt i))
          \<or> (\<exists>m x. resp_json resp = Some (JFloat m x))
          \<or> (\<exists>s. resp_json resp = Some (JString s) \<and> str_contains s ''message'')
          \<or> (\<exists>xs. resp_json resp = Some (JArray xs) \<and> JString ''message'' \<in> set xs)
         \<longrightarrow> message (fields_of e)
               = (if resp_text resp = [] then JString ''Request failed''
                  else JString (resp_text resp))
             \<and> details (fields_of e) = JNull)
     \<and> (\<forall>d m. resp_json resp = Some (JObject d) \<and> map_of d ''message'' = Some m
           \<longrightarrow> message (fields_of e) = m \<and> details (fields_of e) = JObject d)
     \<and> (\<forall>s. resp_json resp = Some (JString s) \<and> \<not> str_contains s ''message''
           \<longrightarrow> message (fields_of e) = JString ''Request failed''
               \<and> details (fields_of e) = JString s)
     \<and> (\<forall>xs. resp_json resp = Some (JArray xs) \<and> JString ''message'' \<notin> set xs
           \<longrightarrow> message (fields_of e) = JString ''Request failed''
               \<and> details (fields_of e) = JArray xs)"
proof -
  obtain msg det where info: "failure_info resp = (msg, det)"
    by (cases "failure_info resp")
  obtain e where e: "raise_for_status (resp_status_code resp) msg det = Inl e"
    "message (fields_of e) = msg" "status_code (fields_of e) = resp_status_code resp"
    "details (fields_of e) = det"
    using raise_for_status_raises [OF assms(1)] by blast
  have raised: "fst (GutsClient_request c meth path params body) = Inl (Raised e)"
    using assms(1)
    by (simp add: GutsClient_request_result [OF assms(2)] handle_response_def is_success_def
          info e(1))
  have no_key: "msg = JString ''Request failed'' \<and> det = JObject d"
    if "resp_json resp = Some (JObject d)" "map_of d ''message'' = None" for d
    using info that by (simp add: failure_info_def)
  have handler: "msg = (if resp_text resp = [] then JString ''Request failed''
                        else JString (resp_text resp)) \<and> det = JNull"
    if "resp_json resp = None
          \<or> resp_json resp = Some JNull
          \<or> (\<exists>b. resp_json resp = Some (JBool b))
          \<or> (\<exists>i. resp_json resp = Some (JInt i))
          \<or> (\<exists>m x. resp_json resp = Some (JFloat m x))
          \<or> (\<exists>s. resp_json resp = Some (JString s) \<and> str_contains s ''message'')
          \<or> (\<exists>xs. resp_json resp = Some (JArray xs) \<and> JString ''message'' \<in> set xs)"
    using info that by (auto simp add: failure_info_def)
  have key: "msg = m \<and> det = JObject d"
    if "resp_json resp = Some (JObject d)" "map_of d ''message'' = Some m" for d m
    using info that by (simp add: failure_info_def)
  have str: "msg = JString ''Request failed'' \<and> det = JString s"
    if "resp_json resp = Some (JString s)" "\<not> str_contains s ''message''" for s
    using info that by (simp add: failure_info_def)
  have arr: "msg = JString ''Request failed'' \<and> det = JArray xs"
    if "resp_json resp = Some (JArray xs)" "JString ''message'' \<notin> set xs" for xs
    using info that by (simp add: failure_info_def)
  show ?thesis
    using raised e(2,3,4) no_key handler key str arr by blast
qed

theorem failing_response_message_witness:
  "fst (GutsClient_request
          (always \<lparr>resp_status_code = 400, resp_text = ''{\"error\": \"bad\"}'',
                   resp_json = Some (JObject [(''error'', JString ''bad'')]),
                   resp_headers = []\<rparr>) ''GET'' ''/api/user'' None None)
     = Inl (Raised (GutsError
                     \<lparr>message = JString ''Request failed'', status_code = 400,
                      details = JObject [(''error'', JString ''bad'')]\<rparr>))
   \<and> fst (GutsClient_request
          (always \<lparr>resp_status_code = 502, resp_text = [], resp_json = None,
                   resp_headers = []\<rparr>) ''GET'' ''/api/user'' None None)
     = Inl (Raised (ServerError
                     \<lparr>message = JString ''Request failed'', status_code = 502,
                      details = JNull\<rparr>))"
proof -
  let ?r1 = "\<lparr>resp_status_code = 400, resp_text = ''{\"error\": \"bad\"}'',
              resp_json = Some (JObject [(''error'', JString ''bad'')]), resp_headers = []\<rparr>"
  let ?r2 = "\<lparr>resp_status_code = 502, resp_text = [], resp_json = None, resp_headers = []\<rparr>"
  have h1: "400 \<le> resp_status_code ?r1" and h2: "400 \<le> resp_status_code ?r2"
    by simp_all
  have t1: "httpx_request (always ?r1)
              \<lparr>req_method = ''GET'', req_path = ''/api/user'', req_params = None, req_json = None\<rparr>
              (remote (always ?r1)) = (?r1, ())"
    by (simp add: always_def)
  have t2: "httpx_request (always ?r2)
              \<lparr>req_method = ''GET'', req_path = ''/api/user'', req_params = None, req_json = None\<rparr>
              (remote (always ?r2)) = (?r2, ())"
    by (simp add: always_def)
  obtain e1 where e1: "fst (GutsClient_request (always ?r1) ''GET'' ''/api/user'' None None)
        = Inl (Raised e1)"
      "message (fields_of e1) = JString ''Request failed''"
      "details (fields_of e1) = JObject [(''error'', JString ''bad'')]"
    using failing_response_message [OF h1 t1] by auto
  obtain e2 where e2: "fst (GutsClient_request (always ?r2) ''GET'' ''/api/user'' None None)
        = Inl (Raised e2)"
      "message (fields_of e2) = JString ''Request failed''"
      "details (fields_of e2) = JNull"
    using failing_response_message [OF h2 t2] by auto
  have k1: "fst (GutsClient_request (always ?r1) ''GET'' ''/api/user'' None None)
        = Inl (Raised (GutsError \<lparr>message = message (fields_of e1), status_code = 400,
                                   details = details (fields_of e1)\<rparr>))"
    unfolding e1(2,3)
    by (simp add: raise_for_status_def exception_init_defs GutsClient_request_def always_def
          handle_response_def is_success_def failure_info_def)
  have k2: "fst (GutsClient_request (always ?r2) ''GET'' ''/api/user'' None None)
        = Inl (Raised (ServerError \<lparr>message = message (fields_of e2), status_code = 502,
                                     details = details (fields_of e2)\<rparr>))"
    unfolding e2(2,3)
    by (simp add: raise_for_status_def exception_init_defs GutsClient_request_def always_def
          handle_response_def is_success_def failure_info_def)
  show ?thesis
    using k1 k2 by (simp add: e1(2,3) e2(2,3))
qed

section \<open>List operations\<close>

text \<open>
  The list methods that build their result from \<open>data\<close> itself return, for a successful
  response whose body is a list, the element-wise construction of the target model
  (\<open>map_result\<close>: the records in order, or the exception of the first element rejected).
\<close>

lemma unpaginated_list_of_bare_array:
  assumes "httpx_request c
             \<lparr>req_method = ''GET'', req_path = path, req_params = params, req_json = None\<rparr>
             (remote c) = (resp, w')"
    and "is_success resp" and "resp_status_code resp \<noteq> 204"
    and "resp_json resp = Some (JArray xs)"
  shows "fst (returning (GutsClient_get c path params) (comprehension ctor)) = map_result ctor xs"
  using assms
  by (simp add: returning_fst GutsClient_get_def GutsClient_request_result
        handle_response_success and_then_Inr comprehension_array)

lemma label_list_of_bare_array:
  assumes "httpx_request c
             \<lparr>req_method = ''GET'', req_path = ''/api/repos/'' @ owner @ ''/'' @ repo @ ''/labels'',
              req_params = None, req_json = None\<rparr>
             (remote c) = (resp, w')"
    and "is_success resp" and "resp_status_code resp \<noteq> 204"
    and "resp_json resp = Some (JArray xs)"
  shows "fst (LabelAPI_list V c owner repo) = map_result (new_Label V) xs"
  unfolding LabelAPI_list_def by (rule unpaginated_list_of_bare_array [OF assms])

text \<open>
  Claim C2.  The claim holds for the list methods above but not for \<open>repos.list\<close>,
  \<open>issues.list\<close> and \<open>pulls.list\<close>: they call \<open>data.get("items", data)\<close>, and a list has no
  method \<open>get\<close>.  For every successful response whose body is a bare array, whatever its
  elements, each of the three raises \<open>AttributeError\<close> instead of returning the decoded
  list.
\<close>

theorem paginated_list_of_bare_array:
  "fst (RepositoryAPI_list V
         (always \<lparr>resp_status_code = 200, resp_text = t, resp_json = Some (JArray xs),
                  resp_headers = h\<rparr>) page per_page) = Inl AttributeError
   \<and> fst (IssueAPI_list V
         (always \<lparr>resp_status_code = 200, resp_text = t, resp_json = Some (JArray xs),
                  resp_headers = h\<rparr>) owner repo state page per_page) = Inl AttributeError
   \<and> fst (PullRequestAPI_list V
         (always \<lparr>resp_status_code = 200, resp_text = t, resp_json = Some (JArray xs),
                  resp_headers = h\<rparr>) owner repo state page per_page) = Inl AttributeError"
  by (simp add: RepositoryAPI_list_def IssueAPI_list_def PullRequestAPI_list_def returning_fst
        GutsClient_get_def GutsClient_request_def always_def handle_response_def is_success_def
        response_body_def and_then_Inr comprehension_items_array)

text \<open>
  Claim C3, as the claim states it, fails for the list methods that iterate over \<open>data\<close>
  itself: on an envelope they iterate over its keys and unpacking the key \<open>"items"\<close> raises
  \<open>TypeError\<close>.  Here \<open>labels.list\<close> receives the envelope of an empty list.
\<close>

theorem label_list_of_envelope:
  "fst (LabelAPI_list exact_validators
         (always \<lparr>resp_status_code = 200, resp_text = ''{\"items\": []}'',
                  resp_json = Some (JObject [(''items'', JArray [])]), resp_headers = []\<rparr>)
         ''alice'' ''demo'') = Inl TypeError"
  by (simp add: LabelAPI_list_def returning_fst GutsClient_get_def GutsClient_request_def
        always_def handle_response_def is_success_def response_body_def and_then_Inr
        comprehension_def py_iter_def new_Label_def construct_def)

text \<open>
  Claim C3, amended.  For \<open>repos.list\<close>, \<open>issues.list\<close> and \<open>pulls.list\<close> and every successful
  response whose body is a dictionary with a list under \<open>"items"\<close>, the result is the
  element-wise construction of the target model from that list, in order, whatever other
  keys the dictionary has.
\<close>

theorem envelope_lists:
  assumes "is_success resp" and "resp_status_code resp \<noteq> 204"
    and "resp_json resp = Some (JObject d)" and "map_of d ''items'' = Some (JArray xs)"
  shows "(httpx_request c
            \<lparr>req_method = ''GET'', req_path = ''/api/repos'',
             req_params = Some [(''page'', JInt (case page of None \<Rightarrow> 1 | Some p \<Rightarrow> p)),
                                (''per_page'', JInt (case per_page of None \<Rightarrow> 30 | Some n \<Rightarrow> n))],
             req_json = None\<rparr> (remote c) = (resp, w')
          \<longrightarrow> fst (RepositoryAPI_list V c page per_page) = map_result (new_Repository V) xs)
       \<and> (httpx_request c
            \<lparr>req_method = ''GET'', req_path = ''/api/repos/'' @ owner @ ''/'' @ repo @ ''/issues'',
             req_params = Some [(''state'', JString (case state of None \<Rightarrow> ''open'' | Some s \<Rightarrow> s)),
                                (''page'', JInt (case page of None \<Rightarrow> 1 | Some p \<Rightarrow> p)),
                                (''per_page'', JInt (case per_page of None \<Rightarrow> 30 | Some n \<Rightarrow> n))],
             req_json = None\<rparr> (remote c) = (resp, w')
          \<longrightarrow> fst (IssueAPI_list V c owner repo state page per_page)
              = map_result (new_Issue V) xs)
       \<and> (httpx_request c
            \<lparr>req_method = ''GET'', req_path = ''/api/repos/'' @ owner @ ''/'' @ repo @ ''/pulls'',
             req_params = Some [(''state'', JString (case state of None \<Rightarrow> ''open'' | Some s \<Rightarrow> s)),
                                (''page'', JInt (case page of None \<Rightarrow> 1 | Some p \<Rightarrow> p)),
                                (''per_page'', JInt (case per_page of None \<Rightarrow> 30 | Some n \<Rightarrow> n))],
             req_json = None\<rparr> (remote c) = (resp, w')
          \<longrightarrow> fst (PullRequestAPI_list V c owner repo state page per_page)
              = map_result (new_PullRequest V) xs)"
proof -
  note ok = handle_response_success [OF assms(1,2,3)]
  note items = comprehension_items_envelope [OF assms(4)]
  have repos: "fst (RepositoryAPI_list V c page per_page) = map_result (new_Repository V) xs"
    if "httpx_request c
            \<lparr>req_method = ''GET'', req_path = ''/api/repos'',
             req_params = Some [(''page'', JInt (case page of None \<Rightarrow> 1 | Some p \<Rightarrow> p)),
                                (''per_page'', JInt (case per_page of None \<Rightarrow> 30 | Some n \<Rightarrow> n))],
             req_json = None\<rparr> (remote c) = (resp, w')"
    using that
    by (simp add: RepositoryAPI_list_def returning_fst GutsClient_get_def or_default_def
          GutsClient_request_result ok and_then_Inr items)
  have issues: "fst (IssueAPI_list V c owner repo state page per_page)
                  = map_result (new_Issue V) xs"
    if "httpx_request c
            \<lparr>req_method = ''GET'', req_path = ''/api/repos/'' @ owner @ ''/'' @ repo @ ''/issues'',
             req_params = Some [(''state'', JString (case state of None \<Rightarrow> ''open'' | Some s \<Rightarrow> s)),
                                (''page'', JInt (case page of None \<Rightarrow> 1 | Some p \<Rightarrow> p)),
                                (''per_page'', JInt (case per_page of None \<Rightarrow> 30 | Some n \<Rightarrow> n))],
             req_json = None\<rparr> (remote c) = (resp, w')"
    using that
    by (simp add: IssueAPI_list_def returning_fst GutsClient_get_def or_default_def
          GutsClient_request_result ok and_then_Inr items)
  have pulls: "fst (PullRequestAPI_list V c owner repo state page per_page)
                 = map_result (new_PullRequest V) xs"
    if "httpx_request c
            \<lparr>req_method = ''GET'', req_path = ''/api/repos/'' @ owner @ ''/'' @ repo @ ''/pulls'',
             req_params = Some [(''state'', JString (case state of None \<Rightarrow> ''open'' | Some s \<Rightarrow> s)),
                                (''page'', JInt (case page of None \<Rightarrow> 1 | Some p \<Rightarrow> p)),
                                (''per_page'', JInt (case per_page of None \<Rightarrow> 30 | Some n \<Rightarrow> n))],
             req_json = None\<rparr> (remote c) = (resp, w')"
    using that
    by (simp add: PullRequestAPI_list_def returning_fst GutsClient_get_def or_default_def
          GutsClient_request_result ok and_then_Inr items)
  show ?thesis
    using repos issues pulls by blast
qed

theorem envelope_lists_witness:
  "fst (RepositoryAPI_list exact_validators
          (always \<lparr>resp_status_code = 200, resp_text =
                     ''{\"total\": 1, \"items\": [{\"key\": \"alice/demo\", ''
                     @ ''\"name\": \"demo\", \"owner\": \"alice\", ''
                     @ ''\"clone_url\": \"https://x/demo.git\", ''
                     @ ''\"html_url\": \"https://x/alice/demo\", ''
                     @ ''\"created_at\": \"2024-01-01T00:00:00Z\", ''
                     @ ''\"updated_at\": \"2024-01-01T00:00:00Z\"}]}'',
                   resp_json = Some (JObject
                     [(''total'', JInt 1),
                      (''items'', JArray [JObject
                         [(''key'', JString ''alice/demo''), (''name'', JString ''demo''),
                          (''owner'', JString ''alice''),
                          (''clone_url'', JString ''https://x/demo.git''),
                          (''html_url'', JString ''https://x/alice/demo''),
                          (''created_at'', JString ''2024-01-01T00:00:00Z''),
                          (''updated_at'', JString ''2024-01-01T00:00:00Z'')]])]),
                   resp_headers = []\<rparr>) None None)
     = Inr [\<lparr>Repository_key = ''alice/demo'', Repository_name = ''demo'',
             Repository_owner = ''alice'', Repository_description = None,
             Repository_private = False, Repository_default_branch = ''main'',
             Repository_clone_url = ''https://x/demo.git'',
             Repository_html_url = ''https://x/alice/demo'',
             Repository_open_issues_count = 0, Repository_open_pull_requests_count = 0,
             Repository_created_at = ''2024-01-01T00:00:00Z'',
             Repository_updated_at = ''2024-01-01T00:00:00Z'',
             Repository_pushed_at = None\<rparr>]
   \<and> fst (IssueAPI_list exact_validators
          (always \<lparr>resp_status_code = 200, resp_text = ''{\"items\": [], \"total\": 0}'',
                   resp_json = Some (JObject [(''items'', JArray []), (''total'', JInt 0)]),
                   resp_headers = []\<rparr>) ''alice'' ''demo'' None None None) = Inr []
   \<and> fst (PullRequestAPI_list exact_validators
          (always \<lparr>resp_status_code = 200, resp_text = ''{\"items\": [], \"total\": 0}'',
                   resp_json = Some (JObject [(''items'', JArray []), (''total'', JInt 0)]),
                   resp_headers = []\<rparr>) ''alice'' ''demo'' (Some ''closed'') (Some 2) None) = Inr []"
proof -
  let ?item = "JObject
     [(''key'', JString ''alice/demo''), (''name'', JString ''demo''),
      (''owner'', JString ''alice''),
      (''clone_url'', JString ''https://x/demo.git''),
      (''html_url'', JString ''https://x/alice/demo''),
      (''created_at'', JString ''2024-01-01T00:00:00Z''),
      (''updated_at'', JString ''2024-01-01T00:00:00Z'')]"
  let ?d1 = "[(''total'', JInt 1), (''items'', JArray [?item])]"
  let ?r1 = "\<lparr>resp_status_code = 200, resp_text =
                     ''{\"total\": 1, \"items\": [{\"key\": \"alice/demo\", ''
                     @ ''\"name\": \"demo\", \"owner\": \"alice\", ''
                     @ ''\"clone_url\": \"https://x/demo.git\", ''
                     @ ''\"html_url\": \"https://x/alice/demo\", ''
                     @ ''\"created_at\": \"2024-01-01T00:00:00Z\", ''
                     @ ''\"updated_at\": \"2024-01-01T00:00:00Z\"}]}'',
              resp_json = Some (JObject ?d1), resp_headers = []\<rparr>"
  let ?d2 = "[(''items'', JArray []), (''total'', JInt 0)]"
  let ?r2 = "\<lparr>resp_status_code = 200, resp_text = ''{\"items\": [], \"total\": 0}'',
              resp_json = Some (JObject ?d2), resp_headers = []\<rparr>"
  have a1: "is_success ?r1" "resp_status_code ?r1 \<noteq> 204" "resp_json ?r1 = Some (JObject ?d1)"
      "map_of ?d1 ''items'' = Some (JArray [?item])"
    by (simp_all add: is_success_def)
  have a2: "is_success ?r2" "resp_status_code ?r2 \<noteq> 204" "resp_json ?r2 = Some (JObject ?d2)"
      "map_of ?d2 ''items'' = Some (JArray [])"
    by (simp_all add: is_success_def)
  have repos: "fst (RepositoryAPI_list exact_validators (always ?r1) None None)
                 = map_result (new_Repository exact_validators) [?item]"
    using envelope_lists [OF a1, of "always ?r1" None None "()" exact_validators]
    by (simp add: always_def)
  have issues: "fst (IssueAPI_list exact_validators (always ?r2) ''alice'' ''demo'' None None None)
                  = map_result (new_Issue exact_validators) []"
    using envelope_lists [OF a2, of "always ?r2" None None "()" exact_validators
        "''alice''" "''demo''" None]
    by (simp add: always_def)
  have pulls: "fst (PullRequestAPI_list exact_validators (always ?r2) ''alice'' ''demo''
                      (Some ''closed'') (Some 2) None)
                 = map_result (new_PullRequest exact_validators) []"
    using envelope_lists [OF a2, of "always ?r2" "Some 2" None "()" exact_validators
        "''alice''" "''demo''" "Some ''closed''"]
    by (simp add: always_def)
  have item: "new_Repository exact_validators ?item
     = Inr \<lparr>Repository_key = ''alice/demo'', Repository_name = ''demo'',
             Repository_owner = ''alice'', Repository_description = None,
             Repository_private = False, Repository_default_branch = ''main'',
             Repository_clone_url = ''https://x/demo.git'',
             Repository_html_url = ''https://x/alice/demo'',
             Repository_open_issues_count = 0, Repository_open_pull_requests_count = 0,
             Repository_created_at = ''2024-01-01T00:00:00Z'',
             Repository_updated_at = ''2024-01-01T00:00:00Z'',
             Repository_pushed_at = None\<rparr>"
    by (simp add: new_Repository_def construct_def decode_Repository_def required_def
          with_default_def exact_validators_def)
  show ?thesis
    unfolding repos issues pulls by (simp add: item)
qed

section \<open>Pagination parameters\<close>

text \<open>
  Claim C5, as the claim states it, fails: \<open>releases.list\<close> takes no \<open>page\<close> or \<open>per_page\<close> and
  its one GET request carries no query parameters at all (and so for \<open>labels.list\<close>,
  \<open>orgs.list\<close> and \<open>webhooks.list\<close>; \<open>consensus.list_blocks\<close> sends only \<open>limit\<close>).
\<close>

theorem release_list_sends_no_page:
  "sent (snd (ReleaseAPI_list exact_validators
                (always \<lparr>resp_status_code = 200, resp_text = ''[]'', resp_json = Some (JArray []),
                         resp_headers = []\<rparr>) ''alice'' ''demo''))
     = [\<lparr>req_method = ''GET'', req_path = ''/api/repos/alice/demo/releases'',
         req_params = None, req_json = None\<rparr>]"
  by (simp add: ReleaseAPI_list_def returning_snd GutsClient_get_def GutsClient_request_sent
        always_def)

text \<open>
  Claim C5, amended.  \<open>repos.list\<close>, \<open>issues.list\<close> and \<open>pulls.list\<close> accept \<open>page\<close> and \<open>per_page\<close>
  with the defaults 1 and 30, and each issues exactly one request, a GET whose query
  parameters carry the two values (after \<open>state\<close>, default \<open>"open"\<close>, for issues and pull
  requests).
\<close>

theorem paginated_lists_forward_page:
  "sent (snd (RepositoryAPI_list V c page per_page))
     = sent c @
       [\<lparr>req_method = ''GET'', req_path = ''/api/repos'',
         req_params = Some [(''page'', JInt (case page of None \<Rightarrow> 1 | Some p \<Rightarrow> p)),
                            (''per_page'', JInt (case per_page of None \<Rightarrow> 30 | Some n \<Rightarrow> n))],
         req_json = None\<rparr>]
   \<and> sent (snd (IssueAPI_list V c owner repo state page per_page))
     = sent c @
       [\<lparr>req_method = ''GET'', req_path = ''/api/repos/'' @ owner @ ''/'' @ repo @ ''/issues'',
         req_params = Some [(''state'', JString (case state of None \<Rightarrow> ''open'' | Some s \<Rightarrow> s)),
                            (''page'', JInt (case page of None \<Rightarrow> 1 | Some p \<Rightarrow> p)),
                            (''per_page'', JInt (case per_page of None \<Rightarrow> 30 | Some n \<Rightarrow> n))],
         req_json = None\<rparr>]
   \<and> sent (snd (PullRequestAPI_list V c owner repo state page per_page))
     = sent c @
       [\<lparr>req_method = ''GET'', req_path = ''/api/repos/'' @ owner @ ''/'' @ repo @ ''/pulls'',
         req_params = Some [(''state'', JString (case state of None \<Rightarrow> ''open'' | Some s \<Rightarrow> s)),
                            (''page'', JInt (case page of None \<Rightarrow> 1 | Some p \<Rightarrow> p)),
                            (''per_page'', JInt (case per_page of None \<Rightarrow> 30 | Some n \<Rightarrow> n))],
         req_json = None\<rparr>]"
  by (simp add: RepositoryAPI_list_def IssueAPI_list_def PullRequestAPI_list_def returning_snd
        GutsClient_get_def GutsClient_request_sent or_default_def)

section \<open>Request bodies\<close>

text \<open>
  The create methods that take a request model send \<open>model_dump(exclude_none=True)\<close>, which
  has no entry whose value is \<open>None\<close>.
\<close>

lemma issue_create_body_has_no_null:
  "\<exists>kvs. sent (snd (IssueAPI_create V c owner repo request))
            = sent c @ [\<lparr>req_method = ''POST'',
                           req_path = ''/api/repos/'' @ owner @ ''/'' @ repo @ ''/issues'',
                           req_params = None, req_json = Some kvs\<rparr>]
          \<and> (\<forall>k. (k, JNull) \<notin> set kvs)"
  by (simp add: IssueAPI_create_def returning_snd GutsClient_post_def GutsClient_request_sent
        exclude_none_no_null)

text \<open>
  Claim C4.  \<open>repos.create\<close> and \<open>labels.create\<close> do not go through \<open>exclude_none\<close>: they build
  the body as a dictionary literal, so a description left at \<open>None\<close> is sent under the key
  \<open>"description"\<close> with the value \<open>None\<close>, which is \<open>null\<close> on the wire.
\<close>

theorem create_sends_null_description:
  "sent (snd (RepositoryAPI_create V c name None private))
     = sent c @
       [\<lparr>req_method = ''POST'', req_path = ''/api/repos'', req_params = None,
         req_json = Some [(''name'', JString name), (''description'', JNull),
                          (''private'', JBool (case private of None \<Rightarrow> False | Some b \<Rightarrow> b))]\<rparr>]
   \<and> sent (snd (LabelAPI_create V c owner repo name color None))
     = sent c @
       [\<lparr>req_method = ''POST'', req_path = ''/api/repos/'' @ owner @ ''/'' @ repo @ ''/labels'',
         req_params = None,
         req_json = Some [(''name'', JString name), (''color'', JString color),
                          (''description'', JNull)]\<rparr>]"
  by (simp add: RepositoryAPI_create_def LabelAPI_create_def returning_snd GutsClient_post_def
        GutsClient_request_sent or_default_def optional_str_def)

section \<open>Convenience methods\<close>

text \<open>
  Claim C6.  \<open>issues.close\<close> is \<open>issues.update\<close> with \<open>state="closed"\<close>, \<open>issues.reopen\<close> is
  \<open>issues.update\<close> with \<open>state="open"\<close> and \<open>pulls.close\<close> is \<open>pulls.update\<close> with
  \<open>state="closed"\<close>: same request, same result, same client afterwards.  Closing issues
  exactly one request, the PATCH of the issue with the body \<open>{"state": "closed"}\<close>, whatever
  the state of the server; and when the server answers that PATCH with a successful response
  whose body is accepted as an issue, \<open>close\<close> returns that issue and raises nothing.
\<close>

theorem close_is_update:
  "IssueAPI_close V c owner repo number
     = IssueAPI_update V c owner repo number [(''state'', JString ''closed'')]
   \<and> IssueAPI_reopen V c owner repo number
     = IssueAPI_update V c owner repo number [(''state'', JString ''open'')]
   \<and> PullRequestAPI_close V c owner repo number
     = PullRequestAPI_update V c owner repo number [(''state'', JString ''closed'')]
   \<and> sent (snd (IssueAPI_close V c owner repo number))
     = sent c @
       [\<lparr>req_method = ''PATCH'',
         req_path = ''/api/repos/'' @ owner @ ''/'' @ repo @ ''/issues/'' @ str_int number,
         req_params = None, req_json = Some [(''state'', JString ''closed'')]\<rparr>]
   \<and> (httpx_request c
         \<lparr>req_method = ''PATCH'',
          req_path = ''/api/repos/'' @ owner @ ''/'' @ repo @ ''/issues/'' @ str_int number,
          req_params = None, req_json = Some [(''state'', JString ''closed'')]\<rparr> (remote c)
         = (resp, w')
        \<and> is_success resp \<and> resp_status_code resp \<noteq> 204 \<and> resp_json resp = Some data
        \<and> new_Issue V data = Inr issue
       \<longrightarrow> fst (IssueAPI_close V c owner repo number) = Inr issue)"
  by (simp add: IssueAPI_close_def IssueAPI_reopen_def PullRequestAPI_close_def
        IssueAPI_update_def returning_snd returning_fst GutsClient_patch_def
        GutsClient_request_sent GutsClient_request_result handle_response_success and_then_Inr)

theorem close_is_update_witness:
  "fst (IssueAPI_close exact_validators
          (always \<lparr>resp_status_code = 200, resp_text =
                     ''{\"id\": \"i-7\", \"number\": 7, \"title\": \"crash on start\", ''
                     @ ''\"state\": \"closed\", \"author\": \"bob\", ''
                     @ ''\"created_at\": \"2024-01-01T00:00:00Z\", ''
                     @ ''\"updated_at\": \"2024-02-01T00:00:00Z\"}'',
                   resp_json = Some (JObject
                     [(''id'', JString ''i-7''), (''number'', JInt 7),
                      (''title'', JString ''crash on start''), (''state'', JString ''closed''),
                      (''author'', JString ''bob''),
                      (''created_at'', JString ''2024-01-01T00:00:00Z''),
                      (''updated_at'', JString ''2024-02-01T00:00:00Z'')]),
                   resp_headers = []\<rparr>) ''alice'' ''demo'' 7)
     = Inr \<lparr>Issue_id = ''i-7'', Issue_number = 7, Issue_title = ''crash on start'',
            Issue_body = None, Issue_state = IssueState_CLOSED, Issue_author = ''bob'',
            Issue_assignees = [], Issue_labels = [], Issue_milestone = None,
            Issue_comments_count = 0, Issue_created_at = ''2024-01-01T00:00:00Z'',
            Issue_updated_at = ''2024-02-01T00:00:00Z'', Issue_closed_at = None,
            Issue_closed_by = None\<rparr>"
proof -
  let ?data = "JObject
     [(''id'', JString ''i-7''), (''number'', JInt 7),
      (''title'', JString ''crash on start''), (''state'', JString ''closed''),
      (''author'', JString ''bob''),
      (''created_at'', JString ''2024-01-01T00:00:00Z''),
      (''updated_at'', JString ''2024-02-01T00:00:00Z'')]"
  let ?r = "\<lparr>resp_status_code = 200, resp_text =
                     ''{\"id\": \"i-7\", \"number\": 7, \"title\": \"crash on start\", ''
                     @ ''\"state\": \"closed\", \"author\": \"bob\", ''
                     @ ''\"created_at\": \"2024-01-01T00:00:00Z\", ''
                     @ ''\"updated_at\": \"2024-02-01T00:00:00Z\"}'',
             resp_json = Some ?data, resp_headers = []\<rparr>"
  let ?issue = "\<lparr>Issue_id = ''i-7'', Issue_number = 7, Issue_title = ''crash on start'',
            Issue_body = None, Issue_state = IssueState_CLOSED, Issue_author = ''bob'',
            Issue_assignees = [], Issue_labels = [], Issue_milestone = None,
            Issue_comments_count = 0, Issue_created_at = ''2024-01-01T00:00:00Z'',
            Issue_updated_at = ''2024-02-01T00:00:00Z'', Issue_closed_at = None,
            Issue_closed_by = None\<rparr>"
  have issue: "new_Issue exact_validators ?data = Inr ?issue"
    by (simp add: new_Issue_def construct_def decode_Issue_def required_def with_default_def
          exact_validators_def validate_IssueState_def validate_enum_def)
  have answer: "httpx_request (always ?r)
         \<lparr>req_method = ''PATCH'',
          req_path = ''/api/repos/'' @ ''alice'' @ ''/'' @ ''demo'' @ ''/issues/'' @ str_int 7,
          req_params = None, req_json = Some [(''state'', JString ''closed'')]\<rparr>
         (remote (always ?r)) = (?r, ())"
    by (simp add: always_def)
  have ok: "is_success ?r" "resp_status_code ?r \<noteq> 204" "resp_json ?r = Some ?data"
    by (simp_all add: is_success_def)
  have "httpx_request (always ?r)
         \<lparr>req_method = ''PATCH'',
          req_path = ''/api/repos/'' @ ''alice'' @ ''/'' @ ''demo'' @ ''/issues/'' @ str_int 7,
          req_params = None, req_json = Some [(''state'', JString ''closed'')]\<rparr>
         (remote (always ?r)) = (?r, ())
        \<and> is_success ?r \<and> resp_status_code ?r \<noteq> 204 \<and> resp_json ?r = Some ?data
        \<and> new_Issue exact_validators ?data = Inr ?issue
       \<longrightarrow> fst (IssueAPI_close exact_validators (always ?r) ''alice'' ''demo'' 7) = Inr ?issue"
    using close_is_update [of exact_validators "always ?r" "''alice''" "''demo''" 7 ?r "()"
        ?data ?issue]
    by blast
  with answer ok issue show ?thesis
    by blast
qed

section \<open>Decoding with the optional fields absent\<close>

text \<open>
  For each model: when the data has no other keys than those of the fields without a default
  and each of these fields is present and validates, constructing the model succeeds, and
  every other field has the default the class declares.
\<close>

lemma new_Repository_required_only:
  "(fst ` set d_Repository
        \<subseteq> {''key'', ''name'', ''owner'', ''clone_url'', ''html_url'',
          ''created_at'', ''updated_at''}
    \<and> required d_Repository ''key'' (v_str V) = Some r_key
    \<and> required d_Repository ''name'' (v_str V) = Some r_name
    \<and> required d_Repository ''owner'' (v_str V) = Some r_owner
    \<and> required d_Repository ''clone_url'' (v_str V) = Some r_clone_url
    \<and> required d_Repository ''html_url'' (v_str V) = Some r_html_url
    \<and> required d_Repository ''created_at'' (v_datetime V) = Some r_created_at
    \<and> required d_Repository ''updated_at'' (v_datetime V) = Some r_updated_at
    \<longrightarrow> new_Repository V (JObject d_Repository)
        = Inr \<lparr>Repository_key = r_key, Repository_name = r_name,
            Repository_owner = r_owner, Repository_description = None,
            Repository_private = False, Repository_default_branch = ''main'',
            Repository_clone_url = r_clone_url, Repository_html_url = r_html_url,
            Repository_open_issues_count = 0,
            Repository_open_pull_requests_count = 0,
            Repository_created_at = r_created_at,
            Repository_updated_at = r_updated_at, Repository_pushed_at = None\<rparr>)"
proof (intro impI, elim conjE)
  assume keys: "fst ` set d_Repository
        \<subseteq> {''key'', ''name'', ''owner'', ''clone_url'', ''html_url'',
          ''created_at'', ''updated_at''}"
  assume f0: "required d_Repository ''key'' (v_str V) = Some r_key"
  assume f1: "required d_Repository ''name'' (v_str V) = Some r_name"
  assume f2: "required d_Repository ''owner'' (v_str V) = Some r_owner"
  assume f3: "required d_Repository ''clone_url'' (v_str V) = Some r_clone_url"
  assume f4: "required d_Repository ''html_url'' (v_str V) = Some r_html_url"
  assume f5: "required d_Repository ''created_at'' (v_datetime V) = Some r_created_at"
  assume f6: "required d_Repository ''updated_at'' (v_datetime V) = Some r_updated_at"
  have absent: "map_of d_Repository ''description'' = None"
    "map_of d_Repository ''private'' = None"
    "map_of d_Repository ''default_branch'' = None"
    "map_of d_Repository ''open_issues_count'' = None"
    "map_of d_Repository ''open_pull_requests_count'' = None"
    "map_of d_Repository ''pushed_at'' = None"
    using keys by (auto simp add: map_of_eq_None_iff)
  show "new_Repository V (JObject d_Repository)
          = Inr \<lparr>Repository_key = r_key, Repository_name = r_name,
            Repository_owner = r_owner, Repository_description = None,
            Repository_private = False, Repository_default_branch = ''main'',
            Repository_clone_url = r_clone_url, Repository_html_url = r_html_url,
            Repository_open_issues_count = 0,
            Repository_open_pull_requests_count = 0,
            Repository_created_at = r_created_at,
            Repository_updated_at = r_updated_at, Repository_pushed_at = None\<rparr>"
    by (simp add: new_Repository_def construct_def decode_Repository_def with_default_def absent
          f0 f1 f2 f3 f4 f5 f6)
qed

lemma new_Issue_required_only:
  "(fst ` set d_Issue
        \<subseteq> {''id'', ''number'', ''title'', ''state'', ''author'',
          ''created_at'', ''updated_at''}
    \<and> required d_Issue ''id'' (v_str V) = Some i_id
    \<and> required d_Issue ''number'' (v_int V) = Some i_number
    \<and> required d_Issue ''title'' (v_str V) = Some i_title
    \<and> required d_Issue ''state'' validate_IssueState = Some i_state
    \<and> required d_Issue ''author'' (v_str V) = Some i_author
    \<and> required d_Issue ''created_at'' (v_datetime V) = Some i_created_at
    \<and> required d_Issue ''updated_at'' (v_datetime V) = Some i_updated_at
    \<longrightarrow> new_Issue V (JObject d_Issue)
        = Inr \<lparr>Issue_id = i_id, Issue_number = i_number, Issue_title = i_title,
            Issue_body = None, Issue_state = i_state, Issue_author = i_author,
            Issue_assignees = [], Issue_labels = [], Issue_milestone = None,
            Issue_comments_count = 0, Issue_created_at = i_created_at,
            Issue_updated_at = i_updated_at, Issue_closed_at = None,
            Issue_closed_by = None\<rparr>)"
proof (intro impI, elim conjE)
  assume keys: "fst ` set d_Issue
        \<subseteq> {''id'', ''number'', ''title'', ''state'', ''author'',
          ''created_at'', ''updated_at''}"
  assume f0: "required d_Issue ''id'' (v_str V) = Some i_id"
  assume f1: "required d_Issue ''number'' (v_int V) = Some i_number"
  assume f2: "required d_Issue ''title'' (v_str V) = Some i_title"
  assume f3: "required d_Issue ''state'' validate_IssueState = Some i_state"
  assume f4: "required d_Issue ''author'' (v_str V) = Some i_author"
  assume f5: "required d_Issue ''created_at'' (v_datetime V) = Some i_created_at"
  assume f6: "required d_Issue ''updated_at'' (v_datetime V) = Some i_updated_at"
  have absent: "map_of d_Issue ''body'' = None"
    "map_of d_Issue ''assignees'' = None"
    "map_of d_Issue ''labels'' = None"
    "map_of d_Issue ''milestone'' = None"
    "map_of d_Issue ''comments_count'' = None"
    "map_of d_Issue ''closed_at'' = None"
    "map_of d_Issue ''closed_by'' = None"
    using keys by (auto simp add: map_of_eq_None_iff)
  show "new_Issue V (JObject d_Issue)
          = Inr \<lparr>Issue_id = i_id, Issue_number = i_number, Issue_title = i_title,
            Issue_body = None, Issue_state = i_state, Issue_author = i_author,
            Issue_assignees = [], Issue_labels = [], Issue_milestone = None,
            Issue_comments_count = 0, Issue_created_at = i_created_at,
            Issue_updated_at = i_updated_at, Issue_closed_at = None,
            Issue_closed_by = None\<rparr>"
    by (simp add: new_Issue_def construct_def decode_Issue_def with_default_def absent
          f0 f1 f2 f3 f4 f5 f6)
qed

lemma new_PullRequest_required_only:
  "(fst ` set d_PullRequest
        \<subseteq> {''id'', ''number'', ''title'', ''state'', ''author'',
          ''source_branch'', ''target_branch'', ''source_commit'',
          ''target_commit'', ''created_at'', ''updated_at''}
    \<and> required d_PullRequest ''id'' (v_str V) = Some p_id
    \<and> required d_PullRequest ''number'' (v_int V) = Some p_number
    \<and> required d_PullRequest ''title'' (v_str V) = Some p_title
    \<and> required d_PullRequest ''state'' validate_PullRequestState = Some p_state
    \<and> required d_PullRequest ''author'' (v_str V) = Some p_author
    \<and> required d_PullRequest ''source_branch'' (v_str V) = Some p_source_branch
    \<and> required d_PullRequest ''target_branch'' (v_str V) = Some p_target_branch
    \<and> required d_PullRequest ''source_commit'' (v_str V) = Some p_source_commit
    \<and> required d_PullRequest ''target_commit'' (v_str V) = Some p_target_commit
    \<and> required d_PullRequest ''created_at'' (v_datetime V) = Some p_created_at
    \<and> required d_PullRequest ''updated_at'' (v_datetime V) = Some p_updated_at
    \<longrightarrow> new_PullRequest V (JObject d_PullRequest)
        = Inr \<lparr>PullRequest_id = p_id, PullRequest_number = p_number,
            PullRequest_title = p_title, PullRequest_body = None,
            PullRequest_state = p_state, PullRequest_author = p_author,
            PullRequest_source_branch = p_source_branch,
            PullRequest_target_branch = p_target_branch,
            PullRequest_source_commit = p_source_commit,
            PullRequest_target_commit = p_target_commit,
            PullRequest_mergeable = None, PullRequest_draft = False,
            PullRequest_reviewers = [], PullRequest_labels = [],
            PullRequest_comments_count = 0, PullRequest_commits_count = 0,
            PullRequest_changed_files = 0, PullRequest_additions = 0,
            PullRequest_deletions = 0, PullRequest_created_at = p_created_at,
            PullRequest_updated_at = p_updated_at, PullRequest_merged_at = None,
            PullRequest_merged_by = None, PullRequest_closed_at = None\<rparr>)"
proof (intro impI, elim conjE)
  assume keys: "fst ` set d_PullRequest
        \<subseteq> {''id'', ''number'', ''title'', ''state'', ''author'',
          ''source_branch'', ''target_branch'', ''source_commit'',
          ''target_commit'', ''created_at'', ''updated_at''}"
  assume f0: "required d_PullRequest ''id'' (v_str V) = Some p_id"
  assume f1: "required d_PullRequest ''number'' (v_int V) = Some p_number"
  assume f2: "required d_PullRequest ''title'' (v_str V) = Some p_title"
  assume f3: "required d_PullRequest ''state'' validate_PullRequestState = Some p_state"
  assume f4: "required d_PullRequest ''author'' (v_str V) = Some p_author"
  assume f5: "required d_PullRequest ''source_branch'' (v_str V) = Some p_source_branch"
  assume f6: "required d_PullRequest ''target_branch'' (v_str V) = Some p_target_branch"
  assume f7: "required d_PullRequest ''source_commit'' (v_str V) = Some p_source_commit"
  assume f8: "required d_PullRequest ''target_commit'' (v_str V) = Some p_target_commit"
  assume f9: "required d_PullRequest ''created_at'' (v_datetime V) = Some p_created_at"
  assume f10: "required d_PullRequest ''updated_at'' (v_datetime V) = Some p_updated_at"
  have absent: "map_of d_PullRequest ''body'' = None"
    "map_of d_PullRequest ''mergeable'' = None"
    "map_of d_PullRequest ''draft'' = None"
    "map_of d_PullRequest ''reviewers'' = None"
    "map_of d_PullRequest ''labels'' = None"
    "map_of d_PullRequest ''comments_count'' = None"
    "map_of d_PullRequest ''commits_count'' = None"
    "map_of d_PullRequest ''changed_files'' = None"
    "map_of d_PullRequest ''additions'' = None"
    "map_of d_PullRequest ''deletions'' = None"
    "map_of d_PullRequest ''merged_at'' = None"
    "map_of d_PullRequest ''merged_by'' = None"
    "map_of d_PullRequest ''closed_at'' = None"
    using keys by (auto simp add: map_of_eq_None_iff)
  show "new_PullRequest V (JObject d_PullRequest)
          = Inr \<lparr>PullRequest_id = p_id, PullRequest_number = p_number,
            PullRequest_title = p_title, PullRequest_body = None,
            PullRequest_state = p_state, PullRequest_author = p_author,
            PullRequest_source_branch = p_source_branch,
            PullRequest_target_branch = p_target_branch,
            PullRequest_source_commit = p_source_commit,
            PullRequest_target_commit = p_target_commit,
            PullRequest_mergeable = None, PullRequest_draft = False,
            PullRequest_reviewers = [], PullRequest_labels = [],
            PullRequest_comments_count = 0, PullRequest_commits_count = 0,
            PullRequest_changed_files = 0, PullRequest_additions = 0,
            PullRequest_deletions = 0, PullRequest_created_at = p_created_at,
            PullRequest_updated_at = p_updated_at, PullRequest_merged_at = None,
            PullRequest_merged_by = None, PullRequest_closed_at = None\<rparr>"
    by (simp add: new_PullRequest_def construct_def decode_PullRequest_def with_default_def absent
          f0 f1 f2 f3 f4 f5 f6 f7 f8 f9 f10)
qed

lemma new_Comment_required_only:
  "(fst ` set d_Comment
        \<subseteq> {''id'', ''body'', ''author'', ''created_at'', ''updated_at''}
    \<and> required d_Comment ''id'' (v_str V) = Some c_id
    \<and> required d_Comment ''body'' (v_str V) = Some c_body
    \<and> required d_Comment ''author'' (v_str V) = Some c_author
    \<and> required d_Comment ''created_at'' (v_datetime V) = Some c_created_at
    \<and> required d_Comment ''updated_at'' (v_datetime V) = Some c_updated_at
    \<longrightarrow> new_Comment V (JObject d_Comment)
        = Inr \<lparr>Comment_id = c_id, Comment_body = c_body, Comment_author = c_author,
            Comment_created_at = c_created_at, Comment_updated_at = c_updated_at\<rparr>)"
proof (intro impI, elim conjE)
  assume keys: "fst ` set d_Comment
        \<subseteq> {''id'', ''body'', ''author'', ''created_at'', ''updated_at''}"
  assume f0: "required d_Comment ''id'' (v_str V) = Some c_id"
  assume f1: "required d_Comment ''body'' (v_str V) = Some c_body"
  assume f2: "required d_Comment ''author'' (v_str V) = Some c_author"
  assume f3: "required d_Comment ''created_at'' (v_datetime V) = Some c_created_at"
  assume f4: "required d_Comment ''updated_at'' (v_datetime V) = Some c_updated_at"
  show "new_Comment V (JObject d_Comment)
          = Inr \<lparr>Comment_id = c_id, Comment_body = c_body, Comment_author = c_author,
            Comment_created_at = c_created_at, Comment_updated_at = c_updated_at\<rparr>"
    by (simp add: new_Comment_def construct_def decode_Comment_def with_default_def
          f0 f1 f2 f3 f4)
qed

lemma new_Review_required_only:
  "(fst ` set d_Review
        \<subseteq> {''id'', ''pr_number'', ''author'', ''state'', ''commit_id'',
          ''created_at''}
    \<and> required d_Review ''id'' (v_str V) = Some rv_id
    \<and> required d_Review ''pr_number'' (v_int V) = Some rv_pr_number
    \<and> required d_Review ''author'' (v_str V) = Some rv_author
    \<and> required d_Review ''state'' validate_ReviewState = Some rv_state
    \<and> required d_Review ''commit_id'' (v_str V) = Some rv_commit_id
    \<and> required d_Review ''created_at'' (v_datetime V) = Some rv_created_at
    \<longrightarrow> new_Review V (JObject d_Review)
        = Inr \<lparr>Review_id = rv_id, Review_pr_number = rv_pr_number,
            Review_author = rv_author, Review_state = rv_state, Review_body = None,
            Review_commit_id = rv_commit_id, Review_created_at = rv_created_at,
            Review_submitted_at = None\<rparr>)"
proof (intro impI, elim conjE)
  assume keys: "fst ` set d_Review
        \<subseteq> {''id'', ''pr_number'', ''author'', ''state'', ''commit_id'',
          ''created_at''}"
  assume f0: "required d_Review ''id'' (v_str V) = Some rv_id"
  assume f1: "required d_Review ''pr_number'' (v_int V) = Some rv_pr_number"
  assume f2: "required d_Review ''author'' (v_str V) = Some rv_author"
  assume f3: "required d_Review ''state'' validate_ReviewState = Some rv_state"
  assume f4: "required d_Review ''commit_id'' (v_str V) = Some rv_commit_id"
  assume f5: "required d_Review ''created_at'' (v_datetime V) = Some rv_created_at"
  have absent: "map_of d_Review ''body'' = None"
    "map_of d_Review ''submitted_at'' = None"
    using keys by (auto simp add: map_of_eq_None_iff)
  show "new_Review V (JObject d_Review)
          = Inr \<lparr>Review_id = rv_id, Review_pr_number = rv_pr_number,
            Review_author = rv_author, Review_state = rv_state, Review_body = None,
            Review_commit_id = rv_commit_id, Review_created_at = rv_created_at,
            Review_submitted_at = None\<rparr>"
    by (simp add: new_Review_def construct_def decode_Review_def with_default_def absent
          f0 f1 f2 f3 f4 f5)
qed

lemma new_ReleaseAsset_required_only:
  "(fst ` set d_ReleaseAsset
        \<subseteq> {''id'', ''name'', ''content_type'', ''size'',
          ''browser_download_url'', ''created_at'', ''uploader''}
    \<and> required d_ReleaseAsset ''id'' (v_str V) = Some a_id
    \<and> required d_ReleaseAsset ''name'' (v_str V) = Some a_name
    \<and> required d_ReleaseAsset ''content_type'' (v_str V) = Some a_content_type
    \<and> required d_ReleaseAsset ''size'' (v_int V) = Some a_size
    \<and> required d_ReleaseAsset ''browser_download_url'' (v_str V) = Some a_browser_download_url
    \<and> required d_ReleaseAsset ''created_at'' (v_datetime V) = Some a_created_at
    \<and> required d_ReleaseAsset ''uploader'' (v_str V) = Some a_uploader
    \<longrightarrow> new_ReleaseAsset V (JObject d_ReleaseAsset)
        = Inr \<lparr>ReleaseAsset_id = a_id, ReleaseAsset_name = a_name,
            ReleaseAsset_content_type = a_content_type, ReleaseAsset_size = a_size,
            ReleaseAsset_download_count = 0,
            ReleaseAsset_browser_download_url = a_browser_download_url,
            ReleaseAsset_created_at = a_created_at,
            ReleaseAsset_uploader = a_uploader\<rparr>)"
proof (intro impI, elim conjE)
  assume keys: "fst ` set d_ReleaseAsset
        \<subseteq> {''id'', ''name'', ''content_type'', ''size'',
          ''browser_download_url'', ''created_at'', ''uploader''}"
  assume f0: "required d_ReleaseAsset ''id'' (v_str V) = Some a_id"
  assume f1: "required d_ReleaseAsset ''name'' (v_str V) = Some a_name"
  assume f2: "required d_ReleaseAsset ''content_type'' (v_str V) = Some a_content_type"
  assume f3: "required d_ReleaseAsset ''size'' (v_int V) = Some a_size"
  assume f4: "required d_ReleaseAsset ''browser_download_url'' (v_str V) = Some a_browser_download_url"
  assume f5: "required d_ReleaseAsset ''created_at'' (v_datetime V) = Some a_created_at"
  assume f6: "required d_ReleaseAsset ''uploader'' (v_str V) = Some a_uploader"
  have absent: "map_of d_ReleaseAsset ''download_count'' = None"
    using keys by (auto simp add: map_of_eq_None_iff)
  show "new_ReleaseAsset V (JObject d_ReleaseAsset)
          = Inr \<lparr>ReleaseAsset_id = a_id, ReleaseAsset_name = a_name,
            ReleaseAsset_content_type = a_content_type, ReleaseAsset_size = a_size,
            ReleaseAsset_download_count = 0,
            ReleaseAsset_browser_download_url = a_browser_download_url,
            ReleaseAsset_created_at = a_created_at,
            ReleaseAsset_uploader = a_uploader\<rparr>"
    by (simp add: new_ReleaseAsset_def construct_def decode_ReleaseAsset_def with_default_def absent
          f0 f1 f2 f3 f4 f5 f6)
qed

lemma new_Release_required_only:
  "(fst ` set d_Release
        \<subseteq> {''id'', ''tag_name'', ''name'', ''author'', ''target_commitish'',
          ''created_at''}
    \<and> required d_Release ''id'' (v_str V) = Some rl_id
    \<and> required d_Release ''tag_name'' (v_str V) = Some rl_tag_name
    \<and> required d_Release ''name'' (v_str V) = Some rl_name
    \<and> required d_Release ''author'' (v_str V) = Some rl_author
    \<and> required d_Release ''target_commitish'' (v_str V) = Some rl_target_commitish
    \<and> required d_Release ''created_at'' (v_datetime V) = Some rl_created_at
    \<longrightarrow> new_Release V (JObject d_Release)
        = Inr \<lparr>Release_id = rl_id, Release_tag_name = rl_tag_name,
            Release_name = rl_name, Release_body = None, Release_draft = False,
            Release_prerelease = False, Release_author = rl_author,
            Release_target_commitish = rl_target_commitish, Release_assets = [],
            Release_created_at = rl_created_at, Release_published_at = None\<rparr>)"
proof (intro impI, elim conjE)
  assume keys: "fst ` set d_Release
        \<subseteq> {''id'', ''tag_name'', ''name'', ''author'', ''target_commitish'',
          ''created_at''}"
  assume f0: "required d_Release ''id'' (v_str V) = Some rl_id"
  assume f1: "required d_Release ''tag_name'' (v_str V) = Some rl_tag_name"
  assume f2: "required d_Release ''name'' (v_str V) = Some rl_name"
  assume f3: "required d_Release ''author'' (v_str V) = Some rl_author"
  assume f4: "required d_Release ''target_commitish'' (v_str V) = Some rl_target_commitish"
  assume f5: "required d_Release ''created_at'' (v_datetime V) = Some rl_created_at"
  have absent: "map_of d_Release ''body'' = None"
    "map_of d_Release ''draft'' = None"
    "map_of d_Release ''prerelease'' = None"
    "map_of d_Release ''assets'' = None"
    "map_of d_Release ''published_at'' = None"
    using keys by (auto simp add: map_of_eq_None_iff)
  show "new_Release V (JObject d_Release)
          = Inr \<lparr>Release_id = rl_id, Release_tag_name = rl_tag_name,
            Release_name = rl_name, Release_body = None, Release_draft = False,
            Release_prerelease = False, Release_author = rl_author,
            Release_target_commitish = rl_target_commitish, Release_assets = [],
            Release_created_at = rl_created_at, Release_published_at = None\<rparr>"
    by (simp add: new_Release_def construct_def decode_Release_def with_default_def absent
          f0 f1 f2 f3 f4 f5)
qed

lemma new_Label_required_only:
  "(fst ` set d_Label
        \<subseteq> {''name'', ''color''}
    \<and> required d_Label ''name'' (v_str V) = Some l_name
    \<and> required d_Label ''color'' (v_str V) = Some l_color
    \<longrightarrow> new_Label V (JObject d_Label)
        = Inr \<lparr>Label_name = l_name, Label_color = l_color, Label_description = None\<rparr>)"
proof (intro impI, elim conjE)
  assume keys: "fst ` set d_Label
        \<subseteq> {''name'', ''color''}"
  assume f0: "required d_Label ''name'' (v_str V) = Some l_name"
  assume f1: "required d_Label ''color'' (v_str V) = Some l_color"
  have absent: "map_of d_Label ''description'' = None"
    using keys by (auto simp add: map_of_eq_None_iff)
  show "new_Label V (JObject d_Label)
          = Inr \<lparr>Label_name = l_name, Label_color = l_color, Label_description = None\<rparr>"
    by (simp add: new_Label_def construct_def decode_Label_def with_default_def absent
          f0 f1)
qed

lemma new_User_required_only:
  "(fst ` set d_User
        \<subseteq> {''id'', ''username'', ''public_key'', ''created_at''}
    \<and> required d_User ''id'' (v_str V) = Some u_id
    \<and> required d_User ''username'' (v_str V) = Some u_username
    \<and> required d_User ''public_key'' (v_str V) = Some u_public_key
    \<and> required d_User ''created_at'' (v_datetime V) = Some u_created_at
    \<longrightarrow> new_User V (JObject d_User)
        = Inr \<lparr>User_id = u_id, User_username = u_username, User_display_name = None,
            User_avatar_url = None, User_bio = None, User_public_key = u_public_key,
            User_created_at = u_created_at\<rparr>)"
proof (intro impI, elim conjE)
  assume keys: "fst ` set d_User
        \<subseteq> {''id'', ''username'', ''public_key'', ''created_at''}"
  assume f0: "required d_User ''id'' (v_str V) = Some u_id"
  assume f1: "required d_User ''username'' (v_str V) = Some u_username"
  assume f2: "required d_User ''public_key'' (v_str V) = Some u_public_key"
  assume f3: "required d_User ''created_at'' (v_datetime V) = Some u_created_at"
  have absent: "map_of d_User ''display_name'' = None"
    "map_of d_User ''avatar_url'' = None"
    "map_of d_User ''bio'' = None"
    using keys by (auto simp add: map_of_eq_None_iff)
  show "new_User V (JObject d_User)
          = Inr \<lparr>User_id = u_id, User_username = u_username, User_display_name = None,
            User_avatar_url = None, User_bio = None, User_public_key = u_public_key,
            User_created_at = u_created_at\<rparr>"
    by (simp add: new_User_def construct_def decode_User_def with_default_def absent
          f0 f1 f2 f3)
qed

lemma new_Organization_required_only:
  "(fst ` set d_Organization
        \<subseteq> {''id'', ''slug'', ''created_at''}
    \<and> required d_Organization ''id'' (v_str V) = Some o_id
    \<and> required d_Organization ''slug'' (v_str V) = Some o_slug
    \<and> required d_Organization ''created_at'' (v_datetime V) = Some o_created_at
    \<longrightarrow> new_Organization V (JObject d_Organization)
        = Inr \<lparr>Organization_id = o_id, Organization_slug = o_slug,
            Organization_display_name = None, Organization_description = None,
            Organization_avatar_url = None, Organization_members_count = 0,
            Organization_repos_count = 0, Organization_created_at = o_created_at\<rparr>)"
proof (intro impI, elim conjE)
  assume keys: "fst ` set d_Organization
        \<subseteq> {''id'', ''slug'', ''created_at''}"
  assume f0: "required d_Organization ''id'' (v_str V) = Some o_id"
  assume f1: "required d_Organization ''slug'' (v_str V) = Some o_slug"
  assume f2: "required d_Organization ''created_at'' (v_datetime V) = Some o_created_at"
  have absent: "map_of d_Organization ''display_name'' = None"
    "map_of d_Organization ''description'' = None"
    "map_of d_Organization ''avatar_url'' = None"
    "map_of d_Organization ''members_count'' = None"
    "map_of d_Organization ''repos_count'' = None"
    using keys by (auto simp add: map_of_eq_None_iff)
  show "new_Organization V (JObject d_Organization)
          = Inr \<lparr>Organization_id = o_id, Organization_slug = o_slug,
            Organization_display_name = None, Organization_description = None,
            Organization_avatar_url = None, Organization_members_count = 0,
            Organization_repos_count = 0, Organization_created_at = o_created_at\<rparr>"
    by (simp add: new_Organization_def construct_def decode_Organization_def with_default_def absent
          f0 f1 f2)
qed

lemma new_Team_required_only:
  "(fst ` set d_Team
        \<subseteq> {''id'', ''slug'', ''name'', ''created_at''}
    \<and> required d_Team ''id'' (v_str V) = Some t_id
    \<and> required d_Team ''slug'' (v_str V) = Some t_slug
    \<and> required d_Team ''name'' (v_str V) = Some t_name
    \<and> required d_Team ''created_at'' (v_datetime V) = Some t_created_at
    \<longrightarrow> new_Team V (JObject d_Team)
        = Inr \<lparr>Team_id = t_id, Team_slug = t_slug, Team_name = t_name,
            Team_description = None, Team_permission = ''read'',
            Team_members_count = 0, Team_repos_count = 0,
            Team_created_at = t_created_at\<rparr>)"
proof (intro impI, elim conjE)
  assume keys: "fst ` set d_Team
        \<subseteq> {''id'', ''slug'', ''name'', ''created_at''}"
  assume f0: "required d_Team ''id'' (v_str V) = Some t_id"
  assume f1: "required d_Team ''slug'' (v_str V) = Some t_slug"
  assume f2: "required d_Team ''name'' (v_str V) = Some t_name"
  assume f3: "required d_Team ''created_at'' (v_datetime V) = Some t_created_at"
  have absent: "map_of d_Team ''description'' = None"
    "map_of d_Team ''permission'' = None"
    "map_of d_Team ''members_count'' = None"
    "map_of d_Team ''repos_count'' = None"
    using keys by (auto simp add: map_of_eq_None_iff)
  show "new_Team V (JObject d_Team)
          = Inr \<lparr>Team_id = t_id, Team_slug = t_slug, Team_name = t_name,
            Team_description = None, Team_permission = ''read'',
            Team_members_count = 0, Team_repos_count = 0,
            Team_created_at = t_created_at\<rparr>"
    by (simp add: new_Team_def construct_def decode_Team_def with_default_def absent
          f0 f1 f2 f3)
qed

lemma new_Webhook_required_only:
  "(fst ` set d_Webhook
        \<subseteq> {''id'', ''url'', ''events'', ''created_at'', ''updated_at''}
    \<and> required d_Webhook ''id'' (v_str V) = Some w_id
    \<and> required d_Webhook ''url'' (v_str V) = Some w_url
    \<and> required d_Webhook ''events'' (v_list validate_WebhookEvent) = Some w_events
    \<and> required d_Webhook ''created_at'' (v_datetime V) = Some w_created_at
    \<and> required d_Webhook ''updated_at'' (v_datetime V) = Some w_updated_at
    \<longrightarrow> new_Webhook V (JObject d_Webhook)
        = Inr \<lparr>Webhook_id = w_id, Webhook_url = w_url, Webhook_events = w_events,
            Webhook_active = True, Webhook_secret = None,
            Webhook_content_type = ''json'', Webhook_created_at = w_created_at,
            Webhook_updated_at = w_updated_at, Webhook_last_delivery_at = None\<rparr>)"
proof (intro impI, elim conjE)
  assume keys: "fst ` set d_Webhook
        \<subseteq> {''id'', ''url'', ''events'', ''created_at'', ''updated_at''}"
  assume f0: "required d_Webhook ''id'' (v_str V) = Some w_id"
  assume f1: "required d_Webhook ''url'' (v_str V) = Some w_url"
  assume f2: "required d_Webhook ''events'' (v_list validate_WebhookEvent) = Some w_events"
  assume f3: "required d_Webhook ''created_at'' (v_datetime V) = Some w_created_at"
  assume f4: "required d_Webhook ''updated_at'' (v_datetime V) = Some w_updated_at"
  have absent: "map_of d_Webhook ''active'' = None"
    "map_of d_Webhook ''secret'' = None"
    "map_of d_Webhook ''content_type'' = None"
    "map_of d_Webhook ''last_delivery_at'' = None"
    using keys by (auto simp add: map_of_eq_None_iff)
  show "new_Webhook V (JObject d_Webhook)
          = Inr \<lparr>Webhook_id = w_id, Webhook_url = w_url, Webhook_events = w_events,
            Webhook_active = True, Webhook_secret = None,
            Webhook_content_type = ''json'', Webhook_created_at = w_created_at,
            Webhook_updated_at = w_updated_at, Webhook_last_delivery_at = None\<rparr>"
    by (simp add: new_Webhook_def construct_def decode_Webhook_def with_default_def absent
          f0 f1 f2 f3 f4)
qed

lemma new_ConsensusStatus_required_only:
  "(fst ` set d_ConsensusStatus
        \<subseteq> {''height'', ''round'', ''phase'', ''synced'', ''peers_count'',
          ''validators_count'', ''mempool_size''}
    \<and> required d_ConsensusStatus ''height'' (v_int V) = Some cs_height
    \<and> required d_ConsensusStatus ''round'' (v_int V) = Some cs_round
    \<and> required d_ConsensusStatus ''phase'' (v_str V) = Some cs_phase
    \<and> required d_ConsensusStatus ''synced'' (v_bool V) = Some cs_synced
    \<and> required d_ConsensusStatus ''peers_count'' (v_int V) = Some cs_peers_count
    \<and> required d_ConsensusStatus ''validators_count'' (v_int V) = Some cs_validators_count
    \<and> required d_ConsensusStatus ''mempool_size'' (v_int V) = Some cs_mempool_size
    \<longrightarrow> new_ConsensusStatus V (JObject d_ConsensusStatus)
        = Inr \<lparr>ConsensusStatus_height = cs_height, ConsensusStatus_round = cs_round,
            ConsensusStatus_phase = cs_phase, ConsensusStatus_synced = cs_synced,
            ConsensusStatus_peers_count = cs_peers_count,
            ConsensusStatus_validators_count = cs_validators_count,
            ConsensusStatus_mempool_size = cs_mempool_size,
            ConsensusStatus_last_block_time = None\<rparr>)"
proof (intro impI, elim conjE)
  assume keys: "fst ` set d_ConsensusStatus
        \<subseteq> {''height'', ''round'', ''phase'', ''synced'', ''peers_count'',
          ''validators_count'', ''mempool_size''}"
  assume f0: "required d_ConsensusStatus ''height'' (v_int V) = Some cs_height"
  assume f1: "required d_ConsensusStatus ''round'' (v_int V) = Some cs_round"
  assume f2: "required d_ConsensusStatus ''phase'' (v_str V) = Some cs_phase"
  assume f3: "required d_ConsensusStatus ''synced'' (v_bool V) = Some cs_synced"
  assume f4: "required d_ConsensusStatus ''peers_count'' (v_int V) = Some cs_peers_count"
  assume f5: "required d_ConsensusStatus ''validators_count'' (v_int V) = Some cs_validators_count"
  assume f6: "required d_ConsensusStatus ''mempool_size'' (v_int V) = Some cs_mempool_size"
  have absent: "map_of d_ConsensusStatus ''last_block_time'' = None"
    using keys by (auto simp add: map_of_eq_None_iff)
  show "new_ConsensusStatus V (JObject d_ConsensusStatus)
          = Inr \<lparr>ConsensusStatus_height = cs_height, ConsensusStatus_round = cs_round,
            ConsensusStatus_phase = cs_phase, ConsensusStatus_synced = cs_synced,
            ConsensusStatus_peers_count = cs_peers_count,
            ConsensusStatus_validators_count = cs_validators_count,
            ConsensusStatus_mempool_size = cs_mempool_size,
            ConsensusStatus_last_block_time = None\<rparr>"
    by (simp add: new_ConsensusStatus_def construct_def decode_ConsensusStatus_def with_default_def absent
          f0 f1 f2 f3 f4 f5 f6)
qed

lemma new_Block_required_only:
  "(fst ` set d_Block
        \<subseteq> {''height'', ''hash'', ''parent_hash'', ''timestamp'', ''proposer'',
          ''transactions_count'', ''size''}
    \<and> required d_Block ''height'' (v_int V) = Some b_height
    \<and> required d_Block ''hash'' (v_str V) = Some b_hash
    \<and> required d_Block ''parent_hash'' (v_str V) = Some b_parent_hash
    \<and> required d_Block ''timestamp'' (v_datetime V) = Some b_timestamp
    \<and> required d_Block ''proposer'' (v_str V) = Some b_proposer
    \<and> required d_Block ''transactions_count'' (v_int V) = Some b_transactions_count
    \<and> required d_Block ''size'' (v_int V) = Some b_size
    \<longrightarrow> new_Block V (JObject d_Block)
        = Inr \<lparr>Block_height = b_height, Block_hash = b_hash,
            Block_parent_hash = b_parent_hash, Block_timestamp = b_timestamp,
            Block_proposer = b_proposer,
            Block_transactions_count = b_transactions_count, Block_size = b_size\<rparr>)"
proof (intro impI, elim conjE)
  assume keys: "fst ` set d_Block
        \<subseteq> {''height'', ''hash'', ''parent_hash'', ''timestamp'', ''proposer'',
          ''transactions_count'', ''size''}"
  assume f0: "required d_Block ''height'' (v_int V) = Some b_height"
  assume f1: "required d_Block ''hash'' (v_str V) = Some b_hash"
  assume f2: "required d_Block ''parent_hash'' (v_str V) = Some b_parent_hash"
  assume f3: "required d_Block ''timestamp'' (v_datetime V) = Some b_timestamp"
  assume f4: "required d_Block ''proposer'' (v_str V) = Some b_proposer"
  assume f5: "required d_Block ''transactions_count'' (v_int V) = Some b_transactions_count"
  assume f6: "required d_Block ''size'' (v_int V) = Some b_size"
  show "new_Block V (JObject d_Block)
          = Inr \<lparr>Block_height = b_height, Block_hash = b_hash,
            Block_parent_hash = b_parent_hash, Block_timestamp = b_timestamp,
            Block_proposer = b_proposer,
            Block_transactions_count = b_transactions_count, Block_size = b_size\<rparr>"
    by (simp add: new_Block_def construct_def decode_Block_def with_default_def
          f0 f1 f2 f3 f4 f5 f6)
qed

lemma new_Validator_required_only:
  "(fst ` set d_Validator
        \<subseteq> {''public_key'', ''address'', ''active'', ''voting_power''}
    \<and> required d_Validator ''public_key'' (v_str V) = Some v_public_key
    \<and> required d_Validator ''address'' (v_str V) = Some v_address
    \<and> required d_Validator ''active'' (v_bool V) = Some v_active
    \<and> required d_Validator ''voting_power'' (v_int V) = Some v_voting_power
    \<longrightarrow> new_Validator V (JObject d_Validator)
        = Inr \<lparr>Validator_public_key = v_public_key, Validator_address = v_address,
            Validator_active = v_active, Validator_voting_power = v_voting_power,
            Validator_last_seen = None\<rparr>)"
proof (intro impI, elim conjE)
  assume keys: "fst ` set d_Validator
        \<subseteq> {''public_key'', ''address'', ''active'', ''voting_power''}"
  assume f0: "required d_Validator ''public_key'' (v_str V) = Some v_public_key"
  assume f1: "required d_Validator ''address'' (v_str V) = Some v_address"
  assume f2: "required d_Validator ''active'' (v_bool V) = Some v_active"
  assume f3: "required d_Validator ''voting_power'' (v_int V) = Some v_voting_power"
  have absent: "map_of d_Validator ''last_seen'' = None"
    using keys by (auto simp add: map_of_eq_None_iff)
  show "new_Validator V (JObject d_Validator)
          = Inr \<lparr>Validator_public_key = v_public_key, Validator_address = v_address,
            Validator_active = v_active, Validator_voting_power = v_voting_power,
            Validator_last_seen = None\<rparr>"
    by (simp add: new_Validator_def construct_def decode_Validator_def with_default_def absent
          f0 f1 f2 f3)
qed

lemma repos_get_scenario:
  "(httpx_request c
      \<lparr>req_method = ''GET'', req_path = ''/api/repos/alice/demo'', req_params = None,
       req_json = None\<rparr> (remote c) = (resp, w')
    \<and> is_success resp \<and> resp_status_code resp \<noteq> 204
    \<and> resp_json resp = Some (JObject
            [(''key'', JString ''alice/demo''), (''name'', JString ''demo''),
             (''owner'', JString ''alice''), (''clone_url'', JString ''https://x/demo.git''),
             (''html_url'', JString ''https://x/alice/demo''),
             (''created_at'', JString ''2024-01-01T00:00:00Z''),
             (''updated_at'', JString ''2024-01-01T00:00:00Z'')])
    \<and> (\<forall>s. v_str V (JString s) = Some s)
    \<and> v_datetime V (JString ''2024-01-01T00:00:00Z'') = Some t
    \<longrightarrow> fst (RepositoryAPI_get V c ''alice'' ''demo'')
        = Inr \<lparr>Repository_key = ''alice/demo'', Repository_name = ''demo'',
            Repository_owner = ''alice'', Repository_description = None,
            Repository_private = False, Repository_default_branch = ''main'',
            Repository_clone_url = ''https://x/demo.git'',
            Repository_html_url = ''https://x/alice/demo'',
            Repository_open_issues_count = 0, Repository_open_pull_requests_count = 0,
            Repository_created_at = t, Repository_updated_at = t,
            Repository_pushed_at = None\<rparr>)"
proof (intro impI, elim conjE)
  let ?d = "[(''key'', JString ''alice/demo''), (''name'', JString ''demo''),
             (''owner'', JString ''alice''), (''clone_url'', JString ''https://x/demo.git''),
             (''html_url'', JString ''https://x/alice/demo''),
             (''created_at'', JString ''2024-01-01T00:00:00Z''),
             (''updated_at'', JString ''2024-01-01T00:00:00Z'')]"
  assume answer: "httpx_request c
      \<lparr>req_method = ''GET'', req_path = ''/api/repos/alice/demo'', req_params = None,
       req_json = None\<rparr> (remote c) = (resp, w')"
    and ok: "is_success resp" "resp_status_code resp \<noteq> 204" "resp_json resp = Some (JObject ?d)"
    and str: "\<forall>s. v_str V (JString s) = Some s"
    and dt: "v_datetime V (JString ''2024-01-01T00:00:00Z'') = Some t"
  have keys: "fst ` set ?d \<subseteq> {''key'', ''name'', ''owner'', ''clone_url'', ''html_url'',
          ''created_at'', ''updated_at''}"
    by simp
  have fields: "required ?d ''key'' (v_str V) = Some ''alice/demo''"
    "required ?d ''name'' (v_str V) = Some ''demo''"
    "required ?d ''owner'' (v_str V) = Some ''alice''"
    "required ?d ''clone_url'' (v_str V) = Some ''https://x/demo.git''"
    "required ?d ''html_url'' (v_str V) = Some ''https://x/alice/demo''"
    "required ?d ''created_at'' (v_datetime V) = Some t"
    "required ?d ''updated_at'' (v_datetime V) = Some t"
    using str dt by (simp_all add: required_def)
  have "new_Repository V (JObject ?d)
          = Inr \<lparr>Repository_key = ''alice/demo'', Repository_name = ''demo'',
            Repository_owner = ''alice'', Repository_description = None,
            Repository_private = False, Repository_default_branch = ''main'',
            Repository_clone_url = ''https://x/demo.git'',
            Repository_html_url = ''https://x/alice/demo'',
            Repository_open_issues_count = 0, Repository_open_pull_requests_count = 0,
            Repository_created_at = t, Repository_updated_at = t,
            Repository_pushed_at = None\<rparr>"
    using new_Repository_required_only [of ?d V] keys fields by blast
  then show "fst (RepositoryAPI_get V c ''alice'' ''demo'')
          = Inr \<lparr>Repository_key = ''alice/demo'', Repository_name = ''demo'',
            Repository_owner = ''alice'', Repository_description = None,
            Repository_private = False, Repository_default_branch = ''main'',
            Repository_clone_url = ''https://x/demo.git'',
            Repository_html_url = ''https://x/alice/demo'',
            Repository_open_issues_count = 0, Repository_open_pull_requests_count = 0,
            Repository_created_at = t, Repository_updated_at = t,
            Repository_pushed_at = None\<rparr>"
    using answer
    by (simp add: RepositoryAPI_get_def returning_fst GutsClient_get_def
          GutsClient_request_result handle_response_success [OF ok] and_then_Inr)
qed

text \<open>
  Claim C7.  \<open>repos.get("alice", "demo")\<close> on a successful response whose body has only
  \<open>key\<close>, \<open>name\<close>, \<open>owner\<close>, \<open>clone_url\<close>, \<open>html_url\<close>, \<open>created_at\<close> and \<open>updated_at\<close>
  returns a \<open>Repository\<close> with \<open>private = False\<close> and \<open>default_branch = "main"\<close> (the validators
  accepting strings as \<open>str\<close> and the timestamp as \<open>datetime\<close>); and for every model,
  constructing it from data that supply only its required fields, each with a value that
  validates, succeeds with every optional field at its declared default (\<open>draft = False\<close>,
  \<open>private = False\<close>, \<open>active = True\<close>, \<open>labels = []\<close>, \<open>None\<close> for the \<open>Optional\<close> fields, and
  so on).
\<close>

theorem required_fields_suffice:
  "(httpx_request c
       \<lparr>req_method = ''GET'', req_path = ''/api/repos/alice/demo'', req_params = None,
        req_json = None\<rparr> (remote c) = (resp, w')
     \<and> is_success resp \<and> resp_status_code resp \<noteq> 204
     \<and> resp_json resp = Some (JObject
             [(''key'', JString ''alice/demo''), (''name'', JString ''demo''),
              (''owner'', JString ''alice''), (''clone_url'', JString ''https://x/demo.git''),
              (''html_url'', JString ''https://x/alice/demo''),
              (''created_at'', JString ''2024-01-01T00:00:00Z''),
              (''updated_at'', JString ''2024-01-01T00:00:00Z'')])
     \<and> (\<forall>s. v_str V (JString s) = Some s)
     \<and> v_datetime V (JString ''2024-01-01T00:00:00Z'') = Some t
     \<longrightarrow> fst (RepositoryAPI_get V c ''alice'' ''demo'')
         = Inr \<lparr>Repository_key = ''alice/demo'', Repository_name = ''demo'',
             Repository_owner = ''alice'', Repository_description = None,
             Repository_private = False, Repository_default_branch = ''main'',
             Repository_clone_url = ''https://x/demo.git'',
             Repository_html_url = ''https://x/alice/demo'',
             Repository_open_issues_count = 0, Repository_open_pull_requests_count = 0,
             Repository_created_at = t, Repository_updated_at = t,
             Repository_pushed_at = None\<rparr>)
   \<and> (fst ` set d_Repository
        \<subseteq> {''key'', ''name'', ''owner'', ''clone_url'', ''html_url'',
          ''created_at'', ''updated_at''}
     \<and> required d_Repository ''key'' (v_str V) = Some r_key
     \<and> required d_Repository ''name'' (v_str V) = Some r_name
     \<and> required d_Repository ''owner'' (v_str V) = Some r_owner
     \<and> required d_Repository ''clone_url'' (v_str V) = Some r_clone_url
     \<and> required d_Repository ''html_url'' (v_str V) = Some r_html_url
     \<and> required d_Repository ''created_at'' (v_datetime V) = Some r_created_at
     \<and> required d_Repository ''updated_at'' (v_datetime V) = Some r_updated_at
     \<longrightarrow> new_Repository V (JObject d_Repository)
         = Inr \<lparr>Repository_key = r_key, Repository_name = r_name,
            Repository_owner = r_owner, Repository_description = None,
            Repository_private = False, Repository_default_branch = ''main'',
            Repository_clone_url = r_clone_url, Repository_html_url = r_html_url,
            Repository_open_issues_count = 0,
            Repository_open_pull_requests_count = 0,
            Repository_created_at = r_created_at,
            Repository_updated_at = r_updated_at, Repository_pushed_at = None\<rparr>)
   \<and> (fst ` set d_Issue
        \<subseteq> {''id'', ''number'', ''title'', ''state'', ''author'',
          ''created_at'', ''updated_at''}
     \<and> required d_Issue ''id'' (v_str V) = Some i_id
     \<and> required d_Issue ''number'' (v_int V) = Some i_number
     \<and> required d_Issue ''title'' (v_str V) = Some i_title
     \<and> required d_Issue ''state'' validate_IssueState = Some i_state
     \<and> required d_Issue ''author'' (v_str V) = Some i_author
     \<and> required d_Issue ''created_at'' (v_datetime V) = Some i_created_at
     \<and> required d_Issue ''updated_at'' (v_datetime V) = Some i_updated_at
     \<longrightarrow> new_Issue V (JObject d_Issue)
         = Inr \<lparr>Issue_id = i_id, Issue_number = i_number, Issue_title = i_title,
            Issue_body = None, Issue_state = i_state, Issue_author = i_author,
            Issue_assignees = [], Issue_labels = [], Issue_milestone = None,
            Issue_comments_count = 0, Issue_created_at = i_created_at,
            Issue_updated_at = i_updated_at, Issue_closed_at = None,
            Issue_closed_by = None\<rparr>)
   \<and> (fst ` set d_PullRequest
        \<subseteq> {''id'', ''number'', ''title'', ''state'', ''author'',
          ''source_branch'', ''target_branch'', ''source_commit'',
          ''target_commit'', ''created_at'', ''updated_at''}
     \<and> required d_PullRequest ''id'' (v_str V) = Some p_id
     \<and> required d_PullRequest ''number'' (v_int V) = Some p_number
     \<and> required d_PullRequest ''title'' (v_str V) = Some p_title
     \<and> required d_PullRequest ''state'' validate_PullRequestState = Some p_state
     \<and> required d_PullRequest ''author'' (v_str V) = Some p_author
     \<and> required d_PullRequest ''source_branch'' (v_str V) = Some p_source_branch
     \<and> required d_PullRequest ''target_branch'' (v_str V) = Some p_target_branch
     \<and> required d_PullRequest ''source_commit'' (v_str V) = Some p_source_commit
     \<and> required d_PullRequest ''target_commit'' (v_str V) = Some p_target_commit
     \<and> required d_PullRequest ''created_at'' (v_datetime V) = Some p_created_at
     \<and> required d_PullRequest ''updated_at'' (v_datetime V) = Some p_updated_at
     \<longrightarrow> new_PullRequest V (JObject d_PullRequest)
         = Inr \<lparr>PullRequest_id = p_id, PullRequest_number = p_number,
            PullRequest_title = p_title, PullRequest_body = None,
            PullRequest_state = p_state, PullRequest_author = p_author,
            PullRequest_source_branch = p_source_branch,
            PullRequest_target_branch = p_target_branch,
            PullRequest_source_commit = p_source_commit,
            PullRequest_target_commit = p_target_commit,
            PullRequest_mergeable = None, PullRequest_draft = False,
            PullRequest_reviewers = [], PullRequest_labels = [],
            PullRequest_comments_count = 0, PullRequest_commits_count = 0,
            PullRequest_changed_files = 0, PullRequest_additions = 0,
            PullRequest_deletions = 0, PullRequest_created_at = p_created_at,
            PullRequest_updated_at = p_updated_at, PullRequest_merged_at = None,
            PullRequest_merged_by = None, PullRequest_closed_at = None\<rparr>)
   \<and> (fst ` set d_Comment
        \<subseteq> {''id'', ''body'', ''author'', ''created_at'', ''updated_at''}
     \<and> required d_Comment ''id'' (v_str V) = Some c_id
     \<and> required d_Comment ''body'' (v_str V) = Some c_body
     \<and> required d_Comment ''author'' (v_str V) = Some c_author
     \<and> required d_Comment ''created_at'' (v_datetime V) = Some c_created_at
     \<and> required d_Comment ''updated_at'' (v_datetime V) = Some c_updated_at
     \<longrightarrow> new_Comment V (JObject d_Comment)
         = Inr \<lparr>Comment_id = c_id, Comment_body = c_body, Comment_author = c_author,
            Comment_created_at = c_created_at, Comment_updated_at = c_updated_at\<rparr>)
   \<and> (fst ` set d_Review
        \<subseteq> {''id'', ''pr_number'', ''author'', ''state'', ''commit_id'',
          ''created_at''}
     \<and> required d_Review ''id'' (v_str V) = Some rv_id
     \<and> required d_Review ''pr_number'' (v_int V) = Some rv_pr_number
     \<and> required d_Review ''author'' (v_str V) = Some rv_author
     \<and> required d_Review ''state'' validate_ReviewState = Some rv_state
     \<and> required d_Review ''commit_id'' (v_str V) = Some rv_commit_id
     \<and> required d_Review ''created_at'' (v_datetime V) = Some rv_created_at
     \<longrightarrow> new_Review V (JObject d_Review)
         = Inr \<lparr>Review_id = rv_id, Review_pr_number = rv_pr_number,
            Review_author = rv_author, Review_state = rv_state, Review_body = None,
            Review_commit_id = rv_commit_id, Review_created_at = rv_created_at,
            Review_submitted_at = None\<rparr>)
   \<and> (fst ` set d_ReleaseAsset
        \<subseteq> {''id'', ''name'', ''content_type'', ''size'',
          ''browser_download_url'', ''created_at'', ''uploader''}
     \<and> required d_ReleaseAsset ''id'' (v_str V) = Some a_id
     \<and> required d_ReleaseAsset ''name'' (v_str V) = Some a_name
     \<and> required d_ReleaseAsset ''content_type'' (v_str V) = Some a_content_type
     \<and> required d_ReleaseAsset ''size'' (v_int V) = Some a_size
     \<and> required d_ReleaseAsset ''browser_download_url'' (v_str V) = Some a_browser_download_url
     \<and> required d_ReleaseAsset ''created_at'' (v_datetime V) = Some a_created_at
     \<and> required d_ReleaseAsset ''uploader'' (v_str V) = Some a_uploader
     \<longrightarrow> new_ReleaseAsset V (JObject d_ReleaseAsset)
         = Inr \<lparr>ReleaseAsset_id = a_id, ReleaseAsset_name = a_name,
            ReleaseAsset_content_type = a_content_type, ReleaseAsset_size = a_size,
            ReleaseAsset_download_count = 0,
            ReleaseAsset_browser_download_url = a_browser_download_url,
            ReleaseAsset_created_at = a_created_at,
            ReleaseAsset_uploader = a_uploader\<rparr>)
   \<and> (fst ` set d_Release
        \<subseteq> {''id'', ''tag_name'', ''name'', ''author'', ''target_commitish'',
          ''created_at''}
     \<and> required d_Release ''id'' (v_str V) = Some rl_id
     \<and> required d_Release ''tag_name'' (v_str V) = Some rl_tag_name
     \<and> required d_Release ''name'' (v_str V) = Some rl_name
     \<and> required d_Release ''author'' (v_str V) = Some rl_author
     \<and> required d_Release ''target_commitish'' (v_str V) = Some rl_target_commitish
     \<and> required d_Release ''created_at'' (v_datetime V) = Some rl_created_at
     \<longrightarrow> new_Release V (JObject d_Release)
         = Inr \<lparr>Release_id = rl_id, Release_tag_name = rl_tag_name,
            Release_name = rl_name, Release_body = None, Release_draft = False,
            Release_prerelease = False, Release_author = rl_author,
            Release_target_commitish = rl_target_commitish, Release_assets = [],
            Release_created_at = rl_created_at, Release_published_at = None\<rparr>)
   \<and> (fst ` set d_Label
        \<subseteq> {''name'', ''color''}
     \<and> required d_Label ''name'' (v_str V) = Some l_name
     \<and> required d_Label ''color'' (v_str V) = Some l_color
     \<longrightarrow> new_Label V (JObject d_Label)
         = Inr \<lparr>Label_name = l_name, Label_color = l_color, Label_description = None\<rparr>)
   \<and> (fst ` set d_User
        \<subseteq> {''id'', ''username'', ''public_key'', ''created_at''}
     \<and> required d_User ''id'' (v_str V) = Some u_id
     \<and> required d_User ''username'' (v_str V) = Some u_username
     \<and> required d_User ''public_key'' (v_str V) = Some u_public_key
     \<and> required d_User ''created_at'' (v_datetime V) = Some u_created_at
     \<longrightarrow> new_User V (JObject d_User)
         = Inr \<lparr>User_id = u_id, User_username = u_username, User_display_name = None,
            User_avatar_url = None, User_bio = None, User_public_key = u_public_key,
            User_created_at = u_created_at\<rparr>)
   \<and> (fst ` set d_Organization
        \<subseteq> {''id'', ''slug'', ''created_at''}
     \<and> required d_Organization ''id'' (v_str V) = Some o_id
     \<and> required d_Organization ''slug'' (v_str V) = Some o_slug
     \<and> required d_Organization ''created_at'' (v_datetime V) = Some o_created_at
     \<longrightarrow> new_Organization V (JObject d_Organization)
         = Inr \<lparr>Organization_id = o_id, Organization_slug = o_slug,
            Organization_display_name = None, Organization_description = None,
            Organization_avatar_url = None, Organization_members_count = 0,
            Organization_repos_count = 0, Organization_created_at = o_created_at\<rparr>)
   \<and> (fst ` set d_Team
        \<subseteq> {''id'', ''slug'', ''name'', ''created_at''}
     \<and> required d_Team ''id'' (v_str V) = Some t_id
     \<and> required d_Team ''slug'' (v_str V) = Some t_slug
     \<and> required d_Team ''name'' (v_str V) = Some t_name
     \<and> required d_Team ''created_at'' (v_datetime V) = Some t_created_at
     \<longrightarrow> new_Team V (JObject d_Team)
         = Inr \<lparr>Team_id = t_id, Team_slug = t_slug, Team_name = t_name,
            Team_description = None, Team_permission = ''read'',
            Team_members_count = 0, Team_repos_count = 0,
            Team_created_at = t_created_at\<rparr>)
   \<and> (fst ` set d_Webhook
        \<subseteq> {''id'', ''url'', ''events'', ''created_at'', ''updated_at''}
     \<and> required d_Webhook ''id'' (v_str V) = Some w_id
     \<and> required d_Webhook ''url'' (v_str V) = Some w_url
     \<and> required d_Webhook ''events'' (v_list validate_WebhookEvent) = Some w_events
     \<and> required d_Webhook ''created_at'' (v_datetime V) = Some w_created_at
     \<and> required d_Webhook ''updated_at'' (v_datetime V) = Some w_updated_at
     \<longrightarrow> new_Webhook V (JObject d_Webhook)
         = Inr \<lparr>Webhook_id = w_id, Webhook_url = w_url, Webhook_events = w_events,
            Webhook_active = True, Webhook_secret = None,
            Webhook_content_type = ''json'', Webhook_created_at = w_created_at,
            Webhook_updated_at = w_updated_at, Webhook_last_delivery_at = None\<rparr>)
   \<and> (fst ` set d_ConsensusStatus
        \<subseteq> {''height'', ''round'', ''phase'', ''synced'', ''peers_count'',
          ''validators_count'', ''mempool_size''}
     \<and> required d_ConsensusStatus ''height'' (v_int V) = Some cs_height
     \<and> required d_ConsensusStatus ''round'' (v_int V) = Some cs_round
     \<and> required d_ConsensusStatus ''phase'' (v_str V) = Some cs_phase
     \<and> required d_ConsensusStatus ''synced'' (v_bool V) = Some cs_synced
     \<and> required d_ConsensusStatus ''peers_count'' (v_int V) = Some cs_peers_count
     \<and> required d_ConsensusStatus ''validators_count'' (v_int V) = Some cs_validators_count
     \<and> required d_ConsensusStatus ''mempool_size'' (v_int V) = Some cs_mempool_size
     \<longrightarrow> new_ConsensusStatus V (JObject d_ConsensusStatus)
         = Inr \<lparr>ConsensusStatus_height = cs_height, ConsensusStatus_round = cs_round,
            ConsensusStatus_phase = cs_phase, ConsensusStatus_synced = cs_synced,
            ConsensusStatus_peers_count = cs_peers_count,
            ConsensusStatus_validators_count = cs_validators_count,
            ConsensusStatus_mempool_size = cs_mempool_size,
            ConsensusStatus_last_block_time = None\<rparr>)
   \<and> (fst ` set d_Block
        \<subseteq> {''height'', ''hash'', ''parent_hash'', ''timestamp'', ''proposer'',
          ''transactions_count'', ''size''}
     \<and> required d_Block ''height'' (v_int V) = Some b_height
     \<and> required d_Block ''hash'' (v_str V) = Some b_hash
     \<and> required d_Block ''parent_hash'' (v_str V) = Some b_parent_hash
     \<and> required d_Block ''timestamp'' (v_datetime V) = Some b_timestamp
     \<and> required d_Block ''proposer'' (v_str V) = Some b_proposer
     \<and> required d_Block ''transactions_count'' (v_int V) = Some b_transactions_count
     \<and> required d_Block ''size'' (v_int V) = Some b_size
     \<longrightarrow> new_Block V (JObject d_Block)
         = Inr \<lparr>Block_height = b_height, Block_hash = b_hash,
            Block_parent_hash = b_parent_hash, Block_timestamp = b_timestamp,
            Block_proposer = b_proposer,
            Block_transactions_count = b_transactions_count, Block_size = b_size\<rparr>)
   \<and> (fst ` set d_Validator
        \<subseteq> {''public_key'', ''address'', ''active'', ''voting_power''}
     \<and> required d_Validator ''public_key'' (v_str V) = Some v_public_key
     \<and> required d_Validator ''address'' (v_str V) = Some v_address
     \<and> required d_Validator ''active'' (v_bool V) = Some v_active
     \<and> required d_Validator ''voting_power'' (v_int V) = Some v_voting_power
     \<longrightarrow> new_Validator V (JObject d_Validator)
         = Inr \<lparr>Validator_public_key = v_public_key, Validator_address = v_address,
            Validator_active = v_active, Validator_voting_power = v_voting_power,
            Validator_last_seen = None\<rparr>)"
  by (intro conjI)
    (rule repos_get_scenario,
     rule new_Repository_required_only,
     rule new_Issue_required_only,
     rule new_PullRequest_required_only,
     rule new_Comment_required_only,
     rule new_Review_required_only,
     rule new_ReleaseAsset_required_only,
     rule new_Release_required_only,
     rule new_Label_required_only,
     rule new_User_required_only,
     rule new_Organization_required_only,
     rule new_Team_required_only,
     rule new_Webhook_required_only,
     rule new_ConsensusStatus_required_only,
     rule new_Block_required_only,
     rule new_Validator_required_only)

theorem required_fields_suffice_witness:
  "fst (RepositoryAPI_get exact_validators
          (always \<lparr>resp_status_code = 200, resp_text =
                ''{\"key\": \"alice/demo\", \"name\": \"demo\", ''
                @ ''\"owner\": \"alice\", \"clone_url\": \"https://x/demo.git\", ''
                @ ''\"html_url\": \"https://x/alice/demo\", ''
                @ ''\"created_at\": \"2024-01-01T00:00:00Z\", ''
                @ ''\"updated_at\": \"2024-01-01T00:00:00Z\"}'',
            resp_json = Some (JObject
                [(''key'', JString ''alice/demo''), (''name'', JString ''demo''),
                 (''owner'', JString ''alice''), (''clone_url'', JString ''https://x/demo.git''),
                 (''html_url'', JString ''https://x/alice/demo''),
                 (''created_at'', JString ''2024-01-01T00:00:00Z''),
                 (''updated_at'', JString ''2024-01-01T00:00:00Z'')]),
            resp_headers = []\<rparr>)
          ''alice'' ''demo'')
     = Inr \<lparr>Repository_key = ''alice/demo'', Repository_name = ''demo'',
            Repository_owner = ''alice'', Repository_description = None,
            Repository_private = False, Repository_default_branch = ''main'',
            Repository_clone_url = ''https://x/demo.git'',
            Repository_html_url = ''https://x/alice/demo'',
            Repository_open_issues_count = 0, Repository_open_pull_requests_count = 0,
            Repository_created_at = ''2024-01-01T00:00:00Z'', Repository_updated_at = ''2024-01-01T00:00:00Z'',
            Repository_pushed_at = None\<rparr>
   \<and> new_Repository exact_validators
       (JObject [(''key'', JString ''key''), (''name'', JString ''name''),
                (''owner'', JString ''owner''), (''clone_url'', JString ''clone_url''),
                (''html_url'', JString ''html_url''),
                (''created_at'', JString ''2024-01-01T00:00:00Z''),
                (''updated_at'', JString ''2024-01-01T00:00:00Z'')])
     = Inr \<lparr>Repository_key = ''key'', Repository_name = ''name'',
            Repository_owner = ''owner'', Repository_description = None,
            Repository_private = False, Repository_default_branch = ''main'',
            Repository_clone_url = ''clone_url'', Repository_html_url = ''html_url'',
            Repository_open_issues_count = 0,
            Repository_open_pull_requests_count = 0,
            Repository_created_at = ''2024-01-01T00:00:00Z'',
            Repository_updated_at = ''2024-01-01T00:00:00Z'',
            Repository_pushed_at = None\<rparr>
   \<and> new_Issue exact_validators
       (JObject [(''id'', JString ''id''), (''number'', JInt 1),
                (''title'', JString ''title''), (''state'', JString ''open''),
                (''author'', JString ''author''),
                (''created_at'', JString ''2024-01-01T00:00:00Z''),
                (''updated_at'', JString ''2024-01-01T00:00:00Z'')])
     = Inr \<lparr>Issue_id = ''id'', Issue_number = 1, Issue_title = ''title'',
            Issue_body = None, Issue_state = IssueState_OPEN,
            Issue_author = ''author'', Issue_assignees = [], Issue_labels = [],
            Issue_milestone = None, Issue_comments_count = 0,
            Issue_created_at = ''2024-01-01T00:00:00Z'',
            Issue_updated_at = ''2024-01-01T00:00:00Z'', Issue_closed_at = None,
            Issue_closed_by = None\<rparr>
   \<and> new_PullRequest exact_validators
       (JObject [(''id'', JString ''id''), (''number'', JInt 1),
                (''title'', JString ''title''), (''state'', JString ''merged''),
                (''author'', JString ''author''),
                (''source_branch'', JString ''source_branch''),
                (''target_branch'', JString ''target_branch''),
                (''source_commit'', JString ''source_commit''),
                (''target_commit'', JString ''target_commit''),
                (''created_at'', JString ''2024-01-01T00:00:00Z''),
                (''updated_at'', JString ''2024-01-01T00:00:00Z'')])
     = Inr \<lparr>PullRequest_id = ''id'', PullRequest_number = 1,
            PullRequest_title = ''title'', PullRequest_body = None,
            PullRequest_state = PullRequestState_MERGED,
            PullRequest_author = ''author'',
            PullRequest_source_branch = ''source_branch'',
            PullRequest_target_branch = ''target_branch'',
            PullRequest_source_commit = ''source_commit'',
            PullRequest_target_commit = ''target_commit'',
            PullRequest_mergeable = None, PullRequest_draft = False,
            PullRequest_reviewers = [], PullRequest_labels = [],
            PullRequest_comments_count = 0, PullRequest_commits_count = 0,
            PullRequest_changed_files = 0, PullRequest_additions = 0,
            PullRequest_deletions = 0,
            PullRequest_created_at = ''2024-01-01T00:00:00Z'',
            PullRequest_updated_at = ''2024-01-01T00:00:00Z'',
            PullRequest_merged_at = None, PullRequest_merged_by = None,
            PullRequest_closed_at = None\<rparr>
   \<and> new_Comment exact_validators
       (JObject [(''id'', JString ''id''), (''body'', JString ''body''),
                (''author'', JString ''author''),
                (''created_at'', JString ''2024-01-01T00:00:00Z''),
                (''updated_at'', JString ''2024-01-01T00:00:00Z'')])
     = Inr \<lparr>Comment_id = ''id'', Comment_body = ''body'',
            Comment_author = ''author'',
            Comment_created_at = ''2024-01-01T00:00:00Z'',
            Comment_updated_at = ''2024-01-01T00:00:00Z''\<rparr>
   \<and> new_Review exact_validators
       (JObject [(''id'', JString ''id''), (''pr_number'', JInt 1),
                (''author'', JString ''author''), (''state'', JString ''approved''),
                (''commit_id'', JString ''commit_id''),
                (''created_at'', JString ''2024-01-01T00:00:00Z'')])
     = Inr \<lparr>Review_id = ''id'', Review_pr_number = 1, Review_author = ''author'',
            Review_state = ReviewState_APPROVED, Review_body = None,
            Review_commit_id = ''commit_id'',
            Review_created_at = ''2024-01-01T00:00:00Z'', Review_submitted_at = None\<rparr>
   \<and> new_ReleaseAsset exact_validators
       (JObject [(''id'', JString ''id''), (''name'', JString ''name''),
                (''content_type'', JString ''content_type''), (''size'', JInt 1),
                (''browser_download_url'', JString ''browser_download_url''),
                (''created_at'', JString ''2024-01-01T00:00:00Z''),
                (''uploader'', JString ''uploader'')])
     = Inr \<lparr>ReleaseAsset_id = ''id'', ReleaseAsset_name = ''name'',
            ReleaseAsset_content_type = ''content_type'', ReleaseAsset_size = 1,
            ReleaseAsset_download_count = 0,
            ReleaseAsset_browser_download_url = ''browser_download_url'',
            ReleaseAsset_created_at = ''2024-01-01T00:00:00Z'',
            ReleaseAsset_uploader = ''uploader''\<rparr>
   \<and> new_Release exact_validators
       (JObject [(''id'', JString ''id''), (''tag_name'', JString ''tag_name''),
                (''name'', JString ''name''), (''author'', JString ''author''),
                (''target_commitish'', JString ''target_commitish''),
                (''created_at'', JString ''2024-01-01T00:00:00Z'')])
     = Inr \<lparr>Release_id = ''id'', Release_tag_name = ''tag_name'',
            Release_name = ''name'', Release_body = None, Release_draft = False,
            Release_prerelease = False, Release_author = ''author'',
            Release_target_commitish = ''target_commitish'', Release_assets = [],
            Release_created_at = ''2024-01-01T00:00:00Z'',
            Release_published_at = None\<rparr>
   \<and> new_Label exact_validators
       (JObject [(''name'', JString ''name''), (''color'', JString ''color'')])
     = Inr \<lparr>Label_name = ''name'', Label_color = ''color'', Label_description = None\<rparr>
   \<and> new_User exact_validators
       (JObject [(''id'', JString ''id''), (''username'', JString ''username''),
                (''public_key'', JString ''public_key''),
                (''created_at'', JString ''2024-01-01T00:00:00Z'')])
     = Inr \<lparr>User_id = ''id'', User_username = ''username'', User_display_name = None,
            User_avatar_url = None, User_bio = None,
            User_public_key = ''public_key'',
            User_created_at = ''2024-01-01T00:00:00Z''\<rparr>
   \<and> new_Organization exact_validators
       (JObject [(''id'', JString ''id''), (''slug'', JString ''slug''),
                (''created_at'', JString ''2024-01-01T00:00:00Z'')])
     = Inr \<lparr>Organization_id = ''id'', Organization_slug = ''slug'',
            Organization_display_name = None, Organization_description = None,
            Organization_avatar_url = None, Organization_members_count = 0,
            Organization_repos_count = 0,
            Organization_created_at = ''2024-01-01T00:00:00Z''\<rparr>
   \<and> new_Team exact_validators
       (JObject [(''id'', JString ''id''), (''slug'', JString ''slug''),
                (''name'', JString ''name''),
                (''created_at'', JString ''2024-01-01T00:00:00Z'')])
     = Inr \<lparr>Team_id = ''id'', Team_slug = ''slug'', Team_name = ''name'',
            Team_description = None, Team_permission = ''read'',
            Team_members_count = 0, Team_repos_count = 0,
            Team_created_at = ''2024-01-01T00:00:00Z''\<rparr>
   \<and> new_Webhook exact_validators
       (JObject [(''id'', JString ''id''), (''url'', JString ''url''),
                (''events'', JArray [JString ''push'', JString ''release'']),
                (''created_at'', JString ''2024-01-01T00:00:00Z''),
                (''updated_at'', JString ''2024-01-01T00:00:00Z'')])
     = Inr \<lparr>Webhook_id = ''id'', Webhook_url = ''url'',
            Webhook_events = [WebhookEvent_PUSH, WebhookEvent_RELEASE],
            Webhook_active = True, Webhook_secret = None,
            Webhook_content_type = ''json'',
            Webhook_created_at = ''2024-01-01T00:00:00Z'',
            Webhook_updated_at = ''2024-01-01T00:00:00Z'',
            Webhook_last_delivery_at = None\<rparr>
   \<and> new_ConsensusStatus exact_validators
       (JObject [(''height'', JInt 1), (''round'', JInt 1), (''phase'', JString ''phase''),
                (''synced'', JBool True), (''peers_count'', JInt 1),
                (''validators_count'', JInt 1), (''mempool_size'', JInt 1)])
     = Inr \<lparr>ConsensusStatus_height = 1, ConsensusStatus_round = 1,
            ConsensusStatus_phase = ''phase'', ConsensusStatus_synced = True,
            ConsensusStatus_peers_count = 1, ConsensusStatus_validators_count = 1,
            ConsensusStatus_mempool_size = 1, ConsensusStatus_last_block_time = None\<rparr>
   \<and> new_Block exact_validators
       (JObject [(''height'', JInt 1), (''hash'', JString ''hash''),
                (''parent_hash'', JString ''parent_hash''),
                (''timestamp'', JString ''2024-01-01T00:00:00Z''),
                (''proposer'', JString ''proposer''), (''transactions_count'', JInt 1),
                (''size'', JInt 1)])
     = Inr \<lparr>Block_height = 1, Block_hash = ''hash'',
            Block_parent_hash = ''parent_hash'',
            Block_timestamp = ''2024-01-01T00:00:00Z'',
            Block_proposer = ''proposer'', Block_transactions_count = 1,
            Block_size = 1\<rparr>
   \<and> new_Validator exact_validators
       (JObject [(''public_key'', JString ''public_key''), (''address'', JString ''address''),
                (''active'', JBool True), (''voting_power'', JInt 1)])
     = Inr \<lparr>Validator_public_key = ''public_key'', Validator_address = ''address'',
            Validator_active = True, Validator_voting_power = 1,
            Validator_last_seen = None\<rparr>"
proof -
  let ?resp = "\<lparr>resp_status_code = 200, resp_text =
            ''{\"key\": \"alice/demo\", \"name\": \"demo\", ''
            @ ''\"owner\": \"alice\", \"clone_url\": \"https://x/demo.git\", ''
            @ ''\"html_url\": \"https://x/alice/demo\", ''
            @ ''\"created_at\": \"2024-01-01T00:00:00Z\", ''
            @ ''\"updated_at\": \"2024-01-01T00:00:00Z\"}'',
        resp_json = Some (JObject
            [(''key'', JString ''alice/demo''), (''name'', JString ''demo''),
             (''owner'', JString ''alice''), (''clone_url'', JString ''https://x/demo.git''),
             (''html_url'', JString ''https://x/alice/demo''),
             (''created_at'', JString ''2024-01-01T00:00:00Z''),
             (''updated_at'', JString ''2024-01-01T00:00:00Z'')]),
        resp_headers = []\<rparr>"
  note inst = required_fields_suffice
    [where V = exact_validators
       and c = "always ?resp"
       and resp = "?resp"
       and w' = "()"
       and t = "''2024-01-01T00:00:00Z''"
       and d_Repository = "[(''key'', JString ''key''), (''name'', JString ''name''), (''owner'', JString ''owner''), (''clone_url'', JString ''clone_url''), (''html_url'', JString ''html_url''), (''created_at'', JString ''2024-01-01T00:00:00Z''), (''updated_at'', JString ''2024-01-01T00:00:00Z'')]"
       and r_key = "''key''"
       and r_name = "''name''"
       and r_owner = "''owner''"
       and r_clone_url = "''clone_url''"
       and r_html_url = "''html_url''"
       and r_created_at = "''2024-01-01T00:00:00Z''"
       and r_updated_at = "''2024-01-01T00:00:00Z''"
       and d_Issue = "[(''id'', JString ''id''), (''number'', JInt 1), (''title'', JString ''title''), (''state'', JString ''open''), (''author'', JString ''author''), (''created_at'', JString ''2024-01-01T00:00:00Z''), (''updated_at'', JString ''2024-01-01T00:00:00Z'')]"
       and i_id = "''id''"
       and i_number = "1"
       and i_title = "''title''"
       and i_state = "IssueState_OPEN"
       and i_author = "''author''"
       and i_created_at = "''2024-01-01T00:00:00Z''"
       and i_updated_at = "''2024-01-01T00:00:00Z''"
       and d_PullRequest = "[(''id'', JString ''id''), (''number'', JInt 1), (''title'', JString ''title''), (''state'', JString ''merged''), (''author'', JString ''author''), (''source_branch'', JString ''source_branch''), (''target_branch'', JString ''target_branch''), (''source_commit'', JString ''source_commit''), (''target_commit'', JString ''target_commit''), (''created_at'', JString ''2024-01-01T00:00:00Z''), (''updated_at'', JString ''2024-01-01T00:00:00Z'')]"
       and p_id = "''id''"
       and p_number = "1"
       and p_title = "''title''"
       and p_state = "PullRequestState_MERGED"
       and p_author = "''author''"
       and p_source_branch = "''source_branch''"
       and p_target_branch = "''target_branch''"
       and p_source_commit = "''source_commit''"
       and p_target_commit = "''target_commit''"
       and p_created_at = "''2024-01-01T00:00:00Z''"
       and p_updated_at = "''2024-01-01T00:00:00Z''"
       and d_Comment = "[(''id'', JString ''id''), (''body'', JString ''body''), (''author'', JString ''author''), (''created_at'', JString ''2024-01-01T00:00:00Z''), (''updated_at'', JString ''2024-01-01T00:00:00Z'')]"
       and c_id = "''id''"
       and c_body = "''body''"
       and c_author = "''author''"
       and c_created_at = "''2024-01-01T00:00:00Z''"
       and c_updated_at = "''2024-01-01T00:00:00Z''"
       and d_Review = "[(''id'', JString ''id''), (''pr_number'', JInt 1), (''author'', JString ''author''), (''state'', JString ''approved''), (''commit_id'', JString ''commit_id''), (''created_at'', JString ''2024-01-01T00:00:00Z'')]"
       and rv_id = "''id''"
       and rv_pr_number = "1"
       and rv_author = "''author''"
       and rv_state = "ReviewState_APPROVED"
       and rv_commit_id = "''commit_id''"
       and rv_created_at = "''2024-01-01T00:00:00Z''"
       and d_ReleaseAsset = "[(''id'', JString ''id''), (''name'', JString ''name''), (''content_type'', JString ''content_type''), (''size'', JInt 1), (''browser_download_url'', JString ''browser_download_url''), (''created_at'', JString ''2024-01-01T00:00:00Z''), (''uploader'', JString ''uploader'')]"
       and a_id = "''id''"
       and a_name = "''name''"
       and a_content_type = "''content_type''"
       and a_size = "1"
       and a_browser_download_url = "''browser_download_url''"
       and a_created_at = "''2024-01-01T00:00:00Z''"
       and a_uploader = "''uploader''"
       and d_Release = "[(''id'', JString ''id''), (''tag_name'', JString ''tag_name''), (''name'', JString ''name''), (''author'', JString ''author''), (''target_commitish'', JString ''target_commitish''), (''created_at'', JString ''2024-01-01T00:00:00Z'')]"
       and rl_id = "''id''"
       and rl_tag_name = "''tag_name''"
       and rl_name = "''name''"
       and rl_author = "''author''"
       and rl_target_commitish = "''target_commitish''"
       and rl_created_at = "''2024-01-01T00:00:00Z''"
       and d_Label = "[(''name'', JString ''name''), (''color'', JString ''color'')]"
       and l_name = "''name''"
       and l_color = "''color''"
       and d_User = "[(''id'', JString ''id''), (''username'', JString ''username''), (''public_key'', JString ''public_key''), (''created_at'', JString ''2024-01-01T00:00:00Z'')]"
       and u_id = "''id''"
       and u_username = "''username''"
       and u_public_key = "''public_key''"
       and u_created_at = "''2024-01-01T00:00:00Z''"
       and d_Organization = "[(''id'', JString ''id''), (''slug'', JString ''slug''), (''created_at'', JString ''2024-01-01T00:00:00Z'')]"
       and o_id = "''id''"
       and o_slug = "''slug''"
       and o_created_at = "''2024-01-01T00:00:00Z''"
       and d_Team = "[(''id'', JString ''id''), (''slug'', JString ''slug''), (''name'', JString ''name''), (''created_at'', JString ''2024-01-01T00:00:00Z'')]"
       and t_id = "''id''"
       and t_slug = "''slug''"
       and t_name = "''name''"
       and t_created_at = "''2024-01-01T00:00:00Z''"
       and d_Webhook = "[(''id'', JString ''id''), (''url'', JString ''url''), (''events'', JArray [JString ''push'', JString ''release'']), (''created_at'', JString ''2024-01-01T00:00:00Z''), (''updated_at'', JString ''2024-01-01T00:00:00Z'')]"
       and w_id = "''id''"
       and w_url = "''url''"
       and w_events = "[WebhookEvent_PUSH, WebhookEvent_RELEASE]"
       and w_created_at = "''2024-01-01T00:00:00Z''"
       and w_updated_at = "''2024-01-01T00:00:00Z''"
       and d_ConsensusStatus = "[(''height'', JInt 1), (''round'', JInt 1), (''phase'', JString ''phase''), (''synced'', JBool True), (''peers_count'', JInt 1), (''validators_count'', JInt 1), (''mempool_size'', JInt 1)]"
       and cs_height = "1"
       and cs_round = "1"
       and cs_phase = "''phase''"
       and cs_synced = "True"
       and cs_peers_count = "1"
       and cs_validators_count = "1"
       and cs_mempool_size = "1"
       and d_Block = "[(''height'', JInt 1), (''hash'', JString ''hash''), (''parent_hash'', JString ''parent_hash''), (''timestamp'', JString ''2024-01-01T00:00:00Z''), (''proposer'', JString ''proposer''), (''transactions_count'', JInt 1), (''size'', JInt 1)]"
       and b_height = "1"
       and b_hash = "''hash''"
       and b_parent_hash = "''parent_hash''"
       and b_timestamp = "''2024-01-01T00:00:00Z''"
       and b_proposer = "''proposer''"
       and b_transactions_count = "1"
       and b_size = "1"
       and d_Validator = "[(''public_key'', JString ''public_key''), (''address'', JString ''address''), (''active'', JBool True), (''voting_power'', JInt 1)]"
       and v_public_key = "''public_key''"
       and v_address = "''address''"
       and v_active = "True"
       and v_voting_power = "1"]
  have scenario: "fst (RepositoryAPI_get exact_validators
          (always ?resp)
          ''alice'' ''demo'')
     = Inr \<lparr>Repository_key = ''alice/demo'', Repository_name = ''demo'',
            Repository_owner = ''alice'', Repository_description = None,
            Repository_private = False, Repository_default_branch = ''main'',
            Repository_clone_url = ''https://x/demo.git'',
            Repository_html_url = ''https://x/alice/demo'',
            Repository_open_issues_count = 0, Repository_open_pull_requests_count = 0,
            Repository_created_at = ''2024-01-01T00:00:00Z'', Repository_updated_at = ''2024-01-01T00:00:00Z'',
            Repository_pushed_at = None\<rparr>"
    using inst [THEN conjunct1]
    by (simp add: always_def is_success_def exact_validators_def)
  have w_Repository: "new_Repository exact_validators
       (JObject [(''key'', JString ''key''), (''name'', JString ''name''),
                (''owner'', JString ''owner''), (''clone_url'', JString ''clone_url''),
                (''html_url'', JString ''html_url''),
                (''created_at'', JString ''2024-01-01T00:00:00Z''),
                (''updated_at'', JString ''2024-01-01T00:00:00Z'')])
     = Inr \<lparr>Repository_key = ''key'', Repository_name = ''name'',
            Repository_owner = ''owner'', Repository_description = None,
            Repository_private = False, Repository_default_branch = ''main'',
            Repository_clone_url = ''clone_url'', Repository_html_url = ''html_url'',
            Repository_open_issues_count = 0,
            Repository_open_pull_requests_count = 0,
            Repository_created_at = ''2024-01-01T00:00:00Z'',
            Repository_updated_at = ''2024-01-01T00:00:00Z'',
            Repository_pushed_at = None\<rparr>"
    using inst [THEN conjunct2, THEN conjunct1]
    by (simp add: required_def exact_validators_def validate_IssueState_def
          validate_PullRequestState_def validate_ReviewState_def validate_WebhookEvent_def
          validate_enum_def v_list_def)
  have w_Issue: "new_Issue exact_validators
       (JObject [(''id'', JString ''id''), (''number'', JInt 1),
                (''title'', JString ''title''), (''state'', JString ''open''),
                (''author'', JString ''author''),
                (''created_at'', JString ''2024-01-01T00:00:00Z''),
                (''updated_at'', JString ''2024-01-01T00:00:00Z'')])
     = Inr \<lparr>Issue_id = ''id'', Issue_number = 1, Issue_title = ''title'',
            Issue_body = None, Issue_state = IssueState_OPEN,
            Issue_author = ''author'', Issue_assignees = [], Issue_labels = [],
            Issue_milestone = None, Issue_comments_count = 0,
            Issue_created_at = ''2024-01-01T00:00:00Z'',
            Issue_updated_at = ''2024-01-01T00:00:00Z'', Issue_closed_at = None,
            Issue_closed_by = None\<rparr>"
    using inst [THEN conjunct2, THEN conjunct2, THEN conjunct1]
    by (simp add: required_def exact_validators_def validate_IssueState_def
          validate_PullRequestState_def validate_ReviewState_def validate_WebhookEvent_def
          validate_enum_def v_list_def)
  have w_PullRequest: "new_PullRequest exact_validators
       (JObject [(''id'', JString ''id''), (''number'', JInt 1),
                (''title'', JString ''title''), (''state'', JString ''merged''),
                (''author'', JString ''author''),
                (''source_branch'', JString ''source_branch''),
                (''target_branch'', JString ''target_branch''),
                (''source_commit'', JString ''source_commit''),
                (''target_commit'', JString ''target_commit''),
                (''created_at'', JString ''2024-01-01T00:00:00Z''),
                (''updated_at'', JString ''2024-01-01T00:00:00Z'')])
     = Inr \<lparr>PullRequest_id = ''id'', PullRequest_number = 1,
            PullRequest_title = ''title'', PullRequest_body = None,
            PullRequest_state = PullRequestState_MERGED,
            PullRequest_author = ''author'',
            PullRequest_source_branch = ''source_branch'',
            PullRequest_target_branch = ''target_branch'',
            PullRequest_source_commit = ''source_commit'',
            PullRequest_target_commit = ''target_commit'',
            PullRequest_mergeable = None, PullRequest_draft = False,
            PullRequest_reviewers = [], PullRequest_labels = [],
            PullRequest_comments_count = 0, PullRequest_commits_count = 0,
            PullRequest_changed_files = 0, PullRequest_additions = 0,
            PullRequest_deletions = 0,
            PullRequest_created_at = ''2024-01-01T00:00:00Z'',
            PullRequest_updated_at = ''2024-01-01T00:00:00Z'',
            PullRequest_merged_at = None, PullRequest_merged_by = None,
            PullRequest_closed_at = None\<rparr>"
    using inst [THEN conjunct2, THEN conjunct2, THEN conjunct2, THEN conjunct1]
    by (simp add: required_def exact_validators_def validate_IssueState_def
          validate_PullRequestState_def validate_ReviewState_def validate_WebhookEvent_def
          validate_enum_def v_list_def)
  have w_Comment: "new_Comment exact_validators
       (JObject [(''id'', JString ''id''), (''body'', JString ''body''),
                (''author'', JString ''author''),
                (''created_at'', JString ''2024-01-01T00:00:00Z''),
                (''updated_at'', JString ''2024-01-01T00:00:00Z'')])
     = Inr \<lparr>Comment_id = ''id'', Comment_body = ''body'',
            Comment_author = ''author'',
            Comment_created_at = ''2024-01-01T00:00:00Z'',
            Comment_updated_at = ''2024-01-01T00:00:00Z''\<rparr>"
    using inst [THEN conjunct2, THEN conjunct2, THEN conjunct2, THEN conjunct2, THEN conjunct1]
    by (simp add: required_def exact_validators_def validate_IssueState_def
          validate_PullRequestState_def validate_ReviewState_def validate_WebhookEvent_def
          validate_enum_def v_list_def)
  have w_Review: "new_Review exact_validators
       (JObject [(''id'', JString ''id''), (''pr_number'', JInt 1),
                (''author'', JString ''author''), (''state'', JString ''approved''),
                (''commit_id'', JString ''commit_id''),
                (''created_at'', JString ''2024-01-01T00:00:00Z'')])
     = Inr \<lparr>Review_id = ''id'', Review_pr_number = 1, Review_author = ''author'',
            Review_state = ReviewState_APPROVED, Review_body = None,
            Review_commit_id = ''commit_id'',
            Review_created_at = ''2024-01-01T00:00:00Z'', Review_submitted_at = None\<rparr>"
    using inst [THEN conjunct2, THEN conjunct2, THEN conjunct2, THEN conjunct2, THEN conjunct2, THEN conjunct1]
    by (simp add: required_def exact_validators_def validate_IssueState_def
          validate_PullRequestState_def validate_ReviewState_def validate_WebhookEvent_def
          validate_enum_def v_list_def)
  have w_ReleaseAsset: "new_ReleaseAsset exact_validators
       (JObject [(''id'', JString ''id''), (''name'', JString ''name''),
                (''content_type'', JString ''content_type''), (''size'', JInt 1),
                (''browser_download_url'', JString ''browser_download_url''),
                (''created_at'', JString ''2024-01-01T00:00:00Z''),
                (''uploader'', JString ''uploader'')])
     = Inr \<lparr>ReleaseAsset_id = ''id'', ReleaseAsset_name = ''name'',
            ReleaseAsset_content_type = ''content_type'', ReleaseAsset_size = 1,
            ReleaseAsset_download_count = 0,
            ReleaseAsset_browser_download_url = ''browser_download_url'',
            ReleaseAsset_created_at = ''2024-01-01T00:00:00Z'',
            ReleaseAsset_uploader = ''uploader''\<rparr>"
    using inst [THEN conjunct2, THEN conjunct2, THEN conjunct2, THEN conjunct2, THEN conjunct2, THEN conjunct2, THEN conjunct1]
    by (simp add: required_def exact_validators_def validate_IssueState_def
          validate_PullRequestState_def validate_ReviewState_def validate_WebhookEvent_def
          validate_enum_def v_list_def)
  have w_Release: "new_Release exact_validators
       (JObject [(''id'', JString ''id''), (''tag_name'', JString ''tag_name''),
                (''name'', JString ''name''), (''author'', JString ''author''),
                (''target_commitish'', JString ''target_commitish''),
                (''created_at'', JString ''2024-01-01T00:00:00Z'')])
     = Inr \<lparr>Release_id = ''id'', Release_tag_name = ''tag_name'',
            Release_name = ''name'', Release_body = None, Release_draft = False,
            Release_prerelease = False, Release_author = ''author'',
            Release_target_commitish = ''target_commitish'', Release_assets = [],
            Release_created_at = ''2024-01-01T00:00:00Z'',
            Release_published_at = None\<rparr>"
    using inst [THEN conjunct2, THEN conjunct2, THEN conjunct2, THEN conjunct2, THEN conjunct2, THEN conjunct2, THEN conjunct2, THEN conjunct1]
    by (simp add: required_def exact_validators_def validate_IssueState_def
          validate_PullRequestState_def validate_ReviewState_def validate_WebhookEvent_def
          validate_enum_def v_list_def)
  have w_Label: "new_Label exact_validators
       (JObject [(''name'', JString ''name''), (''color'', JString ''color'')])
     = Inr \<lparr>Label_name = ''name'', Label_color = ''color'', Label_description = None\<rparr>"
    using inst [THEN conjunct2, THEN conjunct2, THEN conjunct2, THEN conjunct2, THEN conjunct2, THEN conjunct2, THEN conjunct2, THEN conjunct2, THEN conjunct1]
    by (simp add: required_def exact_validators_def validate_IssueState_def
          validate_PullRequestState_def validate_ReviewState_def validate_WebhookEvent_def
          validate_enum_def v_list_def)
  have w_User: "new_User exact_validators
       (JObject [(''id'', JString ''id''), (''username'', JString ''username''),
                (''public_key'', JString ''public_key''),
                (''created_at'', JString ''2024-01-01T00:00:00Z'')])
     = Inr \<lparr>User_id = ''id'', User_username = ''username'', User_display_name = None,
            User_avatar_url = None, User_bio = None,
            User_public_key = ''public_key'',
            User_created_at = ''2024-01-01T00:00:00Z''\<rparr>"
    using inst [THEN conjunct2, THEN conjunct2, THEN conjunct2, THEN conjunct2, THEN conjunct2, THEN conjunct2, THEN conjunct2, THEN conjunct2, THEN conjunct2, THEN conjunct1]
    by (simp add: required_def exact_validators_def validate_IssueState_def
          validate_PullRequestState_def validate_ReviewState_def validate_WebhookEvent_def
          validate_enum_def v_list_def)
  have w_Organization: "new_Organization exact_validators
       (JObject [(''id'', JString ''id''), (''slug'', JString ''slug''),
                (''created_at'', JString ''2024-01-01T00:00:00Z'')])
     = Inr \<lparr>Organization_id = ''id'', Organization_slug = ''slug'',
            Organization_display_name = None, Organization_description = None,
            Organization_avatar_url = None, Organization_members_count = 0,
            Organization_repos_count = 0,
            Organization_created_at = ''2024-01-01T00:00:00Z''\<rparr>"
    using inst [THEN conjunct2, THEN conjunct2, THEN conjunct2, THEN conjunct2, THEN conjunct2, THEN conjunct2, THEN conjunct2, THEN conjunct2, THEN conjunct2, THEN conjunct2, THEN conjunct1]
    by (simp add: required_def exact_validators_def validate_IssueState_def
          validate_PullRequestState_def validate_ReviewState_def validate_WebhookEvent_def
          validate_enum_def v_list_def)
  have w_Team: "new_Team exact_validators
       (JObject [(''id'', JString ''id''), (''slug'', JString ''slug''),
                (''name'', JString ''name''),
                (''created_at'', JString ''2024-01-01T00:00:00Z'')])
     = Inr \<lparr>Team_id = ''id'', Team_slug = ''slug'', Team_name = ''name'',
            Team_description = None, Team_permission = ''read'',
            Team_members_count = 0, Team_repos_count = 0,
            Team_created_at = ''2024-01-01T00:00:00Z''\<rparr>"
    using inst [THEN conjunct2, THEN conjunct2, THEN conjunct2, THEN conjunct2, THEN conjunct2, THEN conjunct2, THEN conjunct2, THEN conjunct2, THEN conjunct2, THEN conjunct2, THEN conjunct2, THEN conjunct1]
    by (simp add: required_def exact_validators_def validate_IssueState_def
          validate_PullRequestState_def validate_ReviewState_def validate_WebhookEvent_def
          validate_enum_def v_list_def)
  have w_Webhook: "new_Webhook exact_validators
       (JObject [(''id'', JString ''id''), (''url'', JString ''url''),
                (''events'', JArray [JString ''push'', JString ''release'']),
                (''created_at'', JString ''2024-01-01T00:00:00Z''),
                (''updated_at'', JString ''2024-01-01T00:00:00Z'')])
     = Inr \<lparr>Webhook_id = ''id'', Webhook_url = ''url'',
            Webhook_events = [WebhookEvent_PUSH, WebhookEvent_RELEASE],
            Webhook_active = True, Webhook_secret = None,
            Webhook_content_type = ''json'',
            Webhook_created_at = ''2024-01-01T00:00:00Z'',
            Webhook_updated_at = ''2024-01-01T00:00:00Z'',
            Webhook_last_delivery_at = None\<rparr>"
    using inst [THEN conjunct2, THEN conjunct2, THEN conjunct2, THEN conjunct2, THEN conjunct2, THEN conjunct2, THEN conjunct2, THEN conjunct2, THEN conjunct2, THEN conjunct2, THEN conjunct2, THEN conjunct2, THEN conjunct1]
    by (simp add: required_def exact_validators_def validate_IssueState_def
          validate_PullRequestState_def validate_ReviewState_def validate_WebhookEvent_def
          validate_enum_def v_list_def)
  have w_ConsensusStatus: "new_ConsensusStatus exact_validators
       (JObject [(''height'', JInt 1), (''round'', JInt 1), (''phase'', JString ''phase''),
                (''synced'', JBool True), (''peers_count'', JInt 1),
                (''validators_count'', JInt 1), (''mempool_size'', JInt 1)])
     = Inr \<lparr>ConsensusStatus_height = 1, ConsensusStatus_round = 1,
            ConsensusStatus_phase = ''phase'', ConsensusStatus_synced = True,
            ConsensusStatus_peers_count = 1, ConsensusStatus_validators_count = 1,
            ConsensusStatus_mempool_size = 1, ConsensusStatus_last_block_time = None\<rparr>"
    using inst [THEN conjunct2, THEN conjunct2, THEN conjunct2, THEN conjunct2, THEN conjunct2, THEN conjunct2, THEN conjunct2, THEN conjunct2, THEN conjunct2, THEN conjunct2, THEN conjunct2, THEN conjunct2, THEN conjunct2, THEN conjunct1]
    by (simp add: required_def exact_validators_def validate_IssueState_def
          validate_PullRequestState_def validate_ReviewState_def validate_WebhookEvent_def
          validate_enum_def v_list_def)
  have w_Block: "new_Block exact_validators
       (JObject [(''height'', JInt 1), (''hash'', JString ''hash''),
                (''parent_hash'', JString ''parent_hash''),
                (''timestamp'', JString ''2024-01-01T00:00:00Z''),
                (''proposer'', JString ''proposer''), (''transactions_count'', JInt 1),
                (''size'', JInt 1)])
     = Inr \<lparr>Block_height = 1, Block_hash = ''hash'',
            Block_parent_hash = ''parent_hash'',
            Block_timestamp = ''2024-01-01T00:00:00Z'',
            Block_proposer = ''proposer'', Block_transactions_count = 1,
            Block_size = 1\<rparr>"
    using inst [THEN conjunct2, THEN conjunct2, THEN conjunct2, THEN conjunct2, THEN conjunct2, THEN conjunct2, THEN conjunct2, THEN conjunct2, THEN conjunct2, THEN conjunct2, THEN conjunct2, THEN conjunct2, THEN conjunct2, THEN conjunct2, THEN conjunct1]
    by (simp add: required_def exact_validators_def validate_IssueState_def
          validate_PullRequestState_def validate_ReviewState_def validate_WebhookEvent_def
          validate_enum_def v_list_def)
  have w_Validator: "new_Validator exact_validators
       (JObject [(''public_key'', JString ''public_key''), (''address'', JString ''address''),
                (''active'', JBool True), (''voting_power'', JInt 1)])
     = Inr \<lparr>Validator_public_key = ''public_key'', Validator_address = ''address'',
            Validator_active = True, Validator_voting_power = 1,
            Validator_last_seen = None\<rparr>"
    using inst [THEN conjunct2, THEN conjunct2, THEN conjunct2, THEN conjunct2, THEN conjunct2, THEN conjunct2, THEN conjunct2, THEN conjunct2, THEN conjunct2, THEN conjunct2, THEN conjunct2, THEN conjunct2, THEN conjunct2, THEN conjunct2, THEN conjunct2]
    by (simp add: required_def exact_validators_def validate_IssueState_def
          validate_PullRequestState_def validate_ReviewState_def validate_WebhookEvent_def
          validate_enum_def v_list_def)
  show ?thesis
    using scenario w_Repository w_Issue w_PullRequest w_Comment w_Review w_ReleaseAsset w_Release
      w_Label w_User w_Organization w_Team w_Webhook w_ConsensusStatus w_Block w_Validator
    by (intro conjI)
qed

end
